theory Spec2Isabelle
  imports Main
begin

section \<open>The deployment script (deploy.js): data model\<close>

text \<open>
  The script deploys a static site by running \<^verbatim>\<open>ssh\<close> and \<^verbatim>\<open>rsync\<close> as child
  processes.  Its functions are embedded as HOL functions over an explicit state.

  \<^item> JavaScript strings are \<open>string\<close>; a character is a code unit below 256, which
    covers every string the script itself writes.
  \<^item> An \<^verbatim>\<open>async\<close> function returns \<open>(halt + 'a) \<times> state\<close>: \<open>Inr\<close> is the value its
    promise resolves to, \<open>Inl (Error m)\<close> a rejected promise (a thrown \<^verbatim>\<open>Error\<close>),
    \<open>Inl Pending\<close> a promise that never settles.  A function that is not
    \<^verbatim>\<open>async\<close> but can throw returns \<open>halt + 'a\<close>, with the state when it changes
    it.
  \<^item> Everything the script does that can be observed (console lines, child
    processes with their outcome, prompts with the answer typed) is appended to
    a trace, in program order.
  \<^item> The outside (the remote host reached by the child processes) is a value of
    an arbitrary type \<open>'w\<close>, changed only by running a command.
  \<^item> Console texts are the ASCII part of the source's texts: the leading blank
    line and pictograph of a message are left out.
\<close>

record config =
  host :: string
  user :: string
  port :: string
  keyPath :: string
  remotePath :: string
  backupPath :: string
  localPath :: string
  exclude :: "string list"
  maxBackups :: int
  requireConfirmation :: bool

text \<open>
  The contents of \<^verbatim>\<open>deploy-config.json\<close>: a JSON object holding some of the fields of
  the configuration, each of the type \<^verbatim>\<open>DEFAULT_CONFIG\<close> gives it.
\<close>

record user_config =
  u_host :: "string option"
  u_user :: "string option"
  u_port :: "string option"
  u_keyPath :: "string option"
  u_remotePath :: "string option"
  u_backupPath :: "string option"
  u_localPath :: "string option"
  u_exclude :: "string list option"
  u_maxBackups :: "int option"
  u_requireConfirmation :: "bool option"

text \<open>
  Why an \<^verbatim>\<open>await\<close> does not continue: the promise was rejected with an \<^verbatim>\<open>Error\<close>, or
  it never settles.  The second happens at a prompt of \<^verbatim>\<open>readline\<close> when the input
  ends before a line is typed: the callback of \<^verbatim>\<open>rl.question\<close> is never called.
\<close>

datatype halt = Error (message: string) | Pending

text \<open>
  The file \<^verbatim>\<open>deploy-config.json\<close>: it does not exist; or it exists and
  \<^verbatim>\<open>fs.readFileSync\<close> or \<^verbatim>\<open>JSON.parse\<close> throws an error with the message given; or it
  holds a JSON value, of which only the fields of the configuration count (a JSON
  value that is not an object has none of them).
\<close>

datatype config_file = Absent | Unreadable string | Json user_config

text \<open>
  How a child process ends: the \<^verbatim>\<open>close\<close> event with its exit code (\<open>None\<close> when a
  signal killed it) and what it wrote to stdout and stderr, or the \<^verbatim>\<open>error\<close> event
  when it could not be spawned.
\<close>

datatype outcome =
    Closed "nat option" string string
  | SpawnFailed string

text \<open>
  What can be observed: a line on the console (\<^verbatim>\<open>console.log\<close>, \<^verbatim>\<open>console.error\<close>,
  \<^verbatim>\<open>console.warn\<close>), a child process with its arguments and outcome, a prompt with
  the line typed in answer, and a prompt at which the input ended.
\<close>

datatype event =
    Log string
  | Err string
  | Warn string
  | Ran string "string list" outcome
  | Asked string string
  | Unanswered string

record 'w state =
  world :: 'w
  trace :: "event list"
  asked :: nat
  configFile :: config_file

text \<open>
  What the script reads and does not change: the child processes (\<open>exec\<close> runs
  a program with its arguments in the outside world), \<^verbatim>\<open>process.env.HOME\<close> as the
  string \<^verbatim>\<open>replace\<close> makes of it, \<^verbatim>\<open>DEFAULT_CONFIG\<close> (computed from the environment
  variables when the module loads), \<^verbatim>\<open>fs.existsSync\<close> on the local source directory,
  the clock read by \<^verbatim>\<open>new Date().toISOString()\<close>, the error \<^verbatim>\<open>fs.writeFileSync\<close> throws
  for \<^verbatim>\<open>deploy-config.json\<close> when the file cannot be written, and the lines the user
  types: \<open>stdin env n\<close> is the answer to the prompt number \<open>n\<close>, \<open>None\<close> when the
  input ended before that prompt was answered.
\<close>

record 'w env =
  exec :: "'w \<Rightarrow> string \<Rightarrow> string list \<Rightarrow> outcome \<times> 'w"
  home :: string
  DEFAULT_CONFIG :: config
  pathExists :: "string \<Rightarrow> bool"
  isoNow :: string
  writeError :: "string option"
  stdin :: "nat \<Rightarrow> string option"

record cmd_result =
  stdout :: string
  stderr :: string
  code :: nat

section \<open>JavaScript library functions the script uses\<close>

definition nl :: char where
  "nl = CHR 0x0A"

definition isWhiteSpace :: "char \<Rightarrow> bool" where
  "isWhiteSpace c \<longleftrightarrow> c \<in> set [CHR 0x09, CHR 0x0A, CHR 0x0B, CHR 0x0C, CHR 0x0D, CHR 0x20, CHR 0xA0]"

definition trim :: "string \<Rightarrow> string" where
  "trim s = rev (dropWhile isWhiteSpace (rev (dropWhile isWhiteSpace s)))"

text \<open>\<^verbatim>\<open>s.split(sep)\<close> for a separator of one character: \<^verbatim>\<open>"".split("\n")\<close> is \<^verbatim>\<open>[""]\<close>.\<close>

fun split :: "char \<Rightarrow> string \<Rightarrow> string list" where
  "split sep [] = [[]]"
| "split sep (c # cs) =
     (if c = sep then [] # split sep cs
      else (case split sep cs of [] \<Rightarrow> [[c]] | l # ls \<Rightarrow> (c # l) # ls))"

text \<open>\<^verbatim>\<open>xs.filter(Boolean)\<close> on strings: the empty string is the only falsy one.\<close>

definition filterBoolean :: "string list \<Rightarrow> string list" where
  "filterBoolean xs = filter (\<lambda>x. x \<noteq> []) xs"

text \<open>\<^verbatim>\<open>xs.slice(start)\<close>: a negative start counts from the end.\<close>

definition slice :: "'a list \<Rightarrow> int \<Rightarrow> 'a list" where
  "slice xs start =
     (let len = int (length xs);
          k = (if start < 0 then max (len + start) 0 else min start len)
      in drop (nat k) xs)"

fun join :: "string \<Rightarrow> string list \<Rightarrow> string" where
  "join sep [] = []"
| "join sep [x] = x"
| "join sep (x # y # ys) = x @ sep @ join sep (y # ys)"

definition toLowerChar :: "char \<Rightarrow> char" where
  "toLowerChar c =
     (let n = (of_char c :: nat)
      in if (65 \<le> n \<and> n \<le> 90) \<or> (192 \<le> n \<and> n \<le> 222 \<and> n \<noteq> 215)
         then char_of (n + 32) else c)"

definition toLowerCase :: "string \<Rightarrow> string" where
  "toLowerCase s = map toLowerChar s"

fun showNat :: "nat \<Rightarrow> string" where
  "showNat n =
     (if n < 10 then [char_of (48 + n)]
      else showNat (n div 10) @ [char_of (48 + n mod 10)])"

definition showInt :: "int \<Rightarrow> string" where
  "showInt i = (if i < 0 then CHR ''-'' # showNat (nat (- i)) else showNat (nat i))"

text \<open>\<^verbatim>\<open>`${code}`\<close> for an exit code: \<^verbatim>\<open>null\<close> when a signal ended the process.\<close>

definition showCode :: "nat option \<Rightarrow> string" where
  "showCode c = (case c of None \<Rightarrow> ''null'' | Some n \<Rightarrow> showNat n)"

text \<open>
  \<^verbatim>\<open>config.keyPath.replace(/^~/, process.env.HOME)\<close>.  The second argument of
  \<^verbatim>\<open>replace\<close> is a replacement pattern, which \<open>substitute\<close> expands: \<^verbatim>\<open>$$\<close> is a dollar
  sign, \<^verbatim>\<open>$&\<close> the text matched (the tilde), \<^verbatim>\<open>$`\<close> the text before the match (empty,
  the match being at the start) and \<^verbatim>\<open>$'\<close> the text after the match, here \<open>rest\<close>.
  The regular expression has no group, so any other \<^verbatim>\<open>$\<close> stands for itself.
\<close>

fun substitute :: "string \<Rightarrow> string \<Rightarrow> string" where
  "substitute rest (c # d # r) =
     (if c = CHR ''$'' \<and> d = CHR ''$'' then CHR ''$'' # substitute rest r
      else if c = CHR ''$'' \<and> d = CHR ''&'' then CHR ''~'' # substitute rest r
      else if c = CHR ''$'' \<and> d = CHR 0x60 then substitute rest r
      else if c = CHR ''$'' \<and> d = CHR 0x27 then rest @ substitute rest r
      else c # substitute rest (d # r))"
| "substitute rest r = r"

definition expandHome :: "string \<Rightarrow> string \<Rightarrow> string" where
  "expandHome h p =
     (case p of [] \<Rightarrow> [] | c # cs \<Rightarrow> if c = CHR ''~'' then substitute cs h @ cs else p)"

text \<open>\<^verbatim>\<open>.replace(/[:.]/g, "-")\<close>\<close>

definition dashes :: "string \<Rightarrow> string" where
  "dashes s = map (\<lambda>c. if c = CHR '':'' \<or> c = CHR ''.'' then CHR ''-'' else c) s"

section \<open>Sequencing, exceptions, the trace\<close>

definition emit :: "event \<Rightarrow> 'w state \<Rightarrow> 'w state" where
  "emit e s = s\<lparr>trace := trace s @ [e]\<rparr>"

definition emits :: "event list \<Rightarrow> 'w state \<Rightarrow> 'w state" where
  "emits es s = s\<lparr>trace := trace s @ es\<rparr>"

text \<open>
  \<^verbatim>\<open>const v = await m; f(v)\<close>: a rejection of \<open>m\<close> leaves the block, and nothing after
  the \<^verbatim>\<open>await\<close> runs when \<open>m\<close> never settles.
\<close>

definition andThen ::
  "(halt + 'a) \<times> 's \<Rightarrow> ('a \<Rightarrow> 's \<Rightarrow> (halt + 'b) \<times> 's) \<Rightarrow> (halt + 'b) \<times> 's" where
  "andThen m f = (case m of (Inl e, s) \<Rightarrow> (Inl e, s) | (Inr v, s) \<Rightarrow> f v s)"

text \<open>
  \<^verbatim>\<open>try { m } catch (error) { h(error) }\<close>: the handler runs for a thrown error only.
\<close>

definition tryCatch ::
  "(halt + 'a) \<times> 's \<Rightarrow> (halt \<Rightarrow> 's \<Rightarrow> (halt + 'a) \<times> 's) \<Rightarrow> (halt + 'a) \<times> 's" where
  "tryCatch m h =
     (case m of
        (Inl (Error msg), s) \<Rightarrow> h (Error msg) s
      | (Inl Pending, s) \<Rightarrow> (Inl Pending, s)
      | (Inr v, s) \<Rightarrow> (Inr v, s))"

section \<open>The functions of the script\<close>

text \<open>
  \<open>loadConfig\<close> and \<open>saveConfig\<close> are not \<^verbatim>\<open>async\<close>: they return or throw at once.
  \<open>loadConfig\<close> throws what \<^verbatim>\<open>fs.readFileSync\<close> or \<^verbatim>\<open>JSON.parse\<close> throws; the object
  spread lets the fields of the file override those of \<^verbatim>\<open>DEFAULT_CONFIG\<close>.
\<close>

definition loadConfig :: "'w env \<Rightarrow> 'w state \<Rightarrow> halt + config" where
  "loadConfig env s =
     (let d = DEFAULT_CONFIG env in
      case configFile s of
        Absent \<Rightarrow> Inr d
      | Unreadable m \<Rightarrow> Inl (Error m)
      | Json u \<Rightarrow> Inr
          \<lparr> host = (case u_host u of Some v \<Rightarrow> v | None \<Rightarrow> host d),
            user = (case u_user u of Some v \<Rightarrow> v | None \<Rightarrow> user d),
            port = (case u_port u of Some v \<Rightarrow> v | None \<Rightarrow> port d),
            keyPath = (case u_keyPath u of Some v \<Rightarrow> v | None \<Rightarrow> keyPath d),
            remotePath = (case u_remotePath u of Some v \<Rightarrow> v | None \<Rightarrow> remotePath d),
            backupPath = (case u_backupPath u of Some v \<Rightarrow> v | None \<Rightarrow> backupPath d),
            localPath = (case u_localPath u of Some v \<Rightarrow> v | None \<Rightarrow> localPath d),
            exclude = (case u_exclude u of Some v \<Rightarrow> v | None \<Rightarrow> exclude d),
            maxBackups = (case u_maxBackups u of Some v \<Rightarrow> v | None \<Rightarrow> maxBackups d),
            requireConfirmation =
              (case u_requireConfirmation u of Some v \<Rightarrow> v | None \<Rightarrow> requireConfirmation d) \<rparr>)"

text \<open>
  \<open>saveConfig\<close> throws what \<^verbatim>\<open>fs.writeFileSync\<close> throws, before its console line; the
  file written holds every field but \<^verbatim>\<open>localPath\<close>.
\<close>

definition saveConfig :: "'w env \<Rightarrow> config \<Rightarrow> 'w state \<Rightarrow> (halt + unit) \<times> 'w state" where
  "saveConfig env cfg s =
     (case writeError env of
        Some m \<Rightarrow> (Inl (Error m), s)
      | None \<Rightarrow>
          (Inr (),
           emit (Log ''Configuration saved to: deploy-config.json'')
             (s\<lparr>configFile := Json
                  \<lparr> u_host = Some (host cfg), u_user = Some (user cfg), u_port = Some (port cfg),
                    u_keyPath = Some (keyPath cfg), u_remotePath = Some (remotePath cfg),
                    u_backupPath = Some (backupPath cfg), u_localPath = None,
                    u_exclude = Some (exclude cfg), u_maxBackups = Some (maxBackups cfg),
                    u_requireConfirmation = Some (requireConfirmation cfg) \<rparr>\<rparr>)))"

text \<open>
  \<open>runCommand\<close>: the output of the child is captured only when \<open>silent\<close>
  (\<^verbatim>\<open>stdio: "pipe"\<close>); otherwise it goes to the terminal and \<^verbatim>\<open>stdout\<close>, \<^verbatim>\<open>stderr\<close>
  stay empty.  \<open>settle\<close> is what the handlers of the \<^verbatim>\<open>close\<close> and \<^verbatim>\<open>error\<close> events do
  with the promise.
\<close>

definition settle :: "bool \<Rightarrow> outcome \<Rightarrow> halt + cmd_result" where
  "settle silent out =
     (case out of
        SpawnFailed m \<Rightarrow> Inl (Error m)
      | Closed c so se \<Rightarrow>
          (let sout = (if silent then so else []);
               serr = (if silent then se else [])
           in if c = Some 0 then Inr \<lparr>stdout = sout, stderr = serr, code = 0\<rparr>
              else Inl (Error (''Command failed with code '' @ showCode c @ [nl]
                                 @ (if serr \<noteq> [] then serr else sout)))))"

definition runCommand ::
  "'w env \<Rightarrow> string \<Rightarrow> string list \<Rightarrow> bool \<Rightarrow> 'w state \<Rightarrow> (halt + cmd_result) \<times> 'w state" where
  "runCommand env command args silent s =
     (let s1 = emit (Log (''Running: '' @ command @ '' '' @ join '' '' args)) s;
          (out, w) = exec env (world s1) command args
      in (settle silent out, emit (Ran command args out) (s1\<lparr>world := w\<rparr>)))"

text \<open>The argument list every \<^verbatim>\<open>ssh\<close> call of the script builds.\<close>

definition sshArgs :: "config \<Rightarrow> string \<Rightarrow> string \<Rightarrow> string list" where
  "sshArgs cfg kp sh = [''-i'', kp, ''-p'', port cfg, user cfg @ ''@'' @ host cfg, sh]"

text \<open>The remote shell command lines the script builds.\<close>

definition echoCommand :: string where
  "echoCommand = ''echo '' @ [CHR 0x22] @ ''Connection successful'' @ [CHR 0x22]"

definition mkdirCommand :: "config \<Rightarrow> string" where
  "mkdirCommand cfg = ''mkdir -p '' @ backupPath cfg"

definition copyCommand :: "config \<Rightarrow> string \<Rightarrow> string" where
  "copyCommand cfg backupName =
     ''cp -r '' @ remotePath cfg @ '' '' @ backupPath cfg @ ''/'' @ backupName"

definition listCommand :: "config \<Rightarrow> string" where
  "listCommand cfg = ''ls -1t '' @ backupPath cfg"

definition removeCommand :: "config \<Rightarrow> string \<Rightarrow> string" where
  "removeCommand cfg backup = ''rm -rf '' @ backupPath cfg @ ''/'' @ backup"

definition restoreCommand :: "config \<Rightarrow> string \<Rightarrow> string" where
  "restoreCommand cfg targetBackup =
     ''rm -rf '' @ remotePath cfg @ '' && cp -r '' @ backupPath cfg @ ''/'' @ targetBackup
       @ '' '' @ remotePath cfg"

definition testConnection :: "'w env \<Rightarrow> config \<Rightarrow> 'w state \<Rightarrow> (halt + bool) \<times> 'w state" where
  "testConnection env cfg s =
     (let s1 = emit (Log ''Testing SSH connection...'') s;
          kp = expandHome (home env) (keyPath cfg)
      in tryCatch
           (andThen (runCommand env ''ssh'' (sshArgs cfg kp echoCommand) True s1)
              (\<lambda>_ s2. (Inr True, emit (Log ''SSH connection successful'') s2)))
           (\<lambda>e s2. (Inr False,
              emits [Err (''SSH connection failed: '' @ message e),
                     Err ''Troubleshooting:'',
                     Err ''  1. Check that your SSH key is correct'',
                     Err ''  2. Verify the host, user, and port'',
                     Err (''  3. Test manually: ssh -i '' @ kp @ '' '' @ user cfg @ ''@'' @ host cfg)]
                s2)))"

fun deleteEach ::
  "'w env \<Rightarrow> config \<Rightarrow> string \<Rightarrow> string list \<Rightarrow> 'w state \<Rightarrow> (halt + unit) \<times> 'w state" where
  "deleteEach env cfg kp [] s = (Inr (), s)"
| "deleteEach env cfg kp (backup # rest) s =
     andThen
       (runCommand env ''ssh'' (sshArgs cfg kp (removeCommand cfg backup)) True s)
       (\<lambda>_ s1. deleteEach env cfg kp rest (emit (Log (''   Deleted: '' @ backup)) s1))"

definition parseListing :: "string \<Rightarrow> string list" where
  "parseListing out = filterBoolean (split nl (trim out))"

text \<open>The \<^verbatim>\<open>try\<close> block of \<open>cleanOldBackups\<close>, then the function.\<close>

definition cleanSteps :: "'w env \<Rightarrow> config \<Rightarrow> 'w state \<Rightarrow> (halt + unit) \<times> 'w state" where
  "cleanSteps env cfg s =
     (let kp = expandHome (home env) (keyPath cfg)
      in andThen
           (runCommand env ''ssh'' (sshArgs cfg kp (listCommand cfg)) True s)
           (\<lambda>result s1.
              let backups = parseListing (stdout result)
              in if int (length backups) > maxBackups cfg
                 then deleteEach env cfg kp (slice backups (maxBackups cfg))
                        (emit (Log (''Cleaning old backups (keeping '' @ showInt (maxBackups cfg)
                                      @ '' most recent)...'')) s1)
                 else (Inr (), s1)))"

definition cleanOldBackups :: "'w env \<Rightarrow> config \<Rightarrow> 'w state \<Rightarrow> (halt + unit) \<times> 'w state" where
  "cleanOldBackups env cfg s =
     tryCatch (cleanSteps env cfg s)
       (\<lambda>e s1. (Inr (), emit (Warn (''Could not clean old backups: '' @ message e)) s1))"

definition backupNameOf :: "'w env \<Rightarrow> string" where
  "backupNameOf env = ''backup-'' @ dashes (isoNow env)"

definition createBackup :: "'w env \<Rightarrow> config \<Rightarrow> 'w state \<Rightarrow> (halt + string) \<times> 'w state" where
  "createBackup env cfg s =
     (let s1 = emit (Log ''Creating backup on remote server...'') s;
          backupName = backupNameOf env
      in tryCatch
           (let kp = expandHome (home env) (keyPath cfg)
            in andThen
                 (runCommand env ''ssh'' (sshArgs cfg kp (mkdirCommand cfg)) True s1)
                 (\<lambda>_ s2.
                    andThen
                      (runCommand env ''ssh''
                         (sshArgs cfg kp (copyCommand cfg backupName)) False s2)
                      (\<lambda>_ s3.
                         andThen
                           (cleanOldBackups env cfg (emit (Log (''Backup created: '' @ backupName)) s3))
                           (\<lambda>_ s4. (Inr backupName, s4)))))
           (\<lambda>e s2. (Inl e, emit (Err (''Backup creation failed: '' @ message e)) s2)))"

definition rsyncArgs :: "'w env \<Rightarrow> config \<Rightarrow> bool \<Rightarrow> string list" where
  "rsyncArgs env cfg dryRun =
     (let kp = expandHome (home env) (keyPath cfg);
          excludeArgs = concat (map (\<lambda>e. [''--exclude'', e]) (exclude cfg))
      in filterBoolean
           ([''-avz'', ''--delete'', (if dryRun then ''--dry-run'' else '''')]
            @ excludeArgs
            @ [''-e'', ''ssh -i '' @ kp @ '' -p '' @ port cfg,
               localPath cfg @ ''/'',
               user cfg @ ''@'' @ host cfg @ '':'' @ remotePath cfg @ ''/'']))"

definition deployFiles :: "'w env \<Rightarrow> config \<Rightarrow> bool \<Rightarrow> 'w state \<Rightarrow> (halt + bool) \<times> 'w state" where
  "deployFiles env cfg dryRun s =
     (let s1 = emit (Log (if dryRun then ''Simulating deployment (dry-run)...''
                          else ''Deploying files...'')) s
      in tryCatch
           (andThen (runCommand env ''rsync'' (rsyncArgs env cfg dryRun) False s1)
              (\<lambda>_ s2. (Inr True,
                 emit (Log (if dryRun then ''Dry-run complete'' else ''Deployment successful'')) s2)))
           (\<lambda>e s2. (Inl e, emit (Err (''Deployment failed: '' @ message e)) s2)))"

text \<open>
  \<open>rollback\<close>: \<open>backupName\<close> is \<open>None\<close> for \<^verbatim>\<open>null\<close>.  \<open>orElse\<close> is
  \<^verbatim>\<open>backupName || backups[0]\<close>, where the empty name is falsy too; \<^verbatim>\<open>backups[0]\<close> is
  read only after the listing was found non-empty.
\<close>

definition orElse :: "string option \<Rightarrow> string \<Rightarrow> string" where
  "orElse a b = (case a of None \<Rightarrow> b | Some n \<Rightarrow> if n \<noteq> [] then n else b)"

definition rollback ::
  "'w env \<Rightarrow> config \<Rightarrow> string option \<Rightarrow> 'w state \<Rightarrow> (halt + bool) \<times> 'w state" where
  "rollback env cfg backupName s =
     (let s1 = emit (Log ''Rolling back to previous version...'') s
      in tryCatch
           (let kp = expandHome (home env) (keyPath cfg)
            in andThen
                 (runCommand env ''ssh'' (sshArgs cfg kp (listCommand cfg)) True s1)
                 (\<lambda>result s2.
                    case parseListing (stdout result) of
                      [] \<Rightarrow> (Inr False, emit (Err ''No backups available for rollback'') s2)
                    | first # others \<Rightarrow>
                        (let backups = first # others;
                             targetBackup = orElse backupName first
                         in if targetBackup \<notin> set backups
                            then (Inr False,
                                    emits ([Err (''Backup not found: '' @ targetBackup),
                                            Log ''Available backups:'']
                                           @ map (\<lambda>b. Log (''  - '' @ b)) backups) s2)
                            else andThen
                                   (runCommand env ''ssh''
                                      (sshArgs cfg kp (restoreCommand cfg targetBackup)) False
                                      (emit (Log (''Rolling back to: '' @ targetBackup)) s2))
                                   (\<lambda>_ s3. (Inr True, emit (Log ''Rollback successful'') s3)))))
           (\<lambda>e s2. (Inr False, emit (Err (''Rollback failed: '' @ message e)) s2)))"

text \<open>
  A prompt of \<^verbatim>\<open>readline\<close>: \<^verbatim>\<open>rl.question\<close> shows the prompt and calls back with the
  line typed.  When the input has ended there is no line and no call: the promise
  stays pending.
\<close>

definition question ::
  "'w env \<Rightarrow> string \<Rightarrow> string \<Rightarrow> 'w state \<Rightarrow> (halt + string) \<times> 'w state" where
  "question env prompt defaultValue s =
     (let displayPrompt = prompt @ '' ['' @ defaultValue @ '']: ''
      in case stdin env (asked s) of
           None \<Rightarrow> (Inl Pending, emit (Unanswered displayPrompt) s)
         | Some answer \<Rightarrow>
             (Inr (if trim answer \<noteq> [] then trim answer else defaultValue),
              (emit (Asked displayPrompt answer) s)\<lparr>asked := Suc (asked s)\<rparr>))"

definition configureDeployment :: "'w env \<Rightarrow> 'w state \<Rightarrow> (halt + unit) \<times> 'w state" where
  "configureDeployment env s =
     (let s0 = emits [Log ''Deployment Configuration Setup'',
                      Log ''==================================''] s
      in andThen (loadConfig env s0, s0)
        (\<lambda>c0 s0. andThen (question env ''Droplet IP or hostname'' (host c0) s0)
        (\<lambda>h s1. let c1 = c0\<lparr>host := h\<rparr> in andThen (question env ''SSH user'' (user c1) s1)
        (\<lambda>u s2. let c2 = c1\<lparr>user := u\<rparr> in andThen (question env ''SSH port'' (port c2) s2)
        (\<lambda>p s3. let c3 = c2\<lparr>port := p\<rparr> in andThen (question env ''SSH key path'' (keyPath c3) s3)
        (\<lambda>k s4. let c4 = c3\<lparr>keyPath := k\<rparr> in
                 andThen (question env ''Remote site path'' (remotePath c4) s4)
        (\<lambda>r s5. let c5 = c4\<lparr>remotePath := r\<rparr> in
                 andThen (question env ''Remote backup path'' (backupPath c5) s5)
        (\<lambda>b s6. let c6 = c5\<lparr>backupPath := b\<rparr> in andThen (testConnection env c6 s6)
        (\<lambda>connected s7.
           if connected
           then andThen (saveConfig env c6 s7)
                  (\<lambda>_ s8. (Inr (), emit (Log ''Configuration complete and tested!'') s8))
           else saveConfig env c6
                  (emits [Log ''Configuration saved but connection test failed.'',
                          Log ''   Please verify your settings and try again.''] s7))))))))))"

definition confirm :: "'w env \<Rightarrow> string \<Rightarrow> 'w state \<Rightarrow> (halt + bool) \<times> 'w state" where
  "confirm env msg s =
     (case stdin env (asked s) of
        None \<Rightarrow> (Inl Pending, emit (Unanswered (msg @ '' (y/N): '')) s)
      | Some answer \<Rightarrow>
          (Inr (toLowerCase answer = ''y''),
           (emit (Asked (msg @ '' (y/N): '') answer) s)\<lparr>asked := Suc (asked s)\<rparr>))"

definition confirmMessage :: string where
  "confirmMessage = ''This will replace files on the remote server. Continue?''"

text \<open>
  \<open>deploy\<close> is written in the four parts its \<^verbatim>\<open>return\<close>s divide it into:
  \<open>deploySteps\<close> is the \<^verbatim>\<open>try\<close> block (backup, then sync), \<open>deployConfirmed\<close> the
  \<^verbatim>\<open>try\<close>/\<^verbatim>\<open>catch\<close> statement, \<open>deployConnected\<close> the confirmation gate and what
  follows it, \<open>deploy\<close> the checks of the configuration, the local directory and
  the connection.
\<close>

definition deploySteps :: "'w env \<Rightarrow> config \<Rightarrow> bool \<Rightarrow> 'w state \<Rightarrow> (halt + bool) \<times> 'w state" where
  "deploySteps env cfg dryRun s =
     andThen
       (if \<not> dryRun then andThen (createBackup env cfg s) (\<lambda>_ s1. (Inr (), s1))
        else (Inr (), s))
       (\<lambda>_ s1.
          andThen (deployFiles env cfg dryRun s1)
            (\<lambda>_ s2. (Inr True,
               if \<not> dryRun
               then emits [Log ''Deployment Complete!'',
                           Log ''======================='',
                           Log (''Site should be live at: http://'' @ host cfg),
                           Log ''Tip: If something went wrong, run: node deploy.js --rollback''] s2
               else s2)))"

definition deployConfirmed ::
  "'w env \<Rightarrow> config \<Rightarrow> bool \<Rightarrow> 'w state \<Rightarrow> (halt + bool) \<times> 'w state" where
  "deployConfirmed env cfg dryRun s =
     tryCatch (deploySteps env cfg dryRun s)
       (\<lambda>e s1. (Inr False,
          emits [Err (''Deployment failed: '' @ message e),
                 Err ''Consider rolling back: node deploy.js --rollback''] s1))"

definition deployConnected ::
  "'w env \<Rightarrow> config \<Rightarrow> bool \<Rightarrow> 'w state \<Rightarrow> (halt + bool) \<times> 'w state" where
  "deployConnected env cfg dryRun s =
     andThen
       (if requireConfirmation cfg \<and> \<not> dryRun then confirm env confirmMessage s
        else (Inr True, s))
       (\<lambda>confirmed s1.
          if \<not> confirmed then (Inr False, emit (Log ''Deployment cancelled'') s1)
          else deployConfirmed env cfg dryRun s1)"

definition deploy :: "'w env \<Rightarrow> bool \<Rightarrow> 'w state \<Rightarrow> (halt + bool) \<times> 'w state" where
  "deploy env dryRun s =
     (let s0 = emits [Log ''Deployment to DigitalOcean Droplet'',
                      Log ''=====================================''] s
      in andThen (loadConfig env s0, s0)
           (\<lambda>cfg s0.
              if host cfg = []
              then (Inr False,
                      emits [Err ''Deployment not configured.'',
                             Err ''Run: node deploy.js --config''] s0)
              else
                (let s1 = emits [Log (''Target: '' @ user cfg @ ''@'' @ host cfg @ '':''
                                        @ remotePath cfg),
                                 Log (''Source: '' @ localPath cfg)] s0
                 in if \<not> pathExists env (localPath cfg)
                    then (Inr False, emit (Err (''Local path not found: '' @ localPath cfg)) s1)
                    else
                      andThen (testConnection env cfg s1)
                        (\<lambda>connected s2.
                           if \<not> connected then (Inr False, s2)
                           else deployConnected env cfg dryRun s2))))"

text \<open>
  \<open>main\<close>: the value is the code given to \<^verbatim>\<open>process.exit\<close>; \<open>args\<close> is
  \<^verbatim>\<open>process.argv.slice(2)\<close>.  The usage text is abridged to its first line.  The
  script calls \<^verbatim>\<open>main()\<close> and handles neither a rejection of its promise nor a promise
  that stays pending; \<open>exitCode\<close> is the exit code of the process in each case.
\<close>

definition usage :: string where
  "usage = ''Automated Deployment to DigitalOcean Droplet''"

definition main :: "'w env \<Rightarrow> string list \<Rightarrow> 'w state \<Rightarrow> (halt + nat) \<times> 'w state" where
  "main env args s =
     (if ''--help'' \<in> set args \<or> ''-h'' \<in> set args then (Inr 0, emit (Log usage) s)
      else if ''--config'' \<in> set args
      then andThen (configureDeployment env s) (\<lambda>_ s1. (Inr 0, s1))
      else if ''--rollback'' \<in> set args
      then andThen (loadConfig env s, s)
             (\<lambda>cfg s0. andThen (rollback env cfg None s0)
                (\<lambda>success s1. (Inr (if success then 0 else 1), s1)))
      else andThen (deploy env (''--dry-run'' \<in> set args) s)
             (\<lambda>success s1. (Inr (if success then 0 else 1), s1)))"

text \<open>
  The exit code of the \<^verbatim>\<open>node\<close> process: the argument of \<^verbatim>\<open>process.exit\<close> when it is
  called; 1 when the promise of \<open>main\<close> is rejected (Node.js 15 and later end the
  process with code 1 on a rejection that nothing handles); 0 when the promise
  stays pending, since the process then ends with nothing left to run.
\<close>

definition exitCode :: "halt + nat \<Rightarrow> nat" where
  "exitCode r = (case r of Inr n \<Rightarrow> n | Inl (Error m) \<Rightarrow> 1 | Inl Pending \<Rightarrow> 0)"

section \<open>Notions used to state the properties\<close>

text \<open>A child process succeeded when it closed with exit status zero.\<close>

definition succeeded :: "outcome \<Rightarrow> bool" where
  "succeeded out = (case out of Closed c so se \<Rightarrow> c = Some 0 | SpawnFailed m \<Rightarrow> False)"

text \<open>The child processes of a trace, in the order they were run.\<close>

fun commands :: "event list \<Rightarrow> (string \<times> string list) list" where
  "commands [] = []"
| "commands (Ran c a out # es) = (c, a) # commands es"
| "commands (e # es) = commands es"

text \<open>The state of a process that has just started.\<close>

definition initial :: "'w \<Rightarrow> 'w state" where
  "initial w = \<lparr>world = w, trace = [], asked = 0, configFile = Absent\<rparr>"

text \<open>The message of the error \<open>runCommand\<close> throws for an outcome that is not a success.\<close>

definition failureMessage :: "bool \<Rightarrow> outcome \<Rightarrow> string" where
  "failureMessage silent out = (case settle silent out of Inl e \<Rightarrow> message e | Inr r \<Rightarrow> [])"

text \<open>
  The argument list of an \<^verbatim>\<open>ssh\<close> call that runs the shell command \<open>sh\<close> on the remote
  host, with the key path expanded.
\<close>

definition remote :: "'w env \<Rightarrow> config \<Rightarrow> string \<Rightarrow> string list" where
  "remote env cfg sh = sshArgs cfg (expandHome (home env) (keyPath cfg)) sh"

text \<open>What the script did to the outside: the child processes and the prompts of a trace.\<close>

fun interactions :: "event list \<Rightarrow> event list" where
  "interactions [] = []"
| "interactions (Ran c a out # es) = Ran c a out # interactions es"
| "interactions (Asked q a # es) = Asked q a # interactions es"
| "interactions (Unanswered q # es) = Unanswered q # interactions es"
| "interactions (e # es) = interactions es"

text \<open>The child processes of the retention cleanup: the listing and the deletions.\<close>

definition cleanupRun :: "'w env \<Rightarrow> config \<Rightarrow> event \<Rightarrow> bool" where
  "cleanupRun env cfg e \<longleftrightarrow>
     (\<exists>out. e = Ran ''ssh'' (remote env cfg (listCommand cfg)) out) \<or>
     (\<exists>b out. e = Ran ''ssh'' (remote env cfg (removeCommand cfg b)) out)"

text \<open>
  The failures of a deploy: a connection test, backup command or sync that did not
  succeed, and an answer at the confirmation prompt that is not a yes.  A cleanup
  command that fails is not one of them.
\<close>

definition fatal :: "'w env \<Rightarrow> config \<Rightarrow> event \<Rightarrow> bool" where
  "fatal env cfg e =
     (case e of
        Ran c a out \<Rightarrow>
          \<not> succeeded out \<and>
          (c = ''rsync'' \<or>
           (c = ''ssh'' \<and>
            (a = remote env cfg echoCommand \<or> a = remote env cfg (mkdirCommand cfg) \<or>
             a = remote env cfg (copyCommand cfg (backupNameOf env)))))
      | Asked q a \<Rightarrow> toLowerCase a \<noteq> ''y''
      | _ \<Rightarrow> False)"

text \<open>The sync ran and succeeded.\<close>

definition synced :: "'w env \<Rightarrow> config \<Rightarrow> bool \<Rightarrow> event list \<Rightarrow> bool" where
  "synced env cfg dryRun es \<longleftrightarrow>
     (\<exists>out. Ran ''rsync'' (rsyncArgs env cfg dryRun) out \<in> set es \<and> succeeded out)"

text \<open>The input ends before \<open>k\<close> prompts, from prompt number \<open>n\<close> on, are answered.\<close>

fun endsWithin :: "'w env \<Rightarrow> nat \<Rightarrow> nat \<Rightarrow> bool" where
  "endsWithin env n 0 = False"
| "endsWithin env n (Suc k) = (stdin env n = None \<or> endsWithin env (Suc n) k)"

text \<open>The input ended at the confirmation prompt of a deploy.\<close>

definition unanswered :: "event list \<Rightarrow> bool" where
  "unanswered es \<longleftrightarrow> Unanswered (confirmMessage @ '' (y/N): '') \<in> set es"

text \<open>
  What the events \<open>es\<close> of a deploy that was not left at the confirmation prompt say
  about its result \<open>r\<close>: it is a boolean, it is false when one of the events is a
  failure, and it is true exactly when the sync succeeded.
\<close>

definition verdict :: "'w env \<Rightarrow> config \<Rightarrow> bool \<Rightarrow> event list \<Rightarrow> halt + bool \<Rightarrow> bool" where
  "verdict env cfg dryRun es r \<longleftrightarrow>
     \<not> unanswered es \<and>
     (r = Inr True \<or> r = Inr False) \<and>
     ((\<exists>e\<in>set es. fatal env cfg e) \<longrightarrow> r = Inr False) \<and>
     (r = Inr True \<longleftrightarrow> synced env cfg dryRun es)"

text \<open>The restore command of some backup ran and succeeded.\<close>

definition restored :: "'w env \<Rightarrow> config \<Rightarrow> event list \<Rightarrow> bool" where
  "restored env cfg es \<longleftrightarrow>
     (\<exists>t out. Ran ''ssh'' (remote env cfg (restoreCommand cfg t)) out \<in> set es \<and> succeeded out)"

subsection \<open>Concrete inputs\<close>

definition sampleConfig :: config where
  "sampleConfig =
     \<lparr> host = ''203.0.113.7'', user = ''root'', port = ''22'', keyPath = ''~/.ssh/id_rsa'',
       remotePath = ''/var/www/site'', backupPath = ''/var/www/site-backups'',
       localPath = ''/home/me/public'', exclude = [''.git'', ''*.log''],
       maxBackups = 5, requireConfirmation = True \<rparr>"

text \<open>
  An environment whose child processes end as \<open>f\<close> says, looking only at the
  command; the user types \<open>answer\<close> at every prompt, and the configuration file can be
  written.
\<close>

definition scripted :: "(string \<Rightarrow> string list \<Rightarrow> outcome) \<Rightarrow> string \<Rightarrow> unit env" where
  "scripted f answer =
     \<lparr> exec = (\<lambda>w c a. (f c a, w)), home = ''/home/me'', DEFAULT_CONFIG = sampleConfig,
       pathExists = (\<lambda>p. True), isoNow = ''2024-01-01T00:00:00.000Z'',
       writeError = None, stdin = (\<lambda>n. Some answer) \<rparr>"

text \<open>Every command succeeds, except that \<^verbatim>\<open>rsync\<close> is refused by the remote side.\<close>

definition refusedSync :: "string \<Rightarrow> string list \<Rightarrow> outcome" where
  "refusedSync c a =
     (if c = ''rsync'' then Closed (Some 12) [] ''rsync: connection refused''
      else Closed (Some 0) [] [])"

definition allSucceed :: "string \<Rightarrow> string list \<Rightarrow> outcome" where
  "allSucceed c a = Closed (Some 0) [] []"

definition allKilled :: "string \<Rightarrow> string list \<Rightarrow> outcome" where
  "allKilled c a = Closed None [] ''Killed''"

definition noneSpawned :: "string \<Rightarrow> string list \<Rightarrow> outcome" where
  "noneSpawned c a = SpawnFailed (''spawn '' @ c @ '' ENOENT'')"

text \<open>No \<^verbatim>\<open>ssh\<close> connection can be made.\<close>

definition sshDown :: "string \<Rightarrow> string list \<Rightarrow> outcome" where
  "sshDown c a = Closed (Some 255) [] ''ssh: connect to host 203.0.113.7 port 22: Connection refused''"

text \<open>The local source directory does not exist.\<close>

definition noSource :: "unit env" where
  "noSource = (scripted allSucceed ''y'')\<lparr>pathExists := (\<lambda>p. False)\<rparr>"

text \<open>The input has ended: no prompt is answered.  Every command succeeds.\<close>

definition endOfInput :: "unit env" where
  "endOfInput = (scripted allSucceed ''y'')\<lparr>stdin := (\<lambda>n. None)\<rparr>"

text \<open>
  The configuration file cannot be written; the user accepts every default and every
  command succeeds.
\<close>

definition readOnly :: "unit env" where
  "readOnly = (scripted allSucceed [])\<lparr>writeError := Some ''EACCES: permission denied''\<rparr>"

text \<open>A process that finds a configuration file that is not JSON.\<close>

definition corrupt :: "unit state" where
  "corrupt = (initial ())\<lparr>configFile := Unreadable ''Unexpected end of JSON input''\<rparr>"

text \<open>A listing of three backups, newest first, and a host that prints it for \<^verbatim>\<open>ls\<close>.\<close>

definition sampleListing :: string where
  "sampleListing = ''backup-3'' @ [nl] @ ''backup-2'' @ [nl] @ ''backup-1'' @ [nl]"

definition threeListed :: "string \<Rightarrow> string list \<Rightarrow> outcome" where
  "threeListed c a =
     (if c = ''ssh'' \<and> a = [''-i'', ''/home/me/.ssh/id_rsa'', ''-p'', ''22'', ''root@203.0.113.7'',
                               ''ls -1t /var/www/site-backups'']
      then Closed (Some 0) sampleListing [] else Closed (Some 0) [] [])"

text \<open>The backup directory cannot be listed; every other command succeeds.\<close>

definition lsDenied :: "string \<Rightarrow> string list \<Rightarrow> outcome" where
  "lsDenied c a =
     (if c = ''ssh'' \<and> a = [''-i'', ''/home/me/.ssh/id_rsa'', ''-p'', ''22'', ''root@203.0.113.7'',
                               ''ls -1t /var/www/site-backups'']
      then Closed (Some 2) [] ''ls: cannot open directory: Permission denied''
      else Closed (Some 0) [] [])"

text \<open>
  A listing of three backups whose newest entry is the backup a deploy at the time of
  \<open>scripted\<close> makes, and a host that prints it for \<^verbatim>\<open>ls\<close>.
\<close>

definition freshListing :: string where
  "freshListing = ''backup-2024-01-01T00-00-00-000Z'' @ [nl] @ ''backup-3'' @ [nl] @ ''backup-2'' @ [nl]"

definition freshListed :: "string \<Rightarrow> string list \<Rightarrow> outcome" where
  "freshListed c a =
     (if c = ''ssh'' \<and> a = [''-i'', ''/home/me/.ssh/id_rsa'', ''-p'', ''22'', ''root@203.0.113.7'',
                               ''ls -1t /var/www/site-backups'']
      then Closed (Some 0) freshListing [] else Closed (Some 0) [] [])"

text \<open>The same host, but every \<^verbatim>\<open>rm\<close> is refused.\<close>

definition rmDenied :: "string \<Rightarrow> string list \<Rightarrow> outcome" where
  "rmDenied c a =
     (if c = ''ssh'' \<and> a = [''-i'', ''/home/me/.ssh/id_rsa'', ''-p'', ''22'', ''root@203.0.113.7'',
                               ''ls -1t /var/www/site-backups'']
      then Closed (Some 0) freshListing []
      else if c = ''ssh'' \<and> a \<noteq> [] \<and> take 7 (last a) = ''rm -rf ''
      then Closed (Some 1) [] ''rm: cannot remove: Permission denied''
      else Closed (Some 0) [] [])"

text \<open>Configurations that keep one backup, and none.\<close>

definition keepOne :: config where
  "keepOne = sampleConfig\<lparr>maxBackups := 1\<rparr>"

definition keepNone :: config where
  "keepNone = sampleConfig\<lparr>maxBackups := 0\<rparr>"

text \<open>A process that finds the configuration file \<^verbatim>\<open>{"maxBackups": 0}\<close>.\<close>

definition zeroKept :: "unit state" where
  "zeroKept = (initial ())\<lparr>configFile := Json
     \<lparr> u_host = None, u_user = None, u_port = None, u_keyPath = None, u_remotePath = None,
       u_backupPath = None, u_localPath = None, u_exclude = None, u_maxBackups = Some 0,
       u_requireConfirmation = None \<rparr>\<rparr>"

section \<open>Basic facts\<close>

lemma commands_append [simp]: "commands (xs @ ys) = commands xs @ commands ys"
  by (induction xs rule: commands.induct) simp_all

lemma world_emit [simp]: "world (emit e s) = world s"
  and asked_emit [simp]: "asked (emit e s) = asked s"
  and configFile_emit [simp]: "configFile (emit e s) = configFile s"
  and trace_emit [simp]: "trace (emit e s) = trace s @ [e]"
  by (simp_all add: emit_def)

lemma world_emits [simp]: "world (emits es s) = world s"
  and asked_emits [simp]: "asked (emits es s) = asked s"
  and configFile_emits [simp]: "configFile (emits es s) = configFile s"
  and trace_emits [simp]: "trace (emits es s) = trace s @ es"
  by (simp_all add: emits_def)

lemma settle_Inr_iff: "(\<exists>r. settle silent out = Inr r) \<longleftrightarrow> succeeded out"
  by (cases out) (simp_all add: settle_def succeeded_def Let_def)

lemma settle_Inl_iff: "(\<exists>e. settle silent out = Inl e) \<longleftrightarrow> \<not> succeeded out"
  by (cases out) (simp_all add: settle_def succeeded_def Let_def)

lemma runCommand_eq:
  "exec env (world s) c a = (out, w) \<Longrightarrow>
   runCommand env c a silent s =
     (settle silent out,
      s\<lparr>world := w,
        trace := trace s @ [Log (''Running: '' @ c @ '' '' @ join '' '' a), Ran c a out]\<rparr>)"
  by (simp add: runCommand_def emit_def Let_def)

lemma interactions_append [simp]: "interactions (xs @ ys) = interactions xs @ interactions ys"
  by (induction xs rule: interactions.induct) simp_all

lemma commands_interactions [simp]: "commands (interactions t) = commands t"
  by (induction t rule: interactions.induct) simp_all

lemma settle_failed: "\<not> succeeded out \<Longrightarrow> settle silent out = Inl (Error (failureMessage silent out))"
  by (cases out) (simp_all add: failureMessage_def settle_def succeeded_def Let_def)

lemma settle_succeeded: "succeeded out \<Longrightarrow> \<exists>r. settle silent out = Inr r"
  by (simp add: settle_Inr_iff)

lemma andThen_Inr: "fst m = Inr v \<Longrightarrow> andThen m f = f v (snd m)"
  by (cases m) (simp add: andThen_def)

lemma andThen_Inl: "fst m = Inl e \<Longrightarrow> andThen m f = (Inl e, snd m)"
  by (cases m) (simp add: andThen_def)

lemma tryCatch_Inr: "fst m = Inr v \<Longrightarrow> tryCatch m h = (Inr v, snd m)"
  by (cases m) (simp add: tryCatch_def)

lemma tryCatch_Inl: "fst m = Inl (Error x) \<Longrightarrow> tryCatch m h = h (Error x) (snd m)"
  by (cases m) (simp add: tryCatch_def)

lemma andThen_pure: "andThen (Inr v, s) f = f v s"
  and andThen_thrown: "andThen (Inl e, s) f = (Inl e, s)"
  by (simp_all add: andThen_def)

text \<open>Only a prompt can leave a promise pending.\<close>

lemma settle_settles [simp]: "settle silent out \<noteq> Inl Pending"
  by (cases out) (simp_all add: settle_def Let_def)

lemma andThen_settles:
  "fst m \<noteq> Inl Pending \<Longrightarrow> (\<And>v s. fst (f v s) \<noteq> Inl Pending) \<Longrightarrow> fst (andThen m f) \<noteq> Inl Pending"
  by (cases m) (auto simp: andThen_def split: sum.splits)

lemma tryCatch_settles:
  "fst m \<noteq> Inl Pending \<Longrightarrow> (\<And>x s. fst (h (Error x) s) \<noteq> Inl Pending)
     \<Longrightarrow> fst (tryCatch m h) \<noteq> Inl Pending"
  by (cases m) (auto simp: tryCatch_def split: sum.splits halt.splits)

lemma runCommand_settles: "fst (runCommand env c a silent s) \<noteq> Inl Pending"
  by (simp add: runCommand_def Let_def split: prod.splits)

lemma if_settles:
  "(c \<Longrightarrow> fst a \<noteq> Inl Pending) \<Longrightarrow> (\<not> c \<Longrightarrow> fst b \<noteq> Inl Pending)
     \<Longrightarrow> fst (if c then a else b) \<noteq> Inl Pending"
  by simp

lemma pure_settles: "fst (Inr v, s) \<noteq> Inl Pending"
  by simp

lemma loadConfig_emits [simp]: "loadConfig env (emits es s) = loadConfig env s"
  and loadConfig_emit [simp]: "loadConfig env (emit e s) = loadConfig env s"
  by (simp_all add: loadConfig_def)

lemma commands_of_interactions:
  assumes "interactions t = interactions t' @ es"
  shows "commands t = commands t' @ commands es"
proof -
  have "commands t = commands (interactions t)" by simp
  also have "\<dots> = commands (interactions t' @ es)" by (simp only: assms)
  also have "\<dots> = commands t' @ commands es" by simp
  finally show ?thesis .
qed

lemma commands_of_interactions_same:
  assumes "interactions t = interactions t'"
  shows "commands t = commands t'"
  using commands_of_interactions [of t t' "[]"] assms by simp

subsection \<open>testConnection, deployFiles, confirm\<close>

lemma testConnection_run:
  assumes "exec env (world s) ''ssh'' (remote env cfg echoCommand) = (out, w)"
  shows "fst (testConnection env cfg s) = Inr (succeeded out)"
    and "world (snd (testConnection env cfg s)) = w"
    and "asked (snd (testConnection env cfg s)) = asked s"
    and "configFile (snd (testConnection env cfg s)) = configFile s"
    and "interactions (trace (snd (testConnection env cfg s)))
           = interactions (trace s) @ [Ran ''ssh'' (remote env cfg echoCommand) out]"
proof -
  have "succeeded out \<or> \<not> succeeded out" by simp
  then have "fst (testConnection env cfg s) = Inr (succeeded out) \<and>
    world (snd (testConnection env cfg s)) = w \<and>
    asked (snd (testConnection env cfg s)) = asked s \<and>
    configFile (snd (testConnection env cfg s)) = configFile s \<and>
    interactions (trace (snd (testConnection env cfg s)))
           = interactions (trace s) @ [Ran ''ssh'' (remote env cfg echoCommand) out]"
  proof
    assume ok: "succeeded out"
    then obtain r where "settle True out = Inr r" using settle_succeeded by blast
    with assms ok show ?thesis
      by (simp add: testConnection_def runCommand_eq andThen_def tryCatch_def Let_def remote_def)
  next
    assume nok: "\<not> succeeded out"
    with assms settle_failed [OF nok, of True] show ?thesis
      by (simp add: testConnection_def runCommand_eq andThen_def tryCatch_def Let_def remote_def)
  qed
  then show "fst (testConnection env cfg s) = Inr (succeeded out)"
    and "world (snd (testConnection env cfg s)) = w"
    and "asked (snd (testConnection env cfg s)) = asked s"
    and "configFile (snd (testConnection env cfg s)) = configFile s"
    and "interactions (trace (snd (testConnection env cfg s)))
           = interactions (trace s) @ [Ran ''ssh'' (remote env cfg echoCommand) out]"
    by simp_all
qed

lemma deployFiles_run:
  assumes "exec env (world s) ''rsync'' (rsyncArgs env cfg dryRun) = (out, w)"
  shows "fst (deployFiles env cfg dryRun s)
           = (if succeeded out then Inr True else Inl (Error (failureMessage False out)))"
    and "world (snd (deployFiles env cfg dryRun s)) = w"
    and "asked (snd (deployFiles env cfg dryRun s)) = asked s"
    and "configFile (snd (deployFiles env cfg dryRun s)) = configFile s"
    and "interactions (trace (snd (deployFiles env cfg dryRun s)))
           = interactions (trace s) @ [Ran ''rsync'' (rsyncArgs env cfg dryRun) out]"
proof -
  have "succeeded out \<or> \<not> succeeded out" by simp
  then have "fst (deployFiles env cfg dryRun s)
           = (if succeeded out then Inr True else Inl (Error (failureMessage False out))) \<and>
     world (snd (deployFiles env cfg dryRun s)) = w \<and>
     asked (snd (deployFiles env cfg dryRun s)) = asked s \<and>
     configFile (snd (deployFiles env cfg dryRun s)) = configFile s \<and>
     interactions (trace (snd (deployFiles env cfg dryRun s)))
           = interactions (trace s) @ [Ran ''rsync'' (rsyncArgs env cfg dryRun) out]"
  proof
    assume ok: "succeeded out"
    then obtain r where "settle False out = Inr r" using settle_succeeded by blast
    with assms ok show ?thesis
      by (simp add: deployFiles_def runCommand_eq andThen_def tryCatch_def Let_def)
  next
    assume nok: "\<not> succeeded out"
    with assms settle_failed [OF nok, of False] show ?thesis
      by (simp add: deployFiles_def runCommand_eq andThen_def tryCatch_def Let_def)
  qed
  then show "fst (deployFiles env cfg dryRun s)
           = (if succeeded out then Inr True else Inl (Error (failureMessage False out)))"
    and "world (snd (deployFiles env cfg dryRun s)) = w"
    and "asked (snd (deployFiles env cfg dryRun s)) = asked s"
    and "configFile (snd (deployFiles env cfg dryRun s)) = configFile s"
    and "interactions (trace (snd (deployFiles env cfg dryRun s)))
           = interactions (trace s) @ [Ran ''rsync'' (rsyncArgs env cfg dryRun) out]"
    by simp_all
qed

lemma confirm_run:
  assumes "stdin env (asked s) = Some a"
  shows "confirm env msg s
           = (Inr (toLowerCase a = ''y''),
              (emit (Asked (msg @ '' (y/N): '') a) s)\<lparr>asked := Suc (asked s)\<rparr>)"
  using assms by (simp add: confirm_def)

lemma confirm_ended:
  assumes "stdin env (asked s) = None"
  shows "confirm env msg s = (Inl Pending, emit (Unanswered (msg @ '' (y/N): '')) s)"
  using assms by (simp add: confirm_def)

subsection \<open>deploy up to the connection test\<close>

lemma deploy_unreadable:
  assumes "loadConfig env s = Inl e"
  shows "fst (deploy env dryRun s) = Inl e"
    and "interactions (trace (snd (deploy env dryRun s))) = interactions (trace s)"
  using assms by (simp_all add: deploy_def Let_def andThen_thrown)

lemma deploy_unconfigured:
  assumes "loadConfig env s = Inr cfg" and "host cfg = []"
  shows "fst (deploy env dryRun s) = Inr False"
    and "interactions (trace (snd (deploy env dryRun s))) = interactions (trace s)"
  using assms by (simp_all add: deploy_def Let_def andThen_pure)

lemma deploy_no_source:
  assumes "loadConfig env s = Inr cfg" and "\<not> pathExists env (localPath cfg)"
  shows "fst (deploy env dryRun s) = Inr False"
    and "interactions (trace (snd (deploy env dryRun s))) = interactions (trace s)"
  using assms by (simp_all add: deploy_def Let_def andThen_pure)

lemma deploy_checked:
  assumes "loadConfig env s = Inr cfg" and "host cfg \<noteq> []" and "pathExists env (localPath cfg)"
  obtains s1 where "world s1 = world s" and "asked s1 = asked s" and "configFile s1 = configFile s"
    and "interactions (trace s1) = interactions (trace s)"
    and "deploy env dryRun s =
           andThen (testConnection env cfg s1)
             (\<lambda>connected s2. if \<not> connected then (Inr False, s2)
                              else deployConnected env cfg dryRun s2)"
proof -
  let ?s0 = "emits [Log ''Deployment to DigitalOcean Droplet'',
                      Log ''=====================================''] s"
  let ?s1 = "emits [Log (''Target: '' @ user cfg @ ''@'' @ host cfg @ '':'' @ remotePath cfg),
                            Log (''Source: '' @ localPath cfg)] ?s0"
  show thesis
  proof (rule that [of ?s1])
    show "deploy env dryRun s =
           andThen (testConnection env cfg ?s1)
             (\<lambda>connected s2. if \<not> connected then (Inr False, s2)
                              else deployConnected env cfg dryRun s2)"
      using assms by (simp add: deploy_def Let_def andThen_pure cong del: if_weak_cong)
  qed simp_all
qed

lemma deleteEach_trace:
  "\<exists>es. trace (snd (deleteEach env cfg kp bs s)) = trace s @ es \<and>
        (\<forall>e\<in>set (interactions es). \<exists>b out. b \<in> set bs \<and> e = Ran ''ssh'' (sshArgs cfg kp (removeCommand cfg b)) out) \<and>
        ((\<exists>c a out. Ran c a out \<in> set es \<and> \<not> succeeded out)
           \<longrightarrow> (\<exists>e. fst (deleteEach env cfg kp bs s) = Inl e))"
proof (induction bs arbitrary: s)
  case Nil
  show ?case by simp
next
  case (Cons b bs)
  let ?a = "sshArgs cfg kp (removeCommand cfg b)"
  obtain out w where ex: "exec env (world s) ''ssh'' ?a = (out, w)"
    by (cases "exec env (world s) ''ssh'' ?a")
  let ?s1 = "s\<lparr>world := w, trace := trace s @ [Log (''Running: '' @ ''ssh'' @ '' '' @ join '' '' ?a), Ran ''ssh'' ?a out]\<rparr>"
  have rc: "runCommand env ''ssh'' ?a True s = (settle True out, ?s1)"
    by (rule runCommand_eq [OF ex])
  show ?case
  proof (cases "succeeded out")
    case False
    then have "settle True out = Inl (Error (failureMessage True out))" by (rule settle_failed)
    then have "deleteEach env cfg kp (b # bs) s = (Inl (Error (failureMessage True out)), ?s1)"
      by (simp only: deleteEach.simps rc andThen_def prod.case sum.case halt.case)
    then show ?thesis by auto
  next
    case True
    then obtain r where "settle True out = Inr r" using settle_succeeded by blast
    then have eq: "deleteEach env cfg kp (b # bs) s
                 = deleteEach env cfg kp bs (emit (Log (''   Deleted: '' @ b)) ?s1)"
      by (simp only: deleteEach.simps rc andThen_def prod.case sum.case halt.case)
    from Cons.IH [of "emit (Log (''   Deleted: '' @ b)) ?s1"]
    obtain es where es: "trace (snd (deleteEach env cfg kp bs (emit (Log (''   Deleted: '' @ b)) ?s1)))
          = trace (emit (Log (''   Deleted: '' @ b)) ?s1) @ es"
      and ia: "\<forall>e\<in>set (interactions es). \<exists>b out. b \<in> set bs \<and> e = Ran ''ssh'' (sshArgs cfg kp (removeCommand cfg b)) out"
      and fl: "(\<exists>c a out. Ran c a out \<in> set es \<and> \<not> succeeded out)
           \<longrightarrow> (\<exists>e. fst (deleteEach env cfg kp bs (emit (Log (''   Deleted: '' @ b)) ?s1)) = Inl e)"
      by blast
    let ?es = "[Log (''Running: '' @ ''ssh'' @ '' '' @ join '' '' ?a), Ran ''ssh'' ?a out,
                Log (''   Deleted: '' @ b)] @ es"
    have "trace (snd (deleteEach env cfg kp (b # bs) s)) = trace s @ ?es"
      by (simp only: eq es) simp
    moreover have "\<forall>e\<in>set (interactions ?es). \<exists>b' out. b' \<in> set (b # bs) \<and> e = Ran ''ssh'' (sshArgs cfg kp (removeCommand cfg b')) out"
      using ia by simp blast
    moreover have "(\<exists>c a out. Ran c a out \<in> set ?es \<and> \<not> succeeded out)
           \<longrightarrow> (\<exists>e. fst (deleteEach env cfg kp (b # bs) s) = Inl e)"
      using fl True by (auto simp only: eq set_append set_simps event.inject event.distinct Un_iff insert_iff empty_iff)
    ultimately show ?thesis by blast
  qed
qed

lemma deleteEach_unchanged:
  "asked (snd (deleteEach env cfg kp bs s)) = asked s \<and>
   configFile (snd (deleteEach env cfg kp bs s)) = configFile s"
proof (induction bs arbitrary: s)
  case Nil
  show ?case by simp
next
  case (Cons b bs)
  show ?case
    by (cases "exec env (world s) ''ssh'' (sshArgs cfg kp (removeCommand cfg b))")
       (simp add: runCommand_eq andThen_def Cons.IH split: sum.splits)
qed

lemma deleteEach_settles: "fst (deleteEach env cfg kp bs s) \<noteq> Inl Pending"
proof (induction bs arbitrary: s)
  case Nil
  show ?case by simp
next
  case (Cons b bs)
  show ?case
    unfolding deleteEach.simps by (intro andThen_settles runCommand_settles Cons.IH)
qed

subsection \<open>cleanOldBackups\<close>

lemma cleanSteps_settles: "fst (cleanSteps env cfg s) \<noteq> Inl Pending"
  unfolding cleanSteps_def Let_def
  by (intro andThen_settles runCommand_settles) (simp add: deleteEach_settles)

lemma cleanOldBackups_eq:
  "cleanOldBackups env cfg s =
     (Inr (),
      case fst (cleanSteps env cfg s) of
        Inl e \<Rightarrow> emit (Warn (''Could not clean old backups: '' @ message e)) (snd (cleanSteps env cfg s))
      | Inr v \<Rightarrow> snd (cleanSteps env cfg s))"
  using cleanSteps_settles [of env cfg s]
  by (cases "cleanSteps env cfg s")
     (simp add: cleanOldBackups_def tryCatch_def split: sum.splits halt.splits)

lemma cleanSteps_trace:
  "\<exists>es. trace (snd (cleanSteps env cfg s)) = trace s @ es \<and>
        (\<forall>e\<in>set (interactions es). cleanupRun env cfg e) \<and>
        ((\<exists>c a out. Ran c a out \<in> set es \<and> \<not> succeeded out)
           \<longrightarrow> (\<exists>e. fst (cleanSteps env cfg s) = Inl e))"
proof -
  let ?a = "remote env cfg (listCommand cfg)"
  let ?kp = "expandHome (home env) (keyPath cfg)"
  obtain out w where ex: "exec env (world s) ''ssh'' ?a = (out, w)"
    by (cases "exec env (world s) ''ssh'' ?a")
  let ?s1 = "s\<lparr>world := w, trace := trace s @ [Log (''Running: '' @ ''ssh'' @ '' '' @ join '' '' ?a), Ran ''ssh'' ?a out]\<rparr>"
  have rc: "runCommand env ''ssh'' (sshArgs cfg ?kp (listCommand cfg)) True s = (settle True out, ?s1)"
    using runCommand_eq [OF ex] by (simp only: remote_def)
  show ?thesis
  proof (cases "succeeded out")
    case False
    then have "settle True out = Inl (Error (failureMessage True out))" by (rule settle_failed)
    then have "cleanSteps env cfg s = (Inl (Error (failureMessage True out)), ?s1)"
      by (simp only: cleanSteps_def Let_def remote_def rc andThen_def prod.case sum.case halt.case)
    then show ?thesis by (auto simp: cleanupRun_def)
  next
    case True
    then obtain r where r: "settle True out = Inr r" using settle_succeeded by blast
    let ?bs = "parseListing (stdout r)"
    show ?thesis
    proof (cases "int (length ?bs) > maxBackups cfg")
      case False
      with r have "cleanSteps env cfg s = (Inr (), ?s1)"
        by (simp only: cleanSteps_def Let_def remote_def rc andThen_def prod.case sum.case halt.case if_False)
      then show ?thesis using True by (auto simp: cleanupRun_def)
    next
      case big: True
      let ?s2 = "emit (Log (''Cleaning old backups (keeping '' @ showInt (maxBackups cfg)
                                  @ '' most recent)...'')) ?s1"
      let ?d = "deleteEach env cfg ?kp (slice ?bs (maxBackups cfg)) ?s2"
      from r big have eq: "cleanSteps env cfg s = ?d"
        by (simp only: cleanSteps_def Let_def remote_def rc andThen_def prod.case sum.case halt.case if_True)
      from deleteEach_trace [of env cfg ?kp "slice ?bs (maxBackups cfg)" ?s2]
      obtain es where es: "trace (snd ?d) = trace ?s2 @ es"
        and ia: "\<forall>e\<in>set (interactions es). \<exists>b out. b \<in> set (slice ?bs (maxBackups cfg))
                    \<and> e = Ran ''ssh'' (sshArgs cfg ?kp (removeCommand cfg b)) out"
        and fl: "(\<exists>c a out. Ran c a out \<in> set es \<and> \<not> succeeded out) \<longrightarrow> (\<exists>e. fst ?d = Inl e)"
        by blast
      let ?es = "[Log (''Running: '' @ ''ssh'' @ '' '' @ join '' '' ?a), Ran ''ssh'' ?a out,
                  Log (''Cleaning old backups (keeping '' @ showInt (maxBackups cfg)
                                  @ '' most recent)...'')] @ es"
      have "trace (snd (cleanSteps env cfg s)) = trace s @ ?es"
        by (simp only: eq es) simp
      moreover have "\<forall>e\<in>set (interactions ?es). cleanupRun env cfg e"
        using ia by (simp add: cleanupRun_def remote_def) blast
      moreover have "(\<exists>c a out. Ran c a out \<in> set ?es \<and> \<not> succeeded out)
           \<longrightarrow> (\<exists>e. fst (cleanSteps env cfg s) = Inl e)"
        using fl True by (auto simp only: eq set_append set_simps event.inject event.distinct Un_iff insert_iff empty_iff)
      ultimately show ?thesis by blast
    qed
  qed
qed

lemma cleanSteps_unchanged:
  "asked (snd (cleanSteps env cfg s)) = asked s \<and> configFile (snd (cleanSteps env cfg s)) = configFile s"
  by (cases "exec env (world s) ''ssh'' (remote env cfg (listCommand cfg))")
     (simp add: cleanSteps_def Let_def remote_def runCommand_eq andThen_def deleteEach_unchanged Let_def split: sum.splits)

lemma cleanOldBackups_unchanged:
  "asked (snd (cleanOldBackups env cfg s)) = asked s \<and>
   configFile (snd (cleanOldBackups env cfg s)) = configFile s"
  by (simp add: cleanOldBackups_eq cleanSteps_unchanged split: sum.splits)

lemma cleanOldBackups_trace:
  "\<exists>es. trace (snd (cleanOldBackups env cfg s)) = trace s @ es \<and>
        (\<forall>e\<in>set (interactions es). cleanupRun env cfg e) \<and>
        ((\<exists>c a out. Ran c a out \<in> set es \<and> \<not> succeeded out)
           \<longrightarrow> (\<exists>m. last (trace (snd (cleanOldBackups env cfg s)))
                       = Warn (''Could not clean old backups: '' @ m)))"
proof -
  from cleanSteps_trace [of env cfg s]
  obtain es where es: "trace (snd (cleanSteps env cfg s)) = trace s @ es"
    and ia: "\<forall>e\<in>set (interactions es). cleanupRun env cfg e"
    and fl: "(\<exists>c a out. Ran c a out \<in> set es \<and> \<not> succeeded out)
               \<longrightarrow> (\<exists>e. fst (cleanSteps env cfg s) = Inl e)"
    by blast
  show ?thesis
  proof (cases "fst (cleanSteps env cfg s)")
    case (Inl e)
    then have "trace (snd (cleanOldBackups env cfg s))
              = trace s @ (es @ [Warn (''Could not clean old backups: '' @ message e)])"
      by (simp add: cleanOldBackups_eq es)
    moreover have "\<forall>x\<in>set (interactions (es @ [Warn (''Could not clean old backups: '' @ message e)])). cleanupRun env cfg x"
      using ia by simp
    moreover have "last (trace (snd (cleanOldBackups env cfg s)))
                   = Warn (''Could not clean old backups: '' @ message e)"
      using Inl by (simp add: cleanOldBackups_eq)
    ultimately show ?thesis by blast
  next
    case (Inr v)
    then have "trace (snd (cleanOldBackups env cfg s)) = trace s @ es"
      by (simp add: cleanOldBackups_eq es)
    with ia fl Inr show ?thesis by auto
  qed
qed

subsection \<open>createBackup and the phases of deploy\<close>

lemma createBackup_run:
  assumes m: "exec env (world s) ''ssh'' (remote env cfg (mkdirCommand cfg)) = (out1, w1)"
      and c: "exec env w1 ''ssh'' (remote env cfg (copyCommand cfg (backupNameOf env))) = (out2, w2)"
  shows "\<not> succeeded out1 \<Longrightarrow>
           (\<exists>e. fst (createBackup env cfg s) = Inl e) \<and>
           interactions (trace (snd (createBackup env cfg s)))
             = interactions (trace s) @ [Ran ''ssh'' (remote env cfg (mkdirCommand cfg)) out1]"
    and "succeeded out1 \<Longrightarrow> \<not> succeeded out2 \<Longrightarrow>
           (\<exists>e. fst (createBackup env cfg s) = Inl e) \<and>
           interactions (trace (snd (createBackup env cfg s)))
             = interactions (trace s) @
               [Ran ''ssh'' (remote env cfg (mkdirCommand cfg)) out1,
                Ran ''ssh'' (remote env cfg (copyCommand cfg (backupNameOf env))) out2]"
    and "succeeded out1 \<Longrightarrow> succeeded out2 \<Longrightarrow>
           fst (createBackup env cfg s) = Inr (backupNameOf env) \<and>
           (\<exists>ces. interactions (trace (snd (createBackup env cfg s)))
                    = interactions (trace s) @
                      Ran ''ssh'' (remote env cfg (mkdirCommand cfg)) out1 #
                      Ran ''ssh'' (remote env cfg (copyCommand cfg (backupNameOf env))) out2 # ces \<and>
                  (\<forall>e\<in>set ces. cleanupRun env cfg e))"
proof -
  let ?kp = "expandHome (home env) (keyPath cfg)"
  let ?s1 = "emit (Log ''Creating backup on remote server...'') s"
  let ?m = "sshArgs cfg ?kp (mkdirCommand cfg)"
  let ?c = "sshArgs cfg ?kp (copyCommand cfg (backupNameOf env))"
  let ?s2 = "?s1\<lparr>world := w1, trace := trace ?s1 @ [Log (''Running: '' @ ''ssh'' @ '' '' @ join '' '' ?m), Ran ''ssh'' ?m out1]\<rparr>"
  let ?s3 = "?s2\<lparr>world := w2, trace := trace ?s2 @ [Log (''Running: '' @ ''ssh'' @ '' '' @ join '' '' ?c), Ran ''ssh'' ?c out2]\<rparr>"
  have rc1: "runCommand env ''ssh'' ?m True ?s1 = (settle True out1, ?s2)"
    using m by (intro runCommand_eq) (simp add: remote_def)
  have rc2: "runCommand env ''ssh'' ?c False ?s2 = (settle False out2, ?s3)"
    using c by (intro runCommand_eq) (simp add: remote_def)
  {
    assume "\<not> succeeded out1"
    then have "settle True out1 = Inl (Error (failureMessage True out1))" by (rule settle_failed)
    then have "createBackup env cfg s
               = (Inl (Error (failureMessage True out1)),
                  emit (Err (''Backup creation failed: '' @ message (Error (failureMessage True out1)))) ?s2)"
      by (simp only: createBackup_def Let_def rc1 andThen_def tryCatch_def prod.case sum.case halt.case)
    then show "(\<exists>e. fst (createBackup env cfg s) = Inl e) \<and>
           interactions (trace (snd (createBackup env cfg s)))
             = interactions (trace s) @ [Ran ''ssh'' (remote env cfg (mkdirCommand cfg)) out1]"
      by (simp add: remote_def)
  }
  {
    assume "succeeded out1" and "\<not> succeeded out2"
    then obtain r where "settle True out1 = Inr r"
      and "settle False out2 = Inl (Error (failureMessage False out2))"
      using settle_succeeded settle_failed by blast
    then have "createBackup env cfg s
               = (Inl (Error (failureMessage False out2)),
                  emit (Err (''Backup creation failed: '' @ message (Error (failureMessage False out2)))) ?s3)"
      by (simp only: createBackup_def Let_def rc1 rc2 andThen_def tryCatch_def prod.case sum.case halt.case)
    then show "(\<exists>e. fst (createBackup env cfg s) = Inl e) \<and>
           interactions (trace (snd (createBackup env cfg s)))
             = interactions (trace s) @
               [Ran ''ssh'' (remote env cfg (mkdirCommand cfg)) out1,
                Ran ''ssh'' (remote env cfg (copyCommand cfg (backupNameOf env))) out2]"
      by (simp add: remote_def)
  }
  {
    assume "succeeded out1" and "succeeded out2"
    then obtain r1 r2 where "settle True out1 = Inr r1" and "settle False out2 = Inr r2"
      using settle_succeeded by blast
    let ?s4 = "emit (Log (''Backup created: '' @ backupNameOf env)) ?s3"
    have "createBackup env cfg s = (Inr (backupNameOf env), snd (cleanOldBackups env cfg ?s4))"
      using \<open>settle True out1 = Inr r1\<close> \<open>settle False out2 = Inr r2\<close>
      by (simp only: createBackup_def Let_def rc1 rc2 andThen_def tryCatch_def prod.case sum.case halt.case
            cleanOldBackups_eq snd_conv)
    moreover from cleanOldBackups_trace [of env cfg ?s4]
    obtain es where "trace (snd (cleanOldBackups env cfg ?s4)) = trace ?s4 @ es"
      and "\<forall>e\<in>set (interactions es). cleanupRun env cfg e" by blast
    ultimately show "fst (createBackup env cfg s) = Inr (backupNameOf env) \<and>
           (\<exists>ces. interactions (trace (snd (createBackup env cfg s)))
                    = interactions (trace s) @
                      Ran ''ssh'' (remote env cfg (mkdirCommand cfg)) out1 #
                      Ran ''ssh'' (remote env cfg (copyCommand cfg (backupNameOf env))) out2 # ces \<and>
                  (\<forall>e\<in>set ces. cleanupRun env cfg e))"
      by (simp add: remote_def)
  }
qed


lemma remote_eq_iff [simp]: "remote env cfg x = remote env cfg y \<longleftrightarrow> x = y"
  by (simp add: remote_def sshArgs_def)

lemma command_heads:
  "listCommand cfg \<noteq> echoCommand" "listCommand cfg \<noteq> mkdirCommand cfg"
  "listCommand cfg \<noteq> copyCommand cfg n"
  "removeCommand cfg b \<noteq> echoCommand" "removeCommand cfg b \<noteq> mkdirCommand cfg"
  "removeCommand cfg b \<noteq> copyCommand cfg n"
  "mkdirCommand cfg \<noteq> echoCommand" "copyCommand cfg n \<noteq> echoCommand"
  "mkdirCommand cfg \<noteq> copyCommand cfg n"
  by (simp_all add: listCommand_def echoCommand_def mkdirCommand_def copyCommand_def
        removeCommand_def)

lemma cleanupRun_not_fatal: "cleanupRun env cfg e \<Longrightarrow> \<not> fatal env cfg e"
  by (auto simp: cleanupRun_def fatal_def command_heads)

lemma cleanupRun_not_rsync: "cleanupRun env cfg e \<Longrightarrow> e \<noteq> Ran ''rsync'' a out"
  by (auto simp: cleanupRun_def)

lemma deploySteps_dry:
  "fst (deploySteps env cfg True s) = fst (deployFiles env cfg True s)"
  "interactions (trace (snd (deploySteps env cfg True s)))
     = interactions (trace (snd (deployFiles env cfg True s)))"
  using deployFiles_run(1) [of env s cfg True]
  by (cases "exec env (world s) ''rsync'' (rsyncArgs env cfg True)";
      cases "deployFiles env cfg True s";
      simp add: deploySteps_def andThen_def split: sum.splits if_splits)+

lemma deploySteps_backup_failed:
  assumes "fst (createBackup env cfg s) = Inl e"
  shows "fst (deploySteps env cfg False s) = Inl e"
    and "interactions (trace (snd (deploySteps env cfg False s)))
           = interactions (trace (snd (createBackup env cfg s)))"
  using assms by (cases "createBackup env cfg s"; simp add: deploySteps_def andThen_def)+

lemma deploySteps_backup_ok:
  assumes "fst (createBackup env cfg s) = Inr v"
  shows "fst (deploySteps env cfg False s) = fst (deployFiles env cfg False (snd (createBackup env cfg s)))"
    and "interactions (trace (snd (deploySteps env cfg False s)))
           = interactions (trace (snd (deployFiles env cfg False (snd (createBackup env cfg s)))))"
  using assms deployFiles_run(1) [of env "snd (createBackup env cfg s)" cfg False]
  by (cases "exec env (world (snd (createBackup env cfg s))) ''rsync'' (rsyncArgs env cfg False)";
      cases "createBackup env cfg s";
      cases "deployFiles env cfg False (snd (createBackup env cfg s))";
      simp add: deploySteps_def andThen_def split: sum.splits if_splits)+

lemma createBackup_settles: "fst (createBackup env cfg s) \<noteq> Inl Pending"
  unfolding createBackup_def Let_def
  by (intro tryCatch_settles andThen_settles runCommand_settles) (simp_all add: cleanOldBackups_eq)

lemma deployFiles_settles: "fst (deployFiles env cfg dryRun s) \<noteq> Inl Pending"
  unfolding deployFiles_def Let_def
  by (intro tryCatch_settles andThen_settles runCommand_settles) simp_all

lemma deploySteps_settles: "fst (deploySteps env cfg dryRun s) \<noteq> Inl Pending"
  unfolding deploySteps_def
  by (intro andThen_settles if_settles createBackup_settles deployFiles_settles pure_settles)

lemma deployConfirmed_proj:
  "fst (deployConfirmed env cfg dryRun s)
     = (case fst (deploySteps env cfg dryRun s) of Inl e \<Rightarrow> Inr False | Inr v \<Rightarrow> Inr v)"
  "interactions (trace (snd (deployConfirmed env cfg dryRun s)))
     = interactions (trace (snd (deploySteps env cfg dryRun s)))"
  using deploySteps_settles [of env cfg dryRun s]
  by (cases "deploySteps env cfg dryRun s";
      simp add: deployConfirmed_def tryCatch_def split: sum.splits halt.splits)+


lemma verdict_failed:
  "(\<forall>a out. Ran ''rsync'' a out \<in> set es \<longrightarrow> \<not> succeeded out) \<Longrightarrow> \<not> unanswered es \<Longrightarrow>
   verdict env cfg d es (Inr False)"
  by (auto simp: verdict_def synced_def)

lemma verdict_prepend:
  "(\<forall>e\<in>set es1. \<not> fatal env cfg e) \<Longrightarrow> (\<forall>a out. Ran ''rsync'' a out \<notin> set es1) \<Longrightarrow>
   \<not> unanswered es1 \<Longrightarrow> verdict env cfg d es2 r \<Longrightarrow> verdict env cfg d (es1 @ es2) r"
  by (auto simp: verdict_def synced_def unanswered_def)

lemma deployConfirmed_verdict:
  "\<exists>es. interactions (trace (snd (deployConfirmed env cfg d s))) = interactions (trace s) @ es \<and>
        verdict env cfg d es (fst (deployConfirmed env cfg d s)) \<and>
        (if d then \<exists>out. es = [Ran ''rsync'' (rsyncArgs env cfg True) out]
         else \<exists>out rest. es = Ran ''ssh'' (remote env cfg (mkdirCommand cfg)) out # rest)"
proof (cases d)
  case True
  obtain out4 w4 where x: "exec env (world s) ''rsync'' (rsyncArgs env cfg True) = (out4, w4)"
    by (cases "exec env (world s) ''rsync'' (rsyncArgs env cfg True)")
  note df = deployFiles_run [OF x]
  have i: "interactions (trace (snd (deployConfirmed env cfg True s)))
           = interactions (trace s) @ [Ran ''rsync'' (rsyncArgs env cfg True) out4]"
    by (simp add: deployConfirmed_proj deploySteps_dry df)
  have r: "fst (deployConfirmed env cfg True s) = Inr (succeeded out4)"
    by (simp add: deployConfirmed_proj deploySteps_dry df)
  have "verdict env cfg True [Ran ''rsync'' (rsyncArgs env cfg True) out4] (Inr (succeeded out4))"
    by (auto simp: verdict_def fatal_def synced_def unanswered_def)
  with i r True show ?thesis by auto
next
  case False
  let ?m = "Ran ''ssh'' (remote env cfg (mkdirCommand cfg))"
  let ?c = "Ran ''ssh'' (remote env cfg (copyCommand cfg (backupNameOf env)))"
  obtain out1 w1 where m: "exec env (world s) ''ssh'' (remote env cfg (mkdirCommand cfg)) = (out1, w1)"
    by (cases "exec env (world s) ''ssh'' (remote env cfg (mkdirCommand cfg))")
  obtain out2 w2 where c: "exec env w1 ''ssh'' (remote env cfg (copyCommand cfg (backupNameOf env))) = (out2, w2)"
    by (cases "exec env w1 ''ssh'' (remote env cfg (copyCommand cfg (backupNameOf env)))")
  note cb = createBackup_run [OF m c]
  consider (mk) "\<not> succeeded out1" | (cp) "succeeded out1" "\<not> succeeded out2"
    | (ok) "succeeded out1" "succeeded out2" by blast
  then show ?thesis
  proof cases
    case mk
    from cb(1) [OF mk] obtain e where e: "fst (createBackup env cfg s) = Inl e"
      and i: "interactions (trace (snd (createBackup env cfg s))) = interactions (trace s) @ [?m out1]"
      by blast
    have "interactions (trace (snd (deployConfirmed env cfg False s))) = interactions (trace s) @ [?m out1]"
      by (simp add: deployConfirmed_proj deploySteps_backup_failed [OF e] i)
    moreover have "fst (deployConfirmed env cfg False s) = Inr False"
      by (simp add: deployConfirmed_proj deploySteps_backup_failed [OF e])
    moreover have "verdict env cfg False [?m out1] (Inr False)"
      by (rule verdict_failed) (simp_all add: unanswered_def)
    ultimately show ?thesis using False by auto
  next
    case cp
    from cb(2) [OF cp] obtain e where e: "fst (createBackup env cfg s) = Inl e"
      and i: "interactions (trace (snd (createBackup env cfg s)))
               = interactions (trace s) @ [?m out1, ?c out2]"
      by blast
    have "interactions (trace (snd (deployConfirmed env cfg False s)))
            = interactions (trace s) @ [?m out1, ?c out2]"
      by (simp add: deployConfirmed_proj deploySteps_backup_failed [OF e] i)
    moreover have "fst (deployConfirmed env cfg False s) = Inr False"
      by (simp add: deployConfirmed_proj deploySteps_backup_failed [OF e])
    moreover have "verdict env cfg False [?m out1, ?c out2] (Inr False)"
      by (rule verdict_failed) (simp_all add: unanswered_def)
    ultimately show ?thesis using False by auto
  next
    case ok
    from cb(3) [OF ok] obtain ces where v: "fst (createBackup env cfg s) = Inr (backupNameOf env)"
      and i: "interactions (trace (snd (createBackup env cfg s)))
               = interactions (trace s) @ ?m out1 # ?c out2 # ces"
      and ces: "\<forall>e\<in>set ces. cleanupRun env cfg e"
      by blast
    let ?sB = "snd (createBackup env cfg s)"
    obtain out4 w4 where x: "exec env (world ?sB) ''rsync'' (rsyncArgs env cfg False) = (out4, w4)"
      by (cases "exec env (world ?sB) ''rsync'' (rsyncArgs env cfg False)")
    note df = deployFiles_run [OF x]
    let ?es = "?m out1 # ?c out2 # ces @ [Ran ''rsync'' (rsyncArgs env cfg False) out4]"
    have "interactions (trace (snd (deployConfirmed env cfg False s))) = interactions (trace s) @ ?es"
      by (simp add: deployConfirmed_proj deploySteps_backup_ok [OF v] df i)
    moreover have r: "fst (deployConfirmed env cfg False s) = Inr (succeeded out4)"
      by (simp add: deployConfirmed_proj deploySteps_backup_ok [OF v] df)
    moreover have "verdict env cfg False ?es (Inr (succeeded out4))"
    proof -
      have nf: "\<forall>e\<in>set ces. \<not> fatal env cfg e"
        using ces cleanupRun_not_fatal by blast
      have nr: "\<forall>a out. Ran ''rsync'' a out \<notin> set ces"
        using ces cleanupRun_not_rsync by blast
      have v1: "verdict env cfg False [Ran ''rsync'' (rsyncArgs env cfg False) out4]
                  (Inr (succeeded out4))"
        by (auto simp: verdict_def fatal_def synced_def unanswered_def)
      have "\<not> fatal env cfg (?m out1)" and "\<not> fatal env cfg (?c out2)"
        using ok by (simp_all add: fatal_def)
      with nf have p1: "\<forall>e\<in>set (?m out1 # ?c out2 # ces). \<not> fatal env cfg e" by simp
      have p2: "\<forall>a out. Ran ''rsync'' a out \<notin> set (?m out1 # ?c out2 # ces)"
        using nr by simp
      have p3: "\<not> unanswered (?m out1 # ?c out2 # ces)"
        using ces by (auto simp: unanswered_def cleanupRun_def)
      from verdict_prepend [OF p1 p2 p3 v1] show ?thesis by simp
    qed
    ultimately show ?thesis using False by auto
  qed
qed

lemma deployConnected_ungated:
  "\<not> (requireConfirmation cfg \<and> \<not> d) \<Longrightarrow> deployConnected env cfg d s = deployConfirmed env cfg d s"
  by (cases "requireConfirmation cfg"; cases d; simp add: deployConnected_def andThen_def)

lemma deployConnected_gated:
  assumes "requireConfirmation cfg" and "\<not> d"
  shows "stdin env (asked s) = Some a \<Longrightarrow> toLowerCase a \<noteq> ''y'' \<Longrightarrow>
           fst (deployConnected env cfg d s) = Inr False \<and>
           interactions (trace (snd (deployConnected env cfg d s)))
             = interactions (trace s) @ [Asked (confirmMessage @ '' (y/N): '') a] \<and>
           last (trace (snd (deployConnected env cfg d s))) = Log ''Deployment cancelled''"
    and "stdin env (asked s) = Some a \<Longrightarrow> toLowerCase a = ''y'' \<Longrightarrow>
           \<exists>s1. interactions (trace s1)
                  = interactions (trace s) @ [Asked (confirmMessage @ '' (y/N): '') a] \<and>
                world s1 = world s \<and>
                deployConnected env cfg d s = deployConfirmed env cfg d s1"
    and "stdin env (asked s) = None \<Longrightarrow>
           deployConnected env cfg d s
             = (Inl Pending, emit (Unanswered (confirmMessage @ '' (y/N): '')) s)"
proof -
  let ?s1 = "(emit (Asked (confirmMessage @ '' (y/N): '') a) s)\<lparr>asked := Suc (asked s)\<rparr>"
  {
    assume t: "stdin env (asked s) = Some a" and n: "toLowerCase a \<noteq> ''y''"
    have "deployConnected env cfg d s = (Inr False, emit (Log ''Deployment cancelled'') ?s1)"
      using assms n
      by (simp only: deployConnected_def confirm_run [OF t] andThen_def prod.case sum.case
            simp_thms if_True)
    then show "fst (deployConnected env cfg d s) = Inr False \<and>
           interactions (trace (snd (deployConnected env cfg d s)))
             = interactions (trace s) @ [Asked (confirmMessage @ '' (y/N): '') a] \<and>
           last (trace (snd (deployConnected env cfg d s))) = Log ''Deployment cancelled''"
      by simp
  }
  {
    assume t: "stdin env (asked s) = Some a" and y: "toLowerCase a = ''y''"
    have "deployConnected env cfg d s = deployConfirmed env cfg d ?s1"
      using assms y
      by (simp only: deployConnected_def confirm_run [OF t] andThen_def prod.case sum.case
            simp_thms if_True if_False)
    moreover have "interactions (trace ?s1)
                  = interactions (trace s) @ [Asked (confirmMessage @ '' (y/N): '') a]"
      by simp
    moreover have "world ?s1 = world s" by simp
    ultimately show "\<exists>s1. interactions (trace s1)
                  = interactions (trace s) @ [Asked (confirmMessage @ '' (y/N): '') a] \<and>
                world s1 = world s \<and>
                deployConnected env cfg d s = deployConfirmed env cfg d s1"
      by blast
  }
  {
    assume t: "stdin env (asked s) = None"
    show "deployConnected env cfg d s
             = (Inl Pending, emit (Unanswered (confirmMessage @ '' (y/N): '')) s)"
      using assms
      by (simp only: deployConnected_def confirm_ended [OF t] andThen_def prod.case sum.case
            simp_thms if_True)
  }
qed

lemma deployConnected_verdict:
  "\<exists>es. interactions (trace (snd (deployConnected env cfg d s))) = interactions (trace s) @ es \<and>
        (if requireConfirmation cfg \<and> \<not> d \<and> stdin env (asked s) = None
         then es = [Unanswered (confirmMessage @ '' (y/N): '')] \<and>
              fst (deployConnected env cfg d s) = Inl Pending
         else verdict env cfg d es (fst (deployConnected env cfg d s)))"
proof (cases "requireConfirmation cfg \<and> \<not> d")
  case False
  then show ?thesis
    using deployConfirmed_verdict [of env cfg d s] by (auto simp: deployConnected_ungated)
next
  case True
  then have g: "requireConfirmation cfg" "\<not> d" by simp_all
  show ?thesis
  proof (cases "stdin env (asked s)")
    case None
    from deployConnected_gated(3) [OF g None]
    have "fst (deployConnected env cfg d s) = Inl Pending"
      and "interactions (trace (snd (deployConnected env cfg d s)))
             = interactions (trace s) @ [Unanswered (confirmMessage @ '' (y/N): '')]"
      by simp_all
    with True None show ?thesis by simp
  next
    case (Some a)
    let ?a = "Asked (confirmMessage @ '' (y/N): '') a"
    have c: "\<not> (requireConfirmation cfg \<and> \<not> d \<and> stdin env (asked s) = None)"
      using Some by simp
    show ?thesis
    proof (cases "toLowerCase a = ''y''")
      case False
      from deployConnected_gated(1) [OF g Some False]
      have "fst (deployConnected env cfg d s) = Inr False"
        and "interactions (trace (snd (deployConnected env cfg d s))) = interactions (trace s) @ [?a]"
        by simp_all
      moreover have "verdict env cfg d [?a] (Inr False)"
        by (rule verdict_failed) (simp_all add: unanswered_def)
      ultimately show ?thesis using c by auto
    next
      case y: True
      from deployConnected_gated(2) [OF g Some y]
      obtain s1 where s1: "interactions (trace s1) = interactions (trace s) @ [?a]"
        and eq: "deployConnected env cfg d s = deployConfirmed env cfg d s1" by blast
      from deployConfirmed_verdict [of env cfg d s1]
      obtain es where es: "interactions (trace (snd (deployConfirmed env cfg d s1))) = interactions (trace s1) @ es"
        and v: "verdict env cfg d es (fst (deployConfirmed env cfg d s1))" by blast
      have "\<forall>e\<in>set [?a]. \<not> fatal env cfg e" using y by (simp add: fatal_def)
      moreover have "\<forall>a out. Ran ''rsync'' a out \<notin> set [?a]" by simp
      moreover have "\<not> unanswered [?a]" by (simp add: unanswered_def)
      ultimately have "verdict env cfg d ([?a] @ es) (fst (deployConfirmed env cfg d s1))"
        using v by (rule verdict_prepend)
      with es s1 eq c show ?thesis by auto
    qed
  qed
qed

lemma deploy_connected:
  assumes "loadConfig env s = Inr cfg" and "host cfg \<noteq> []" and "pathExists env (localPath cfg)"
    and x: "exec env (world s) ''ssh'' (remote env cfg echoCommand) = (out, w)"
  shows "\<exists>s2. interactions (trace s2)
                = interactions (trace s) @ [Ran ''ssh'' (remote env cfg echoCommand) out] \<and>
              asked s2 = asked s \<and> world s2 = w \<and>
              deploy env d s = (if succeeded out then deployConnected env cfg d s2
                                else (Inr False, s2))"
proof -
  from deploy_checked [OF assms(1,2,3), of d]
  obtain s1 where s1: "world s1 = world s" "asked s1 = asked s"
      "interactions (trace s1) = interactions (trace s)"
    and eq: "deploy env d s =
           andThen (testConnection env cfg s1)
             (\<lambda>connected s2. if \<not> connected then (Inr False, s2)
                              else deployConnected env cfg d s2)"
    by blast
  from x s1 have x1: "exec env (world s1) ''ssh'' (remote env cfg echoCommand) = (out, w)"
    by simp
  note tc = testConnection_run [OF x1]
  let ?s2 = "snd (testConnection env cfg s1)"
  have "deploy env d s = (if succeeded out then deployConnected env cfg d ?s2
                                else (Inr False, ?s2))"
    by (simp add: eq andThen_Inr [OF tc(1)])
  with tc s1 show ?thesis by auto
qed

lemma deploy_verdict:
  assumes lc: "loadConfig env s = Inr cfg"
  shows "\<exists>es. interactions (trace (snd (deploy env d s))) = interactions (trace s) @ es \<and>
          (verdict env cfg d es (fst (deploy env d s)) \<or>
           fst (deploy env d s) = Inl Pending \<and> unanswered es \<and> \<not> synced env cfg d es \<and>
           (\<forall>e\<in>set es. \<not> fatal env cfg e))"
proof -
  have stop: "verdict env cfg d [] (Inr False)"
    by (rule verdict_failed) (simp_all add: unanswered_def)
  consider (u) "host cfg = []" | (n) "\<not> pathExists env (localPath cfg)"
    | (c) "host cfg \<noteq> []" "pathExists env (localPath cfg)" by blast
  then show ?thesis
  proof cases
    case u
    with deploy_unconfigured [OF lc u, of d] stop show ?thesis by auto
  next
    case n
    with deploy_no_source [OF lc n, of d] stop show ?thesis by auto
  next
    case c
    let ?t = "Ran ''ssh'' (remote env cfg echoCommand)"
    let ?q = "Unanswered (confirmMessage @ '' (y/N): '')"
    obtain out w where x: "exec env (world s) ''ssh'' (remote env cfg echoCommand) = (out, w)"
      by (cases "exec env (world s) ''ssh'' (remote env cfg echoCommand)")
    from deploy_connected [OF lc c x, of d]
    obtain s2 where s2: "interactions (trace s2) = interactions (trace s) @ [?t out]"
      and eq: "deploy env d s = (if succeeded out then deployConnected env cfg d s2 else (Inr False, s2))"
      by blast
    show ?thesis
    proof (cases "succeeded out")
      case False
      have "verdict env cfg d [?t out] (Inr False)"
        by (rule verdict_failed) (simp_all add: unanswered_def)
      with False eq s2 show ?thesis by auto
    next
      case True
      from deployConnected_verdict [of env cfg d s2]
      obtain es where es: "interactions (trace (snd (deployConnected env cfg d s2)))
                            = interactions (trace s2) @ es"
        and v: "if requireConfirmation cfg \<and> \<not> d \<and> stdin env (asked s2) = None
                then es = [?q] \<and> fst (deployConnected env cfg d s2) = Inl Pending
                else verdict env cfg d es (fst (deployConnected env cfg d s2))" by blast
      have i: "interactions (trace (snd (deploy env d s))) = interactions (trace s) @ ([?t out] @ es)"
        using True eq s2 es by simp
      have r: "fst (deploy env d s) = fst (deployConnected env cfg d s2)"
        using True eq by simp
      have nf: "\<forall>e\<in>set [?t out]. \<not> fatal env cfg e" using True by (simp add: fatal_def)
      have nr: "\<forall>a out'. Ran ''rsync'' a out' \<notin> set [?t out]" by simp
      have nu: "\<not> unanswered [?t out]" by (simp add: unanswered_def)
      show ?thesis
      proof (cases "requireConfirmation cfg \<and> \<not> d \<and> stdin env (asked s2) = None")
        case False
        with v have "verdict env cfg d es (fst (deployConnected env cfg d s2))" by simp
        with nf nr nu have "verdict env cfg d ([?t out] @ es) (fst (deployConnected env cfg d s2))"
          by (rule verdict_prepend)
        with i r show ?thesis by auto
      next
        case e: True
        with v have es': "es = [?q]" and p: "fst (deployConnected env cfg d s2) = Inl Pending"
          by simp_all
        have "unanswered ([?t out] @ es)" by (simp add: es' unanswered_def)
        moreover have "\<not> synced env cfg d ([?t out] @ es)" by (simp add: es' synced_def)
        moreover have "\<forall>e\<in>set ([?t out] @ es). \<not> fatal env cfg e"
          using True by (simp add: es' fatal_def)
        ultimately show ?thesis using i r p by auto
      qed
    qed
  qed
qed

subsection \<open>rollback\<close>

lemma settle_closed_ok:
  "settle silent (Closed (Some 0) so se)
     = Inr \<lparr>stdout = (if silent then so else []), stderr = (if silent then se else []), code = 0\<rparr>"
  by (simp add: settle_def)

lemma rollback_listing_failed:
  assumes l: "exec env (world s) ''ssh'' (remote env cfg (listCommand cfg)) = (out, w)"
    and "\<not> succeeded out"
  shows "fst (rollback env cfg name s) = Inr False"
    and "interactions (trace (snd (rollback env cfg name s)))
           = interactions (trace s) @ [Ran ''ssh'' (remote env cfg (listCommand cfg)) out]"
    and "last (trace (snd (rollback env cfg name s)))
           = Err (''Rollback failed: '' @ failureMessage True out)"
  using l settle_failed [OF assms(2), of True]
  by (simp_all add: rollback_def runCommand_eq andThen_def tryCatch_def Let_def remote_def)

lemma rollback_none_listed:
  assumes l: "exec env (world s) ''ssh'' (remote env cfg (listCommand cfg)) = (Closed (Some 0) so se, w)"
    and "parseListing so = []"
  shows "fst (rollback env cfg name s) = Inr False"
    and "interactions (trace (snd (rollback env cfg name s)))
           = interactions (trace s) @ [Ran ''ssh'' (remote env cfg (listCommand cfg)) (Closed (Some 0) so se)]"
    and "last (trace (snd (rollback env cfg name s))) = Err ''No backups available for rollback''"
  using assms
  by (simp_all add: rollback_def runCommand_eq settle_closed_ok andThen_def tryCatch_def Let_def remote_def)

lemma interactions_logs [simp]: "interactions (map (\<lambda>b. Log (f b)) bs) = []"
  by (induction bs) simp_all

lemma rollback_not_found:
  assumes l: "exec env (world s) ''ssh'' (remote env cfg (listCommand cfg)) = (Closed (Some 0) so se, w)"
    and "parseListing so = b # bs" and "orElse name b \<notin> set (b # bs)"
  shows "fst (rollback env cfg name s) = Inr False"
    and "interactions (trace (snd (rollback env cfg name s)))
           = interactions (trace s) @ [Ran ''ssh'' (remote env cfg (listCommand cfg)) (Closed (Some 0) so se)]"
    and "Err (''Backup not found: '' @ orElse name b) \<in> set (trace (snd (rollback env cfg name s)))"
  using assms
  by (simp_all add: rollback_def runCommand_eq settle_closed_ok andThen_def tryCatch_def Let_def remote_def)

lemma rollback_restore:
  assumes l: "exec env (world s) ''ssh'' (remote env cfg (listCommand cfg)) = (Closed (Some 0) so se, w)"
    and p: "parseListing so = b # bs" and t: "orElse name b \<in> set (b # bs)"
    and r: "exec env w ''ssh'' (remote env cfg (restoreCommand cfg (orElse name b))) = (out, w')"
  shows "fst (rollback env cfg name s) = Inr (succeeded out)"
    and "interactions (trace (snd (rollback env cfg name s)))
           = interactions (trace s) @
             [Ran ''ssh'' (remote env cfg (listCommand cfg)) (Closed (Some 0) so se),
              Ran ''ssh'' (remote env cfg (restoreCommand cfg (orElse name b))) out]"
    and "Log (''Rolling back to: '' @ orElse name b) \<in> set (trace (snd (rollback env cfg name s)))"
proof -
  have "succeeded out \<or> \<not> succeeded out" by simp
  then have "fst (rollback env cfg name s) = Inr (succeeded out) \<and>
     interactions (trace (snd (rollback env cfg name s)))
           = interactions (trace s) @
             [Ran ''ssh'' (remote env cfg (listCommand cfg)) (Closed (Some 0) so se),
              Ran ''ssh'' (remote env cfg (restoreCommand cfg (orElse name b))) out] \<and>
     Log (''Rolling back to: '' @ orElse name b) \<in> set (trace (snd (rollback env cfg name s)))"
  proof
    assume ok: "succeeded out"
    then obtain v where "settle False out = Inr v" using settle_succeeded by blast
    with l p t r ok show ?thesis
      by (simp add: rollback_def runCommand_eq settle_closed_ok andThen_def tryCatch_def Let_def remote_def)
  next
    assume nok: "\<not> succeeded out"
    with l p t r settle_failed [OF nok, of False] show ?thesis
      by (simp add: rollback_def runCommand_eq settle_closed_ok andThen_def tryCatch_def Let_def remote_def)
  qed
  then show "fst (rollback env cfg name s) = Inr (succeeded out)"
    and "interactions (trace (snd (rollback env cfg name s)))
           = interactions (trace s) @
             [Ran ''ssh'' (remote env cfg (listCommand cfg)) (Closed (Some 0) so se),
              Ran ''ssh'' (remote env cfg (restoreCommand cfg (orElse name b))) out]"
    and "Log (''Rolling back to: '' @ orElse name b) \<in> set (trace (snd (rollback env cfg name s)))"
    by simp_all
qed

lemma succeeded_Closed: "succeeded out \<Longrightarrow> \<exists>so se. out = Closed (Some 0) so se"
  by (cases out) (auto simp: succeeded_def)

subsection \<open>toLowerCase\<close>

lemma y_code: "(of_char (CHR ''y'') :: nat) = 121" by simp
lemma Y_code: "(of_char (CHR ''Y'') :: nat) = 89" by simp
lemma char_121: "char_of (121 :: nat) = CHR ''y''" by code_simp

lemma toLowerChar_y: "toLowerChar c = CHR ''y'' \<longleftrightarrow> c = CHR ''y'' \<or> c = CHR ''Y''"
proof -
  define n where "n = (of_char c :: nat)"
  have lt: "n < 256" by (simp add: n_def)
  have cn: "c = char_of n" by (simp add: n_def)
  have eqy: "\<And>m::nat. m < 256 \<Longrightarrow> (char_of m = CHR ''y'') = (m = 121)"
  proof -
    fix m :: nat assume "m < 256"
    have "(char_of m = char_of (121::nat)) = (m mod 256 = 121 mod 256)" by (rule char_of_quasi_inj)
    with \<open>m < 256\<close> show "(char_of m = CHR ''y'') = (m = 121)" by (simp add: char_121)
  qed
  have eqY: "(c = CHR ''Y'') = (n = 89)"
    using Y_code by (metis n_def of_char_eq_iff)
  have eqy': "(c = CHR ''y'') = (n = 121)"
    using y_code by (metis n_def of_char_eq_iff)
  show ?thesis
  proof (cases "(65 \<le> n \<and> n \<le> 90) \<or> (192 \<le> n \<and> n \<le> 222 \<and> n \<noteq> 215)")
    case False
    then have tl: "toLowerChar c = c" unfolding toLowerChar_def Let_def n_def by (rule if_not_P)
    from False have "n \<noteq> 89" by arith
    then have "c \<noteq> CHR ''Y''" by (simp add: eqY)
    with tl show ?thesis by simp
  next
    case True
    then have t: "toLowerChar c = char_of (n + 32)"
      unfolding toLowerChar_def Let_def n_def by (rule if_P)
    from True have "n \<noteq> 121" by arith
    then have ny: "c \<noteq> CHR ''y''" by (simp add: eqy')
    from True lt have "n + 32 < 256" by arith
    then have "(char_of (n + 32) = CHR ''y'') = (n + 32 = 121)" by (rule eqy)
    also have "\<dots> = (n = 89)" by arith
    also have "\<dots> = (c = CHR ''Y'')" by (simp add: eqY)
    finally show ?thesis using ny by (simp add: t)
  qed
qed

lemma toLowerCase_y: "toLowerCase a = ''y'' \<longleftrightarrow> a = ''y'' \<or> a = ''Y''"
proof (cases a)
  case Nil
  then show ?thesis by (simp add: toLowerCase_def)
next
  case (Cons c cs)
  then show ?thesis by (cases cs) (simp_all add: toLowerCase_def toLowerChar_y)
qed

section \<open>deployFiles\<close>

lemma deployFiles_fst:
  "exec env (world s) ''rsync'' (rsyncArgs env cfg dryRun) = (out, w) \<Longrightarrow>
   fst (deployFiles env cfg dryRun s)
     = (case settle False out of Inl e \<Rightarrow> Inl e | Inr r \<Rightarrow> Inr True)"
  by (simp add: deployFiles_def runCommand_eq andThen_def tryCatch_def Let_def
        split: sum.splits halt.splits)

text \<open>
  Claim C5, as the code has it.  \<open>deployFiles\<close> returns true when \<^verbatim>\<open>rsync\<close> exits
  with status zero.  Otherwise it throws: for a non-zero exit (or a signal) the
  message is \<^verbatim>\<open>Command failed with code <code>\<close> and a newline, with nothing of
  what \<^verbatim>\<open>rsync\<close> wrote after it, because \<^verbatim>\<open>rsync\<close> is not run silent and nothing is
  captured; when \<^verbatim>\<open>rsync\<close> could not be spawned it is the spawn error.
\<close>

theorem deployFiles_result:
  "exec env (world s) ''rsync'' (rsyncArgs env cfg dryRun) = (out, w) \<Longrightarrow>
     (succeeded out \<longrightarrow> fst (deployFiles env cfg dryRun s) = Inr True) \<and>
     (\<forall>c so se. out = Closed c so se \<and> c \<noteq> Some 0 \<longrightarrow>
        fst (deployFiles env cfg dryRun s)
          = Inl (Error (''Command failed with code '' @ showCode c @ [nl]))) \<and>
     (\<forall>m. out = SpawnFailed m \<longrightarrow> fst (deployFiles env cfg dryRun s) = Inl (Error m))"
  by (cases out) (auto simp: deployFiles_fst settle_def succeeded_def)

theorem deployFiles_result_witness:
  "exec (scripted allSucceed ''y'') () ''rsync'' (rsyncArgs (scripted allSucceed ''y'') sampleConfig True)
     = (Closed (Some 0) [] [], ()) \<and>
   succeeded (Closed (Some 0) [] []) \<and>
   fst (deployFiles (scripted allSucceed ''y'') sampleConfig True (initial ())) = Inr True \<and>
   exec (scripted allKilled ''y'') () ''rsync'' (rsyncArgs (scripted allKilled ''y'') sampleConfig False)
     = (Closed None [] ''Killed'', ()) \<and>
   fst (deployFiles (scripted allKilled ''y'') sampleConfig False (initial ()))
     = Inl (Error (''Command failed with code null'' @ [nl])) \<and>
   exec (scripted noneSpawned ''y'') () ''rsync''
        (rsyncArgs (scripted noneSpawned ''y'') sampleConfig False)
     = (SpawnFailed ''spawn rsync ENOENT'', ()) \<and>
   fst (deployFiles (scripted noneSpawned ''y'') sampleConfig False (initial ()))
     = Inl (Error ''spawn rsync ENOENT'')"
proof -
  have a: "exec (scripted allSucceed ''y'') (world (initial ())) ''rsync''
             (rsyncArgs (scripted allSucceed ''y'') sampleConfig True) = (Closed (Some 0) [] [], ())"
    by (simp add: scripted_def allSucceed_def)
  have b: "exec (scripted allKilled ''y'') (world (initial ())) ''rsync''
             (rsyncArgs (scripted allKilled ''y'') sampleConfig False) = (Closed None [] ''Killed'', ())"
    by (simp add: scripted_def allKilled_def)
  have c: "exec (scripted noneSpawned ''y'') (world (initial ())) ''rsync''
             (rsyncArgs (scripted noneSpawned ''y'') sampleConfig False)
           = (SpawnFailed ''spawn rsync ENOENT'', ())"
    by (simp add: scripted_def noneSpawned_def)
  show ?thesis
    using deployFiles_result [OF a] deployFiles_result [OF b] deployFiles_result [OF c]
    by (simp add: succeeded_def showCode_def initial_def scripted_def allSucceed_def
        allKilled_def noneSpawned_def)
qed

text \<open>
  Claim C5 as stated fails: \<^verbatim>\<open>rsync\<close> writes a diagnosis to stderr and exits with
  status 12, and the error thrown by \<open>deployFiles\<close> carries the exit code only.
\<close>

theorem deployFiles_output_counterexample:
  "exec (scripted refusedSync ''y'') () ''rsync'' (rsyncArgs (scripted refusedSync ''y'') sampleConfig False)
     = (Closed (Some 12) [] ''rsync: connection refused'', ()) \<and>
   fst (deployFiles (scripted refusedSync ''y'') sampleConfig False (initial ()))
     = Inl (Error (''Command failed with code 12'' @ [nl]))"
  by code_simp

section \<open>deploy: ordering of the checks\<close>

text \<open>
  Claim C6.  When the local source directory does not exist, \<open>deploy\<close> returns false
  and has run no child process at all.  When the connection test fails, \<open>deploy\<close>
  returns false and the connection test is the only child process it has run (none at
  all when the host is not configured or the source directory is missing): no backup
  and no sync command was issued.  When the configuration file cannot be read, no
  source directory is known: \<open>deploy\<close> throws and has run no child process either.
\<close>

theorem deploy_fail_fast:
  "(\<forall>m. loadConfig env s = Inl (Error m) \<longrightarrow>
      fst (deploy env dryRun s) = Inl (Error m) \<and>
      commands (trace (snd (deploy env dryRun s))) = commands (trace s)) \<and>
   (\<forall>cfg. loadConfig env s = Inr cfg \<longrightarrow>
      (\<not> pathExists env (localPath cfg) \<longrightarrow>
         fst (deploy env dryRun s) = Inr False \<and>
         commands (trace (snd (deploy env dryRun s))) = commands (trace s)) \<and>
      (\<forall>out w. exec env (world s) ''ssh'' (remote env cfg echoCommand) = (out, w) \<and>
               \<not> succeeded out \<longrightarrow>
         fst (deploy env dryRun s) = Inr False \<and>
         commands (trace (snd (deploy env dryRun s)))
           = commands (trace s) @
             (if host cfg \<noteq> [] \<and> pathExists env (localPath cfg)
              then [(''ssh'', remote env cfg echoCommand)] else [])))"
proof (rule conjI)
  show "\<forall>m. loadConfig env s = Inl (Error m) \<longrightarrow>
      fst (deploy env dryRun s) = Inl (Error m) \<and>
      commands (trace (snd (deploy env dryRun s))) = commands (trace s)"
  proof (intro allI impI)
    fix m
    assume l: "loadConfig env s = Inl (Error m)"
    from deploy_unreadable [OF l, of dryRun]
    show "fst (deploy env dryRun s) = Inl (Error m) \<and>
          commands (trace (snd (deploy env dryRun s))) = commands (trace s)"
      using commands_of_interactions_same by blast
  qed
next
  show "\<forall>cfg. loadConfig env s = Inr cfg \<longrightarrow>
      (\<not> pathExists env (localPath cfg) \<longrightarrow>
         fst (deploy env dryRun s) = Inr False \<and>
         commands (trace (snd (deploy env dryRun s))) = commands (trace s)) \<and>
      (\<forall>out w. exec env (world s) ''ssh'' (remote env cfg echoCommand) = (out, w) \<and>
               \<not> succeeded out \<longrightarrow>
         fst (deploy env dryRun s) = Inr False \<and>
         commands (trace (snd (deploy env dryRun s)))
           = commands (trace s) @
             (if host cfg \<noteq> [] \<and> pathExists env (localPath cfg)
              then [(''ssh'', remote env cfg echoCommand)] else []))"
  proof (intro allI impI)
    fix cfg
    assume lc: "loadConfig env s = Inr cfg"
    show "(\<not> pathExists env (localPath cfg) \<longrightarrow>
         fst (deploy env dryRun s) = Inr False \<and>
         commands (trace (snd (deploy env dryRun s))) = commands (trace s)) \<and>
      (\<forall>out w. exec env (world s) ''ssh'' (remote env cfg echoCommand) = (out, w) \<and>
               \<not> succeeded out \<longrightarrow>
         fst (deploy env dryRun s) = Inr False \<and>
         commands (trace (snd (deploy env dryRun s)))
           = commands (trace s) @
             (if host cfg \<noteq> [] \<and> pathExists env (localPath cfg)
              then [(''ssh'', remote env cfg echoCommand)] else []))"
    proof (rule conjI)
      show "\<not> pathExists env (localPath cfg) \<longrightarrow>
          fst (deploy env dryRun s) = Inr False \<and>
          commands (trace (snd (deploy env dryRun s))) = commands (trace s)"
      proof
        assume n: "\<not> pathExists env (localPath cfg)"
        from deploy_no_source [OF lc n, of dryRun]
        show "fst (deploy env dryRun s) = Inr False \<and>
              commands (trace (snd (deploy env dryRun s))) = commands (trace s)"
          using commands_of_interactions_same by blast
      qed
    next
      have "fst (deploy env dryRun s) = Inr False \<and>
          commands (trace (snd (deploy env dryRun s)))
            = commands (trace s) @
              (if host cfg \<noteq> [] \<and> pathExists env (localPath cfg)
               then [(''ssh'', remote env cfg echoCommand)] else [])"
        if a: "exec env (world s) ''ssh'' (remote env cfg echoCommand) = (out, w) \<and> \<not> succeeded out"
        for out w
      proof -
        consider (u) "host cfg = []" | (n) "\<not> pathExists env (localPath cfg)"
          | (c) "host cfg \<noteq> []" "pathExists env (localPath cfg)" by blast
        then show ?thesis
        proof cases
          case u
          from deploy_unconfigured [OF lc u, of dryRun]
          have "fst (deploy env dryRun s) = Inr False"
            and "commands (trace (snd (deploy env dryRun s))) = commands (trace s)"
            using commands_of_interactions_same by blast+
          with u show ?thesis by simp
        next
          case n
          from deploy_no_source [OF lc n, of dryRun]
          have "fst (deploy env dryRun s) = Inr False"
            and "commands (trace (snd (deploy env dryRun s))) = commands (trace s)"
            using commands_of_interactions_same by blast+
          with n show ?thesis by simp
        next
          case c
          from a have x: "exec env (world s) ''ssh'' (remote env cfg echoCommand) = (out, w)"
            and f: "\<not> succeeded out" by simp_all
          from deploy_connected [OF lc c x, of dryRun] f
          obtain s2 where i: "interactions (trace s2)
                      = interactions (trace s) @ [Ran ''ssh'' (remote env cfg echoCommand) out]"
            and d: "deploy env dryRun s = (Inr False, s2)" by auto
          from commands_of_interactions [OF i]
          have "commands (trace s2) = commands (trace s) @ [(''ssh'', remote env cfg echoCommand)]"
            by simp
          then show ?thesis using c d by simp
        qed
      qed
      then show "\<forall>out w. exec env (world s) ''ssh'' (remote env cfg echoCommand) = (out, w) \<and>
               \<not> succeeded out \<longrightarrow>
         fst (deploy env dryRun s) = Inr False \<and>
         commands (trace (snd (deploy env dryRun s)))
           = commands (trace s) @
             (if host cfg \<noteq> [] \<and> pathExists env (localPath cfg)
              then [(''ssh'', remote env cfg echoCommand)] else [])"
        by (intro allI impI)
    qed
  qed
qed

theorem deploy_fail_fast_witness:
  "loadConfig noSource (initial ()) = Inr sampleConfig \<and>
   \<not> pathExists noSource (localPath sampleConfig) \<and>
   fst (deploy noSource False (initial ())) = Inr False \<and>
   commands (trace (snd (deploy noSource False (initial ())))) = [] \<and>
   loadConfig (scripted sshDown ''y'') (initial ()) = Inr sampleConfig \<and>
   exec (scripted sshDown ''y'') () ''ssh'' (remote (scripted sshDown ''y'') sampleConfig echoCommand)
     = (Closed (Some 255) [] ''ssh: connect to host 203.0.113.7 port 22: Connection refused'', ()) \<and>
   fst (deploy (scripted sshDown ''y'') False (initial ())) = Inr False \<and>
   commands (trace (snd (deploy (scripted sshDown ''y'') False (initial ()))))
     = [(''ssh'', [''-i'', ''/home/me/.ssh/id_rsa'', ''-p'', ''22'', ''root@203.0.113.7'', echoCommand])] \<and>
   loadConfig (scripted allSucceed ''y'') corrupt = Inl (Error ''Unexpected end of JSON input'') \<and>
   fst (deploy (scripted allSucceed ''y'') False corrupt) = Inl (Error ''Unexpected end of JSON input'') \<and>
   commands (trace (snd (deploy (scripted allSucceed ''y'') False corrupt))) = []"
proof -
  have l1: "loadConfig noSource (initial ()) = Inr sampleConfig"
    by (simp add: noSource_def scripted_def loadConfig_def initial_def)
  have a: "\<not> pathExists noSource (localPath sampleConfig)"
    by (simp add: noSource_def scripted_def)
  have l2: "loadConfig (scripted sshDown ''y'') (initial ()) = Inr sampleConfig"
    by (simp add: scripted_def loadConfig_def initial_def)
  have b: "exec (scripted sshDown ''y'') (world (initial ())) ''ssh''
        (remote (scripted sshDown ''y'') sampleConfig echoCommand)
     = (Closed (Some 255) [] ''ssh: connect to host 203.0.113.7 port 22: Connection refused'', ())"
    by (simp add: scripted_def sshDown_def)
  have c: "\<not> succeeded (Closed (Some 255) [] ''ssh: connect to host 203.0.113.7 port 22: Connection refused'')"
    by (simp add: succeeded_def)
  have d: "host sampleConfig \<noteq> [] \<and> pathExists (scripted sshDown ''y'') (localPath sampleConfig)"
    by (simp add: scripted_def sampleConfig_def)
  have e: "remote (scripted sshDown ''y'') sampleConfig echoCommand
           = [''-i'', ''/home/me/.ssh/id_rsa'', ''-p'', ''22'', ''root@203.0.113.7'', echoCommand]"
    by (simp add: remote_def sshArgs_def scripted_def sampleConfig_def expandHome_def)
  have l3: "loadConfig (scripted allSucceed ''y'') corrupt = Inl (Error ''Unexpected end of JSON input'')"
    by (simp add: loadConfig_def corrupt_def)
  have i: "world (initial ()) = ()" "trace (initial ()) = []" "trace corrupt = []"
    by (simp_all add: initial_def corrupt_def)
  from deploy_fail_fast [of noSource "initial ()" False] l1 a
  have 1: "fst (deploy noSource False (initial ())) = Inr False \<and>
           commands (trace (snd (deploy noSource False (initial ())))) = []"
    by (simp add: i)
  from deploy_fail_fast [of "scripted sshDown ''y''" "initial ()" False] l2 b c d
  have 2: "fst (deploy (scripted sshDown ''y'') False (initial ())) = Inr False \<and>
     commands (trace (snd (deploy (scripted sshDown ''y'') False (initial ()))))
       = [(''ssh'', remote (scripted sshDown ''y'') sampleConfig echoCommand)]"
    by (simp add: i)
  from deploy_fail_fast [of "scripted allSucceed ''y''" corrupt False] l3
  have 3: "fst (deploy (scripted allSucceed ''y'') False corrupt) = Inl (Error ''Unexpected end of JSON input'') \<and>
     commands (trace (snd (deploy (scripted allSucceed ''y'') False corrupt))) = []"
    by (simp add: i)
  from l1 a l2 b 1 2 l3 3 show ?thesis by (simp only: e i) simp
qed

section \<open>deploy: the dry run\<close>

text \<open>
  Claim C3.  Whatever the configuration and the outside world, a dry-run \<open>deploy\<close>
  interacts with the outside in one of three ways only: not at all, by the connection
  test alone, or by the connection test followed by the one \<^verbatim>\<open>rsync\<close> call, whose
  arguments contain \<^verbatim>\<open>--dry-run\<close>.  So no command of \<open>createBackup\<close> (it would start
  with \<^verbatim>\<open>mkdir\<close>) and no remote \<^verbatim>\<open>rm\<close> is ever run, and no prompt is shown: the
  confirmation gate is skipped.
\<close>

theorem dry_run_changes_nothing:
  "(\<exists>cfg out1 out2.
      interactions (trace (snd (deploy env True s))) = interactions (trace s) \<or>
      loadConfig env s = Inr cfg \<and>
      interactions (trace (snd (deploy env True s)))
        = interactions (trace s) @ [Ran ''ssh'' (remote env cfg echoCommand) out1] \<or>
      loadConfig env s = Inr cfg \<and>
      interactions (trace (snd (deploy env True s)))
        = interactions (trace s) @
          [Ran ''ssh'' (remote env cfg echoCommand) out1,
           Ran ''rsync'' (rsyncArgs env cfg True) out2]) \<and>
   (\<forall>cfg. ''--dry-run'' \<in> set (rsyncArgs env cfg True))"
proof (rule conjI)
  show "\<exists>cfg out1 out2.
      interactions (trace (snd (deploy env True s))) = interactions (trace s) \<or>
      loadConfig env s = Inr cfg \<and>
      interactions (trace (snd (deploy env True s)))
        = interactions (trace s) @ [Ran ''ssh'' (remote env cfg echoCommand) out1] \<or>
      loadConfig env s = Inr cfg \<and>
      interactions (trace (snd (deploy env True s)))
        = interactions (trace s) @
          [Ran ''ssh'' (remote env cfg echoCommand) out1,
           Ran ''rsync'' (rsyncArgs env cfg True) out2]"
  proof (cases "loadConfig env s")
    case (Inl e)
    from deploy_unreadable(2) [OF Inl, of True] show ?thesis by simp
  next
    case (Inr cfg)
    let ?t = "Ran ''ssh'' (remote env cfg echoCommand)"
    let ?r = "Ran ''rsync'' (rsyncArgs env cfg True)"
    consider (u) "host cfg = []" | (n) "\<not> pathExists env (localPath cfg)"
      | (c) "host cfg \<noteq> []" "pathExists env (localPath cfg)" by blast
    then show ?thesis
    proof cases
      case u
      from deploy_unconfigured(2) [OF Inr u, of True] show ?thesis by simp
    next
      case n
      from deploy_no_source(2) [OF Inr n, of True] show ?thesis by simp
    next
      case c
      obtain out w where x: "exec env (world s) ''ssh'' (remote env cfg echoCommand) = (out, w)"
        by (cases "exec env (world s) ''ssh'' (remote env cfg echoCommand)")
      from deploy_connected [OF Inr c x, of True]
      obtain s2 where s2: "interactions (trace s2) = interactions (trace s) @ [?t out]"
        and eq: "deploy env True s = (if succeeded out then deployConnected env cfg True s2 else (Inr False, s2))"
        by blast
      show ?thesis
      proof (cases "succeeded out")
        case False
        with eq s2 have "interactions (trace (snd (deploy env True s))) = interactions (trace s) @ [?t out]"
          by simp
        with Inr show ?thesis by blast
      next
        case True
        from deployConfirmed_verdict [of env cfg True s2]
        obtain out2 where "interactions (trace (snd (deployConfirmed env cfg True s2)))
                             = interactions (trace s2) @ [?r out2]"
          by auto
        with True eq s2
        have "interactions (trace (snd (deploy env True s))) = interactions (trace s) @ [?t out, ?r out2]"
          by (simp add: deployConnected_ungated)
        with Inr show ?thesis by blast
      qed
    qed
  qed
next
  show "\<forall>cfg. ''--dry-run'' \<in> set (rsyncArgs env cfg True)"
    by (simp add: rsyncArgs_def filterBoolean_def Let_def)
qed

section \<open>deploy: the confirmation gate\<close>

text \<open>
  Claim C9.  When the gate is reached (host configured, source directory present,
  connection test passed, confirmation required, no dry run), the answer typed counts
  as a yes exactly when its lower-case form is \<^verbatim>\<open>y\<close>, that is when it is \<^verbatim>\<open>y\<close> or \<^verbatim>\<open>Y\<close>.
  On every other answer \<open>deploy\<close> returns false, prints that the deployment is
  cancelled and runs nothing after the prompt; on a yes it goes on to the backup, whose
  first command is the \<^verbatim>\<open>mkdir\<close>.  When the input ends at the prompt there is no answer:
  \<open>deploy\<close> never returns, and nothing is run after the prompt.
\<close>

theorem confirmation_gate:
  assumes lc: "loadConfig env s = Inr cfg"
    and "host cfg \<noteq> []" and "pathExists env (localPath cfg)"
    and rq: "requireConfirmation cfg"
    and x: "exec env (world s) ''ssh'' (remote env cfg echoCommand) = (out, w)"
    and ok: "succeeded out"
  shows "(\<forall>a. stdin env (asked s) = Some a \<longrightarrow>
            (toLowerCase a = ''y'' \<longleftrightarrow> a = ''y'' \<or> a = ''Y'') \<and>
            (toLowerCase a \<noteq> ''y'' \<longrightarrow>
               fst (deploy env False s) = Inr False \<and>
               interactions (trace (snd (deploy env False s)))
                 = interactions (trace s) @
                   [Ran ''ssh'' (remote env cfg echoCommand) out,
                    Asked (confirmMessage @ '' (y/N): '') a] \<and>
               last (trace (snd (deploy env False s))) = Log ''Deployment cancelled'') \<and>
            (toLowerCase a = ''y'' \<longrightarrow>
               (\<exists>out1 rest.
                  interactions (trace (snd (deploy env False s)))
                    = interactions (trace s) @
                      Ran ''ssh'' (remote env cfg echoCommand) out #
                      Asked (confirmMessage @ '' (y/N): '') a #
                      Ran ''ssh'' (remote env cfg (mkdirCommand cfg)) out1 #
                      rest))) \<and>
         (stdin env (asked s) = None \<longrightarrow>
            fst (deploy env False s) = Inl Pending \<and>
            interactions (trace (snd (deploy env False s)))
              = interactions (trace s) @
                [Ran ''ssh'' (remote env cfg echoCommand) out,
                 Unanswered (confirmMessage @ '' (y/N): '')])"
proof -
  let ?t = "Ran ''ssh'' (remote env cfg echoCommand) out"
  from deploy_connected [OF assms(1,2,3) x, of False] ok
  obtain s2 where s2: "interactions (trace s2) = interactions (trace s) @ [?t]"
    and a2: "asked s2 = asked s"
    and eq: "deploy env False s = deployConnected env cfg False s2"
    by auto
  have g: "\<not> False" by simp
  have no: "fst (deploy env False s) = Inr False \<and>
            interactions (trace (snd (deploy env False s)))
              = interactions (trace s) @ [?t, Asked (confirmMessage @ '' (y/N): '') a] \<and>
            last (trace (snd (deploy env False s))) = Log ''Deployment cancelled''"
    if t: "stdin env (asked s) = Some a" and n: "toLowerCase a \<noteq> ''y''" for a
  proof -
    from t a2 have "stdin env (asked s2) = Some a" by simp
    from deployConnected_gated(1) [OF rq g this n] show ?thesis
      by (simp add: eq s2)
  qed
  have yes: "\<exists>out1 rest. interactions (trace (snd (deploy env False s)))
                 = interactions (trace s) @ ?t # Asked (confirmMessage @ '' (y/N): '') a #
                   Ran ''ssh'' (remote env cfg (mkdirCommand cfg)) out1 # rest"
    if t: "stdin env (asked s) = Some a" and y: "toLowerCase a = ''y''" for a
  proof -
    from t a2 have "stdin env (asked s2) = Some a" by simp
    from deployConnected_gated(2) [OF rq g this y]
    obtain s3 where s3: "interactions (trace s3)
                           = interactions (trace s2) @ [Asked (confirmMessage @ '' (y/N): '') a]"
      and e3: "deployConnected env cfg False s2 = deployConfirmed env cfg False s3"
      by auto
    from deployConfirmed_verdict [of env cfg False s3]
    obtain out1 rest where "interactions (trace (snd (deployConfirmed env cfg False s3)))
         = interactions (trace s3) @ Ran ''ssh'' (remote env cfg (mkdirCommand cfg)) out1 # rest"
      by auto
    then have "interactions (trace (snd (deploy env False s)))
                 = interactions (trace s) @ ?t # Asked (confirmMessage @ '' (y/N): '') a #
                   Ran ''ssh'' (remote env cfg (mkdirCommand cfg)) out1 # rest"
      by (simp add: eq e3 s3 s2)
    then show ?thesis by blast
  qed
  have ended: "fst (deploy env False s) = Inl Pending \<and>
            interactions (trace (snd (deploy env False s)))
              = interactions (trace s) @ [?t, Unanswered (confirmMessage @ '' (y/N): '')]"
    if t: "stdin env (asked s) = None"
  proof -
    from t a2 have "stdin env (asked s2) = None" by simp
    from deployConnected_gated(3) [OF rq g this] show ?thesis
      by (simp add: eq s2)
  qed
  have typed: "(toLowerCase a = ''y'' \<longleftrightarrow> a = ''y'' \<or> a = ''Y'') \<and>
            (toLowerCase a \<noteq> ''y'' \<longrightarrow>
               fst (deploy env False s) = Inr False \<and>
               interactions (trace (snd (deploy env False s)))
                 = interactions (trace s) @ [?t, Asked (confirmMessage @ '' (y/N): '') a] \<and>
               last (trace (snd (deploy env False s))) = Log ''Deployment cancelled'') \<and>
            (toLowerCase a = ''y'' \<longrightarrow>
               (\<exists>out1 rest.
                  interactions (trace (snd (deploy env False s)))
                    = interactions (trace s) @ ?t # Asked (confirmMessage @ '' (y/N): '') a #
                      Ran ''ssh'' (remote env cfg (mkdirCommand cfg)) out1 # rest))"
    if t: "stdin env (asked s) = Some a" for a
    using no [OF t] yes [OF t] by (simp only: toLowerCase_y) blast
  then have "\<forall>a. stdin env (asked s) = Some a \<longrightarrow>
            (toLowerCase a = ''y'' \<longleftrightarrow> a = ''y'' \<or> a = ''Y'') \<and>
            (toLowerCase a \<noteq> ''y'' \<longrightarrow>
               fst (deploy env False s) = Inr False \<and>
               interactions (trace (snd (deploy env False s)))
                 = interactions (trace s) @ [?t, Asked (confirmMessage @ '' (y/N): '') a] \<and>
               last (trace (snd (deploy env False s))) = Log ''Deployment cancelled'') \<and>
            (toLowerCase a = ''y'' \<longrightarrow>
               (\<exists>out1 rest.
                  interactions (trace (snd (deploy env False s)))
                    = interactions (trace s) @ ?t # Asked (confirmMessage @ '' (y/N): '') a #
                      Ran ''ssh'' (remote env cfg (mkdirCommand cfg)) out1 # rest))"
    by (intro allI impI)
  moreover from ended have "stdin env (asked s) = None \<longrightarrow>
            fst (deploy env False s) = Inl Pending \<and>
            interactions (trace (snd (deploy env False s)))
              = interactions (trace s) @ [?t, Unanswered (confirmMessage @ '' (y/N): '')]"
    by (intro impI)
  ultimately show ?thesis by (rule conjI)
qed

theorem confirmation_gate_witness:
  "stdin (scripted allSucceed ''yes'') (asked (initial ())) = Some ''yes'' \<and>
   toLowerCase ''yes'' \<noteq> ''y'' \<and>
   fst (deploy (scripted allSucceed ''yes'') False (initial ())) = Inr False \<and>
   interactions (trace (snd (deploy (scripted allSucceed ''yes'') False (initial ()))))
     = [Ran ''ssh'' (remote (scripted allSucceed ''yes'') sampleConfig echoCommand) (Closed (Some 0) [] []),
        Asked (confirmMessage @ '' (y/N): '') ''yes''] \<and>
   last (trace (snd (deploy (scripted allSucceed ''yes'') False (initial ())))) = Log ''Deployment cancelled'' \<and>
   stdin (scripted allSucceed ''Y'') (asked (initial ())) = Some ''Y'' \<and>
   toLowerCase ''Y'' = ''y'' \<and>
   (\<exists>out1 rest.
      interactions (trace (snd (deploy (scripted allSucceed ''Y'') False (initial ()))))
        = Ran ''ssh'' (remote (scripted allSucceed ''Y'') sampleConfig echoCommand) (Closed (Some 0) [] []) #
          Asked (confirmMessage @ '' (y/N): '') ''Y'' #
          Ran ''ssh'' (remote (scripted allSucceed ''Y'') sampleConfig (mkdirCommand sampleConfig)) out1 #
          rest) \<and>
   stdin endOfInput (asked (initial ())) = None \<and>
   fst (deploy endOfInput False (initial ())) = Inl Pending \<and>
   interactions (trace (snd (deploy endOfInput False (initial ()))))
     = [Ran ''ssh'' (remote endOfInput sampleConfig echoCommand) (Closed (Some 0) [] []),
        Unanswered (confirmMessage @ '' (y/N): '')]"
proof -
  have c: "loadConfig (scripted allSucceed a) (initial ()) = Inr sampleConfig" for a
    by (simp add: loadConfig_def scripted_def initial_def)
  have c': "loadConfig endOfInput (initial ()) = Inr sampleConfig"
    by (simp add: loadConfig_def endOfInput_def scripted_def initial_def)
  have h: "host sampleConfig \<noteq> []" "requireConfirmation sampleConfig"
    by (simp_all add: sampleConfig_def)
  have p: "pathExists (scripted allSucceed a) (localPath sampleConfig)" for a
    by (simp add: scripted_def)
  have p': "pathExists endOfInput (localPath sampleConfig)"
    by (simp add: endOfInput_def scripted_def)
  have x: "exec (scripted allSucceed a) (world (initial ())) ''ssh''
             (remote (scripted allSucceed a) sampleConfig echoCommand) = (Closed (Some 0) [] [], ())" for a
    by (simp add: scripted_def allSucceed_def)
  have x': "exec endOfInput (world (initial ())) ''ssh''
             (remote endOfInput sampleConfig echoCommand) = (Closed (Some 0) [] [], ())"
    by (simp add: endOfInput_def scripted_def allSucceed_def)
  have ok: "succeeded (Closed (Some 0) [] [])" by (simp add: succeeded_def)
  have i: "stdin (scripted allSucceed a) (asked (initial ())) = Some a" "trace (initial ()) = []" for a
    by (simp_all add: scripted_def initial_def)
  have i': "stdin endOfInput (asked (initial ())) = None"
    by (simp add: endOfInput_def scripted_def)
  have n: "toLowerCase ''yes'' \<noteq> ''y''" and y: "toLowerCase ''Y'' = ''y''"
    by (simp_all add: toLowerCase_y)
  from confirmation_gate [OF c h(1) p h(2) x ok, of "''yes''"] n
  have 1: "fst (deploy (scripted allSucceed ''yes'') False (initial ())) = Inr False \<and>
   interactions (trace (snd (deploy (scripted allSucceed ''yes'') False (initial ()))))
     = [Ran ''ssh'' (remote (scripted allSucceed ''yes'') sampleConfig echoCommand) (Closed (Some 0) [] []),
        Asked (confirmMessage @ '' (y/N): '') ''yes''] \<and>
   last (trace (snd (deploy (scripted allSucceed ''yes'') False (initial ())))) = Log ''Deployment cancelled''"
    by (simp add: i)
  from confirmation_gate [OF c h(1) p h(2) x ok, of "''Y''"] y
  have 2: "\<exists>out1 rest.
      interactions (trace (snd (deploy (scripted allSucceed ''Y'') False (initial ()))))
        = Ran ''ssh'' (remote (scripted allSucceed ''Y'') sampleConfig echoCommand) (Closed (Some 0) [] []) #
          Asked (confirmMessage @ '' (y/N): '') ''Y'' #
          Ran ''ssh'' (remote (scripted allSucceed ''Y'') sampleConfig (mkdirCommand sampleConfig)) out1 #
          rest"
    by (simp add: i)
  from confirmation_gate [OF c' h(1) p' h(2) x' ok] i'
  have 3: "fst (deploy endOfInput False (initial ())) = Inl Pending \<and>
   interactions (trace (snd (deploy endOfInput False (initial ()))))
     = [Ran ''ssh'' (remote endOfInput sampleConfig echoCommand) (Closed (Some 0) [] []),
        Unanswered (confirmMessage @ '' (y/N): '')]"
    by (simp add: i)
  from i(1) [of "''yes''"] i(1) [of "''Y''"] i' n y 1 2 3 show ?thesis by blast
qed

section \<open>rollback\<close>

lemma restore_not_listing: "restoreCommand cfg t \<noteq> listCommand cfg"
  by (simp add: restoreCommand_def listCommand_def)

subsection \<open>Evaluating the concrete inputs\<close>

lemma sample_remote:
  "remote (scripted f a) sampleConfig sh
     = [''-i'', ''/home/me/.ssh/id_rsa'', ''-p'', ''22'', ''root@203.0.113.7'', sh]"
  by (simp add: remote_def sshArgs_def scripted_def sampleConfig_def expandHome_def)

lemma sample_listCommand: "listCommand sampleConfig = ''ls -1t /var/www/site-backups''"
  by (simp add: listCommand_def sampleConfig_def)

lemma sample_parse: "parseListing sampleListing = [''backup-3'', ''backup-2'', ''backup-1'']"
  by code_simp

lemma sample_exec: "exec (scripted f a) w c args = (f c args, w)"
  by (simp add: scripted_def)

lemma sample_initial: "world (initial w) = w" "trace (initial w) = []" "asked (initial w) = 0"
  by (simp_all add: initial_def)

lemma parse_empty: "parseListing [] = []"
  by code_simp

lemma sample_loadConfig: "loadConfig (scripted f a) (initial w) = Inr sampleConfig"
  by (simp add: loadConfig_def scripted_def initial_def)

lemma orElse_empty: "orElse (Some []) b = orElse None b"
  by (simp add: orElse_def)

lemma rollback_empty_name: "rollback env cfg (Some []) s = rollback env cfg None s"
  unfolding rollback_def orElse_empty by (rule refl)

lemma sample_backupName: "backupNameOf (scripted f a) = ''backup-2024-01-01T00-00-00-000Z''"
  by (simp add: backupNameOf_def scripted_def dashes_def)

text \<open>
  Claim C2, as the code has it.  \<open>rollback\<close> never throws: its result is always a
  boolean.  When the listing command succeeds and lists nothing, the result is false,
  the last line printed is \<^verbatim>\<open>No backups available for rollback\<close>, and the listing is the
  only child process run.  When a name that is not empty is given and is not in the
  listing, the result is false and again only the listing was run, so the site
  directory is untouched.  When the target is in the listing, exactly the listing and
  the combined \<^verbatim>\<open>rm -rf ... && cp -r ...\<close> command are run, and the result is true
  exactly when that command exits with status zero.  When the listing command itself
  fails, the result is false and nothing else is run.  The empty name counts as no
  name at all (\<^verbatim>\<open>backupName || backups[0]\<close>): \<open>rollback\<close> then does what it does when
  called without a name, and restores the newest backup.
\<close>

theorem rollback_returns_boolean:
  "(\<exists>b. fst (rollback env cfg name s) = Inr b) \<and>
   (\<forall>so se w.
      exec env (world s) ''ssh'' (remote env cfg (listCommand cfg)) = (Closed (Some 0) so se, w) \<longrightarrow>
        (parseListing so = [] \<longrightarrow>
           fst (rollback env cfg name s) = Inr False \<and>
           last (trace (snd (rollback env cfg name s))) = Err ''No backups available for rollback'' \<and>
           interactions (trace (snd (rollback env cfg name s)))
             = interactions (trace s) @
               [Ran ''ssh'' (remote env cfg (listCommand cfg)) (Closed (Some 0) so se)]) \<and>
        (\<forall>n. name = Some n \<and> n \<noteq> [] \<and> n \<notin> set (parseListing so) \<longrightarrow>
           fst (rollback env cfg name s) = Inr False \<and>
           interactions (trace (snd (rollback env cfg name s)))
             = interactions (trace s) @
               [Ran ''ssh'' (remote env cfg (listCommand cfg)) (Closed (Some 0) so se)]) \<and>
        (\<forall>b bs out2 w2.
           parseListing so = b # bs \<and> orElse name b \<in> set (b # bs) \<and>
           exec env w ''ssh'' (remote env cfg (restoreCommand cfg (orElse name b))) = (out2, w2) \<longrightarrow>
           fst (rollback env cfg name s) = Inr (succeeded out2) \<and>
           interactions (trace (snd (rollback env cfg name s)))
             = interactions (trace s) @
               [Ran ''ssh'' (remote env cfg (listCommand cfg)) (Closed (Some 0) so se),
                Ran ''ssh'' (remote env cfg (restoreCommand cfg (orElse name b))) out2])) \<and>
   (\<forall>out w.
      exec env (world s) ''ssh'' (remote env cfg (listCommand cfg)) = (out, w) \<and> \<not> succeeded out \<longrightarrow>
        fst (rollback env cfg name s) = Inr False \<and>
        interactions (trace (snd (rollback env cfg name s)))
          = interactions (trace s) @ [Ran ''ssh'' (remote env cfg (listCommand cfg)) out]) \<and>
   rollback env cfg (Some []) s = rollback env cfg None s"
proof (intro conjI allI impI)
  show "rollback env cfg (Some []) s = rollback env cfg None s"
    by (rule rollback_empty_name)
next
  show "\<exists>b. fst (rollback env cfg name s) = Inr b"
  proof -
    obtain out w where l: "exec env (world s) ''ssh'' (remote env cfg (listCommand cfg)) = (out, w)"
      by (cases "exec env (world s) ''ssh'' (remote env cfg (listCommand cfg))")
    show ?thesis
    proof (cases "succeeded out")
      case False
      from rollback_listing_failed(1) [OF l False] show ?thesis by blast
    next
      case True
      then obtain so se where o: "out = Closed (Some 0) so se" using succeeded_Closed by blast
      note l' = l [unfolded o]
      show ?thesis
      proof (cases "parseListing so")
        case Nil
        from rollback_none_listed(1) [OF l' Nil] show ?thesis by blast
      next
        case (Cons b bs)
        show ?thesis
        proof (cases "orElse name b \<in> set (b # bs)")
          case False
          from rollback_not_found(1) [OF l' Cons False] show ?thesis by blast
        next
          case t: True
          obtain out2 w2 where r: "exec env w ''ssh'' (remote env cfg (restoreCommand cfg (orElse name b))) = (out2, w2)"
            by (cases "exec env w ''ssh'' (remote env cfg (restoreCommand cfg (orElse name b)))")
          from rollback_restore(1) [OF l' Cons t r] show ?thesis by blast
        qed
      qed
    qed
  qed
next
  fix so se w
  assume l: "exec env (world s) ''ssh'' (remote env cfg (listCommand cfg)) = (Closed (Some 0) so se, w)"
    and e: "parseListing so = []"
  from rollback_none_listed [OF l e]
  show "fst (rollback env cfg name s) = Inr False"
    and "last (trace (snd (rollback env cfg name s))) = Err ''No backups available for rollback''"
    and "interactions (trace (snd (rollback env cfg name s)))
             = interactions (trace s) @
               [Ran ''ssh'' (remote env cfg (listCommand cfg)) (Closed (Some 0) so se)]"
    by blast+
next
  fix so se w n
  assume l: "exec env (world s) ''ssh'' (remote env cfg (listCommand cfg)) = (Closed (Some 0) so se, w)"
    and a: "name = Some n \<and> n \<noteq> [] \<and> n \<notin> set (parseListing so)"
  have "fst (rollback env cfg name s) = Inr False \<and>
        interactions (trace (snd (rollback env cfg name s)))
             = interactions (trace s) @
               [Ran ''ssh'' (remote env cfg (listCommand cfg)) (Closed (Some 0) so se)]"
  proof (cases "parseListing so")
    case Nil
    from rollback_none_listed(1,2) [OF l Nil] show ?thesis by blast
  next
    case (Cons b bs)
    from a have "orElse name b = n" by (simp add: orElse_def)
    with a Cons have "orElse name b \<notin> set (b # bs)" by simp
    from rollback_not_found(1,2) [OF l Cons this] show ?thesis by blast
  qed
  then show "fst (rollback env cfg name s) = Inr False"
    and "interactions (trace (snd (rollback env cfg name s)))
             = interactions (trace s) @
               [Ran ''ssh'' (remote env cfg (listCommand cfg)) (Closed (Some 0) so se)]"
    by blast+
next
  fix so se w b bs out2 w2
  assume l: "exec env (world s) ''ssh'' (remote env cfg (listCommand cfg)) = (Closed (Some 0) so se, w)"
    and a: "parseListing so = b # bs \<and> orElse name b \<in> set (b # bs) \<and>
           exec env w ''ssh'' (remote env cfg (restoreCommand cfg (orElse name b))) = (out2, w2)"
  from a have p: "parseListing so = b # bs" and t: "orElse name b \<in> set (b # bs)"
    and r: "exec env w ''ssh'' (remote env cfg (restoreCommand cfg (orElse name b))) = (out2, w2)"
    by blast+
  from rollback_restore(1,2) [OF l p t r]
  show "fst (rollback env cfg name s) = Inr (succeeded out2)"
    and "interactions (trace (snd (rollback env cfg name s)))
             = interactions (trace s) @
               [Ran ''ssh'' (remote env cfg (listCommand cfg)) (Closed (Some 0) so se),
                Ran ''ssh'' (remote env cfg (restoreCommand cfg (orElse name b))) out2]"
    by blast+
next
  fix out w
  assume a: "exec env (world s) ''ssh'' (remote env cfg (listCommand cfg)) = (out, w) \<and> \<not> succeeded out"
  then have l: "exec env (world s) ''ssh'' (remote env cfg (listCommand cfg)) = (out, w)"
    and f: "\<not> succeeded out" by blast+
  from rollback_listing_failed(1,2) [OF l f]
  show "fst (rollback env cfg name s) = Inr False"
    and "interactions (trace (snd (rollback env cfg name s)))
          = interactions (trace s) @ [Ran ''ssh'' (remote env cfg (listCommand cfg)) out]"
    by blast+
qed

theorem rollback_returns_boolean_witness:
  "exec (scripted allSucceed ''y'') () ''ssh''
        (remote (scripted allSucceed ''y'') sampleConfig (listCommand sampleConfig))
     = (Closed (Some 0) [] [], ()) \<and>
   parseListing [] = [] \<and>
   fst (rollback (scripted allSucceed ''y'') sampleConfig None (initial ())) = Inr False \<and>
   last (trace (snd (rollback (scripted allSucceed ''y'') sampleConfig None (initial ()))))
     = Err ''No backups available for rollback'' \<and>
   interactions (trace (snd (rollback (scripted allSucceed ''y'') sampleConfig None (initial ()))))
     = [Ran ''ssh'' (remote (scripted allSucceed ''y'') sampleConfig (listCommand sampleConfig))
          (Closed (Some 0) [] [])] \<and>
   ''backup-9'' \<notin> set (parseListing sampleListing) \<and>
   fst (rollback (scripted threeListed ''y'') sampleConfig (Some ''backup-9'') (initial ())) = Inr False \<and>
   interactions (trace (snd (rollback (scripted threeListed ''y'') sampleConfig (Some ''backup-9'') (initial ()))))
     = [Ran ''ssh'' (remote (scripted threeListed ''y'') sampleConfig (listCommand sampleConfig))
          (Closed (Some 0) sampleListing [])] \<and>
   orElse (Some ''backup-2'') ''backup-3'' = ''backup-2'' \<and>
   fst (rollback (scripted threeListed ''y'') sampleConfig (Some ''backup-2'') (initial ())) = Inr True \<and>
   interactions (trace (snd (rollback (scripted threeListed ''y'') sampleConfig (Some ''backup-2'') (initial ()))))
     = [Ran ''ssh'' (remote (scripted threeListed ''y'') sampleConfig (listCommand sampleConfig))
          (Closed (Some 0) sampleListing []),
        Ran ''ssh'' (remote (scripted threeListed ''y'') sampleConfig (restoreCommand sampleConfig ''backup-2''))
          (Closed (Some 0) [] [])] \<and>
   \<not> succeeded (sshDown ''ssh'' (remote (scripted sshDown ''y'') sampleConfig (listCommand sampleConfig))) \<and>
   fst (rollback (scripted sshDown ''y'') sampleConfig None (initial ())) = Inr False \<and>
   rollback (scripted threeListed ''y'') sampleConfig (Some []) (initial ())
     = rollback (scripted threeListed ''y'') sampleConfig None (initial ())"
proof -
  let ?E0 = "scripted allSucceed ''y''" and ?E3 = "scripted threeListed ''y''"
  let ?Ed = "scripted sshDown ''y''"
  have l0: "exec ?E0 (world (initial ())) ''ssh'' (remote ?E0 sampleConfig (listCommand sampleConfig))
            = (Closed (Some 0) [] [], ())"
    by (simp add: sample_exec allSucceed_def sample_initial)
  have l3: "exec ?E3 (world (initial ())) ''ssh'' (remote ?E3 sampleConfig (listCommand sampleConfig))
            = (Closed (Some 0) sampleListing [], ())"
    by (simp add: sample_exec sample_remote sample_listCommand threeListed_def sample_initial)
  have ld: "exec ?Ed (world (initial ())) ''ssh'' (remote ?Ed sampleConfig (listCommand sampleConfig))
            = (sshDown ''ssh'' (remote ?Ed sampleConfig (listCommand sampleConfig)), ())"
    by (simp add: sample_exec sample_initial)
  have nd: "\<not> succeeded (sshDown ''ssh'' (remote ?Ed sampleConfig (listCommand sampleConfig)))"
    by (simp add: sshDown_def succeeded_def)
  have n9: "''backup-9'' \<notin> set (parseListing sampleListing)" by (simp add: sample_parse)
  have o2: "orElse (Some ''backup-2'') ''backup-3'' = ''backup-2''" by (simp add: orElse_def)
  have m2: "orElse (Some ''backup-2'') ''backup-3'' \<in> set [''backup-3'', ''backup-2'', ''backup-1'']"
    by (simp add: orElse_def)
  have r2: "exec ?E3 () ''ssh''
              (remote ?E3 sampleConfig (restoreCommand sampleConfig (orElse (Some ''backup-2'') ''backup-3'')))
            = (Closed (Some 0) [] [], ())"
    by (simp add: sample_exec sample_remote threeListed_def o2 restoreCommand_def)
  have ok: "succeeded (Closed (Some 0) [] [])" by (simp add: succeeded_def)
  note A = rollback_returns_boolean [of ?E0 sampleConfig None "initial ()"]
  note B = rollback_returns_boolean [of ?E3 sampleConfig "Some ''backup-9''" "initial ()"]
  note C = rollback_returns_boolean [of ?E3 sampleConfig "Some ''backup-2''" "initial ()"]
  note D = rollback_returns_boolean [of ?Ed sampleConfig None "initial ()"]
  from A l0 parse_empty
  have a: "fst (rollback ?E0 sampleConfig None (initial ())) = Inr False \<and>
           last (trace (snd (rollback ?E0 sampleConfig None (initial ()))))
             = Err ''No backups available for rollback'' \<and>
           interactions (trace (snd (rollback ?E0 sampleConfig None (initial ()))))
             = [Ran ''ssh'' (remote ?E0 sampleConfig (listCommand sampleConfig)) (Closed (Some 0) [] [])]"
    by (simp add: sample_initial)
  from B l3 n9
  have b: "fst (rollback ?E3 sampleConfig (Some ''backup-9'') (initial ())) = Inr False \<and>
           interactions (trace (snd (rollback ?E3 sampleConfig (Some ''backup-9'') (initial ()))))
             = [Ran ''ssh'' (remote ?E3 sampleConfig (listCommand sampleConfig))
                  (Closed (Some 0) sampleListing [])]"
    by (simp add: sample_initial)
  from C have "parseListing sampleListing = [''backup-3'', ''backup-2'', ''backup-1''] \<and>
           orElse (Some ''backup-2'') ''backup-3'' \<in> set [''backup-3'', ''backup-2'', ''backup-1''] \<and>
           exec ?E3 () ''ssh''
              (remote ?E3 sampleConfig (restoreCommand sampleConfig (orElse (Some ''backup-2'') ''backup-3'')))
            = (Closed (Some 0) [] [], ()) \<longrightarrow>
           fst (rollback ?E3 sampleConfig (Some ''backup-2'') (initial ())) = Inr (succeeded (Closed (Some 0) [] [])) \<and>
           interactions (trace (snd (rollback ?E3 sampleConfig (Some ''backup-2'') (initial ()))))
             = interactions (trace (initial ())) @
               [Ran ''ssh'' (remote ?E3 sampleConfig (listCommand sampleConfig)) (Closed (Some 0) sampleListing []),
                Ran ''ssh'' (remote ?E3 sampleConfig (restoreCommand sampleConfig (orElse (Some ''backup-2'') ''backup-3'')))
                  (Closed (Some 0) [] [])]"
    using l3 by blast
  with sample_parse m2 r2 ok
  have c: "fst (rollback ?E3 sampleConfig (Some ''backup-2'') (initial ())) = Inr True \<and>
           interactions (trace (snd (rollback ?E3 sampleConfig (Some ''backup-2'') (initial ()))))
             = [Ran ''ssh'' (remote ?E3 sampleConfig (listCommand sampleConfig)) (Closed (Some 0) sampleListing []),
                Ran ''ssh'' (remote ?E3 sampleConfig (restoreCommand sampleConfig ''backup-2''))
                  (Closed (Some 0) [] [])]"
    by (simp add: sample_initial o2)
  from D ld nd
  have d: "fst (rollback ?Ed sampleConfig None (initial ())) = Inr False" by blast
  from B have e: "rollback ?E3 sampleConfig (Some []) (initial ())
                    = rollback ?E3 sampleConfig None (initial ())"
    by (elim conjE)
  from l0 have l0': "exec ?E0 () ''ssh'' (remote ?E0 sampleConfig (listCommand sampleConfig))
            = (Closed (Some 0) [] [], ())" by (simp add: sample_initial)
  from l0' parse_empty a n9 b o2 c nd d e show ?thesis by (intro conjI) blast+
qed

text \<open>
  Claim C2 as stated fails for the empty name: it is not in the listing, and \<open>rollback\<close>
  does not return false but removes the site directory, restores the newest backup
  and returns true.
\<close>

theorem rollback_empty_name_counterexample:
  "[] \<notin> set (parseListing sampleListing) \<and>
   fst (rollback (scripted threeListed ''y'') sampleConfig (Some []) (initial ())) = Inr True \<and>
   commands (trace (snd (rollback (scripted threeListed ''y'') sampleConfig (Some []) (initial ()))))
     = [(''ssh'', [''-i'', ''/home/me/.ssh/id_rsa'', ''-p'', ''22'', ''root@203.0.113.7'',
                   ''ls -1t /var/www/site-backups'']),
        (''ssh'', [''-i'', ''/home/me/.ssh/id_rsa'', ''-p'', ''22'', ''root@203.0.113.7'',
                   ''rm -rf /var/www/site && cp -r /var/www/site-backups/backup-3 /var/www/site''])]"
  by code_simp

text \<open>
  Claim C7.  With no backup name and a listing that is not empty, \<open>rollback\<close> restores
  the first entry of the listing (the newest one, the listing being \<^verbatim>\<open>ls -1t\<close>): it
  prints that entry as the target and the command it runs after the listing is the
  restore command of that entry.
\<close>

theorem rollback_default_target:
  assumes l: "exec env (world s) ''ssh'' (remote env cfg (listCommand cfg)) = (Closed (Some 0) so se, w)"
    and p: "parseListing so = b # bs"
  shows "(\<exists>out2. interactions (trace (snd (rollback env cfg None s)))
                  = interactions (trace s) @
                    [Ran ''ssh'' (remote env cfg (listCommand cfg)) (Closed (Some 0) so se),
                     Ran ''ssh'' (remote env cfg (restoreCommand cfg b)) out2] \<and>
                fst (rollback env cfg None s) = Inr (succeeded out2)) \<and>
         Log (''Rolling back to: '' @ b) \<in> set (trace (snd (rollback env cfg None s)))"
proof -
  have o: "orElse None b = b" by (simp add: orElse_def)
  then have t: "orElse None b \<in> set (b # bs)" by simp
  obtain out2 w2 where r: "exec env w ''ssh'' (remote env cfg (restoreCommand cfg (orElse None b))) = (out2, w2)"
    by (cases "exec env w ''ssh'' (remote env cfg (restoreCommand cfg (orElse None b)))")
  note rr = rollback_restore [OF l p t r]
  from rr(1,2) have "\<exists>out2. interactions (trace (snd (rollback env cfg None s)))
                  = interactions (trace s) @
                    [Ran ''ssh'' (remote env cfg (listCommand cfg)) (Closed (Some 0) so se),
                     Ran ''ssh'' (remote env cfg (restoreCommand cfg b)) out2] \<and>
                fst (rollback env cfg None s) = Inr (succeeded out2)"
    unfolding o by blast
  moreover from rr(3) have "Log (''Rolling back to: '' @ b) \<in> set (trace (snd (rollback env cfg None s)))"
    unfolding o .
  ultimately show ?thesis ..
qed

theorem rollback_default_target_witness:
  "exec (scripted threeListed ''y'') () ''ssh''
        (remote (scripted threeListed ''y'') sampleConfig (listCommand sampleConfig))
     = (Closed (Some 0) sampleListing [], ()) \<and>
   parseListing sampleListing = [''backup-3'', ''backup-2'', ''backup-1''] \<and>
   (\<exists>out2. interactions (trace (snd (rollback (scripted threeListed ''y'') sampleConfig None (initial ()))))
             = [Ran ''ssh'' (remote (scripted threeListed ''y'') sampleConfig (listCommand sampleConfig))
                  (Closed (Some 0) sampleListing []),
                Ran ''ssh'' (remote (scripted threeListed ''y'') sampleConfig
                               (restoreCommand sampleConfig ''backup-3'')) out2] \<and>
            fst (rollback (scripted threeListed ''y'') sampleConfig None (initial ())) = Inr (succeeded out2)) \<and>
   Log ''Rolling back to: backup-3''
     \<in> set (trace (snd (rollback (scripted threeListed ''y'') sampleConfig None (initial ()))))"
proof -
  have l: "exec (scripted threeListed ''y'') (world (initial ())) ''ssh''
             (remote (scripted threeListed ''y'') sampleConfig (listCommand sampleConfig))
           = (Closed (Some 0) sampleListing [], ())"
    by (simp add: sample_exec sample_remote sample_listCommand threeListed_def sample_initial)
  from rollback_default_target [OF l sample_parse] l sample_parse
  show ?thesis by (simp add: sample_initial)
qed

section \<open>The retention cleanup is best effort\<close>

lemma deployConfirmed_succeeds:
  assumes m: "\<forall>w. succeeded (fst (exec env w ''ssh'' (remote env cfg (mkdirCommand cfg))))"
    and c: "\<forall>w. succeeded (fst (exec env w ''ssh'' (remote env cfg (copyCommand cfg (backupNameOf env)))))"
    and r: "\<forall>w. succeeded (fst (exec env w ''rsync'' (rsyncArgs env cfg False)))"
  shows "fst (deployConfirmed env cfg False s) = Inr True"
proof -
  obtain out1 w1 where x1: "exec env (world s) ''ssh'' (remote env cfg (mkdirCommand cfg)) = (out1, w1)"
    by (cases "exec env (world s) ''ssh'' (remote env cfg (mkdirCommand cfg))")
  obtain out2 w2 where x2: "exec env w1 ''ssh'' (remote env cfg (copyCommand cfg (backupNameOf env))) = (out2, w2)"
    by (cases "exec env w1 ''ssh'' (remote env cfg (copyCommand cfg (backupNameOf env)))")
  from m x1 have s1: "succeeded out1" by (metis fst_conv)
  from c x2 have s2: "succeeded out2" by (metis fst_conv)
  from createBackup_run(3) [OF x1 x2 s1 s2]
  have v: "fst (createBackup env cfg s) = Inr (backupNameOf env)" by blast
  let ?sB = "snd (createBackup env cfg s)"
  obtain out4 w4 where x4: "exec env (world ?sB) ''rsync'' (rsyncArgs env cfg False) = (out4, w4)"
    by (cases "exec env (world ?sB) ''rsync'' (rsyncArgs env cfg False)")
  from r x4 have s4: "succeeded out4" by (metis fst_conv)
  from deployFiles_run(1) [OF x4] s4
  have "fst (deployFiles env cfg False ?sB) = Inr True" by simp
  then show ?thesis
    by (simp add: deployConfirmed_proj deploySteps_backup_ok [OF v])
qed

text \<open>
  Claim C8.  \<open>cleanOldBackups\<close> never throws: it always resolves.  When one of the
  commands it ran (the listing or a deletion) failed, the last thing it did is print the
  warning \<^verbatim>\<open>Could not clean old backups: ...\<close>.  So \<open>createBackup\<close> returns its backup name
  as soon as its own two commands (\<^verbatim>\<open>mkdir\<close>, \<^verbatim>\<open>cp\<close>) succeed, and \<open>deploy\<close> returns true
  whenever the configuration is read, the connection test, \<^verbatim>\<open>mkdir\<close>, \<^verbatim>\<open>cp\<close> and
  \<^verbatim>\<open>rsync\<close> succeed and the user confirms, whatever the listing and deletion commands
  do.
\<close>

theorem cleanup_is_best_effort:
  "fst (cleanOldBackups env cfg s) = Inr () \<and>
   (\<exists>es. trace (snd (cleanOldBackups env cfg s)) = trace s @ es \<and>
         ((\<exists>c a out. Ran c a out \<in> set es \<and> \<not> succeeded out) \<longrightarrow>
          (\<exists>m. last (trace (snd (cleanOldBackups env cfg s)))
                 = Warn (''Could not clean old backups: '' @ m)))) \<and>
   (\<forall>out1 w1 out2 w2.
      exec env (world s) ''ssh'' (remote env cfg (mkdirCommand cfg)) = (out1, w1) \<and>
      exec env w1 ''ssh'' (remote env cfg (copyCommand cfg (backupNameOf env))) = (out2, w2) \<and>
      succeeded out1 \<and> succeeded out2 \<longrightarrow>
        fst (createBackup env cfg s) = Inr (backupNameOf env)) \<and>
   (loadConfig env s = Inr cfg \<and> host cfg \<noteq> [] \<and> pathExists env (localPath cfg) \<and>
    (requireConfirmation cfg \<longrightarrow> (\<exists>a. stdin env (asked s) = Some a \<and> toLowerCase a = ''y'')) \<and>
    (\<forall>w. succeeded (fst (exec env w ''ssh'' (remote env cfg echoCommand)))) \<and>
    (\<forall>w. succeeded (fst (exec env w ''ssh'' (remote env cfg (mkdirCommand cfg))))) \<and>
    (\<forall>w. succeeded (fst (exec env w ''ssh'' (remote env cfg (copyCommand cfg (backupNameOf env)))))) \<and>
    (\<forall>w. succeeded (fst (exec env w ''rsync'' (rsyncArgs env cfg False)))) \<longrightarrow>
      fst (deploy env False s) = Inr True)"
proof -
  have p1: "fst (cleanOldBackups env cfg s) = Inr ()"
    by (simp add: cleanOldBackups_eq)
  from cleanOldBackups_trace [of env cfg s]
  have p2: "\<exists>es. trace (snd (cleanOldBackups env cfg s)) = trace s @ es \<and>
         ((\<exists>c a out. Ran c a out \<in> set es \<and> \<not> succeeded out) \<longrightarrow>
          (\<exists>m. last (trace (snd (cleanOldBackups env cfg s)))
                 = Warn (''Could not clean old backups: '' @ m)))"
    by blast
  have p3: "fst (createBackup env cfg s) = Inr (backupNameOf env)"
    if "exec env (world s) ''ssh'' (remote env cfg (mkdirCommand cfg)) = (out1, w1) \<and>
      exec env w1 ''ssh'' (remote env cfg (copyCommand cfg (backupNameOf env))) = (out2, w2) \<and>
      succeeded out1 \<and> succeeded out2" for out1 w1 out2 w2
  proof -
    from that have x1: "exec env (world s) ''ssh'' (remote env cfg (mkdirCommand cfg)) = (out1, w1)"
      and x2: "exec env w1 ''ssh'' (remote env cfg (copyCommand cfg (backupNameOf env))) = (out2, w2)"
      and s1: "succeeded out1" and s2: "succeeded out2" by simp_all
    from createBackup_run(3) [OF x1 x2 s1 s2] show ?thesis by blast
  qed
  have p4: "fst (deploy env False s) = Inr True"
    if a: "loadConfig env s = Inr cfg \<and> host cfg \<noteq> [] \<and> pathExists env (localPath cfg) \<and>
    (requireConfirmation cfg \<longrightarrow> (\<exists>a. stdin env (asked s) = Some a \<and> toLowerCase a = ''y'')) \<and>
    (\<forall>w. succeeded (fst (exec env w ''ssh'' (remote env cfg echoCommand)))) \<and>
    (\<forall>w. succeeded (fst (exec env w ''ssh'' (remote env cfg (mkdirCommand cfg))))) \<and>
    (\<forall>w. succeeded (fst (exec env w ''ssh'' (remote env cfg (copyCommand cfg (backupNameOf env)))))) \<and>
    (\<forall>w. succeeded (fst (exec env w ''rsync'' (rsyncArgs env cfg False))))"
  proof -
    from a have lc: "loadConfig env s = Inr cfg" by (elim conjE)
    from a have h: "host cfg \<noteq> []" by (elim conjE)
    from a have pe: "pathExists env (localPath cfg)" by (elim conjE)
    from a have y: "requireConfirmation cfg \<longrightarrow> (\<exists>a. stdin env (asked s) = Some a \<and> toLowerCase a = ''y'')"
      by (elim conjE)
    from a have e: "\<forall>w. succeeded (fst (exec env w ''ssh'' (remote env cfg echoCommand)))"
      by (elim conjE)
    from a have m: "\<forall>w. succeeded (fst (exec env w ''ssh'' (remote env cfg (mkdirCommand cfg))))"
      by (elim conjE)
    from a have c: "\<forall>w. succeeded (fst (exec env w ''ssh'' (remote env cfg (copyCommand cfg (backupNameOf env)))))"
      by (elim conjE)
    from a have r: "\<forall>w. succeeded (fst (exec env w ''rsync'' (rsyncArgs env cfg False)))"
      by (elim conjE)
    obtain out w where x: "exec env (world s) ''ssh'' (remote env cfg echoCommand) = (out, w)"
      by (cases "exec env (world s) ''ssh'' (remote env cfg echoCommand)")
    from e x have ok: "succeeded out" by (metis fst_conv)
    from deploy_connected [OF lc h pe x, of False] ok
    obtain s2 where a2: "asked s2 = asked s"
      and eq: "deploy env False s = deployConnected env cfg False s2"
      by auto
    have "\<exists>s3. deployConnected env cfg False s2 = deployConfirmed env cfg False s3"
    proof (cases "requireConfirmation cfg")
      case False
      then have "deployConnected env cfg False s2 = deployConfirmed env cfg False s2"
        by (intro deployConnected_ungated) simp
      then show ?thesis by blast
    next
      case True
      with y a2 obtain a where t: "stdin env (asked s2) = Some a" and ya: "toLowerCase a = ''y''"
        by auto
      have g: "\<not> False" by simp
      from deployConnected_gated(2) [OF True g t ya] show ?thesis by blast
    qed
    then obtain s3 where "deployConnected env cfg False s2 = deployConfirmed env cfg False s3" by blast
    with eq deployConfirmed_succeeds [OF m c r, of s3] show ?thesis by simp
  qed
  from p1 p2 p3 p4 show ?thesis by (intro conjI allI impI) blast+
qed

theorem cleanup_is_best_effort_witness:
  "fst (cleanOldBackups (scripted lsDenied ''y'') sampleConfig (initial ())) = Inr () \<and>
   last (trace (snd (cleanOldBackups (scripted lsDenied ''y'') sampleConfig (initial ()))))
     = Warn (''Could not clean old backups: Command failed with code 2'' @ [nl]
               @ ''ls: cannot open directory: Permission denied'') \<and>
   fst (createBackup (scripted lsDenied ''y'') sampleConfig (initial ()))
     = Inr ''backup-2024-01-01T00-00-00-000Z'' \<and>
   Ran ''ssh'' (remote (scripted lsDenied ''y'') sampleConfig (listCommand sampleConfig))
       (Closed (Some 2) [] ''ls: cannot open directory: Permission denied'')
     \<in> set (trace (snd (cleanOldBackups (scripted lsDenied ''y'') sampleConfig (initial ())))) \<and>
   fst (deploy (scripted lsDenied ''y'') False (initial ())) = Inr True"
proof -
  let ?E = "scripted lsDenied ''y''"
  note T = cleanup_is_best_effort [of ?E sampleConfig "initial ()"]
  have ok: "succeeded (Closed (Some 0) [] [])" by (simp add: succeeded_def)
  have e: "lsDenied ''ssh'' (remote ?E sampleConfig echoCommand) = Closed (Some 0) [] []"
    by (simp add: lsDenied_def sample_remote echoCommand_def)
  have m: "lsDenied ''ssh'' (remote ?E sampleConfig (mkdirCommand sampleConfig)) = Closed (Some 0) [] []"
    by (simp add: lsDenied_def sample_remote mkdirCommand_def)
  have c: "lsDenied ''ssh'' (remote ?E sampleConfig (copyCommand sampleConfig (backupNameOf ?E)))
           = Closed (Some 0) [] []"
    by (simp add: lsDenied_def sample_remote copyCommand_def)
  have r: "lsDenied ''rsync'' (rsyncArgs ?E sampleConfig False) = Closed (Some 0) [] []"
    by (simp add: lsDenied_def)
  have h: "host sampleConfig \<noteq> []" by (simp add: sampleConfig_def)
  have p: "pathExists ?E (localPath sampleConfig)" by (simp add: scripted_def)
  have y: "\<exists>a. stdin ?E (asked (initial ())) = Some a \<and> toLowerCase a = ''y''"
    by (simp add: scripted_def toLowerCase_y)
  from T have 1: "fst (cleanOldBackups ?E sampleConfig (initial ())) = Inr ()" by (elim conjE)
  from T e m c ok
  have 3: "fst (createBackup ?E sampleConfig (initial ())) = Inr (backupNameOf ?E)"
    by (simp add: sample_exec sample_initial)
  from T e m c r ok h p y
  have 4: "fst (deploy ?E False (initial ())) = Inr True"
    by (simp add: sample_exec sample_loadConfig)
  have 2: "last (trace (snd (cleanOldBackups ?E sampleConfig (initial ()))))
     = Warn (''Could not clean old backups: Command failed with code 2'' @ [nl]
               @ ''ls: cannot open directory: Permission denied'')"
    by code_simp
  have 5: "Ran ''ssh'' (remote ?E sampleConfig (listCommand sampleConfig))
       (Closed (Some 2) [] ''ls: cannot open directory: Permission denied'')
     \<in> set (trace (snd (cleanOldBackups ?E sampleConfig (initial ()))))"
    by code_simp
  from 1 2 3 5 4 show ?thesis by (simp only: sample_backupName)
qed

section \<open>cleanOldBackups: what is deleted\<close>

lemma slice_nat: "slice xs (int n) = drop n xs"
  by (simp add: slice_def Let_def min_def)

lemma deleteEach_commands:
  assumes "\<forall>w b. b \<in> set bs \<longrightarrow>
             succeeded (fst (exec env w ''ssh'' (sshArgs cfg kp (removeCommand cfg b))))"
  shows "fst (deleteEach env cfg kp bs s) = Inr () \<and>
         commands (trace (snd (deleteEach env cfg kp bs s)))
           = commands (trace s) @ map (\<lambda>b. (''ssh'', sshArgs cfg kp (removeCommand cfg b))) bs"
  using assms
proof (induction bs arbitrary: s)
  case Nil
  show ?case by simp
next
  case (Cons b bs)
  let ?a = "sshArgs cfg kp (removeCommand cfg b)"
  obtain out w where ex: "exec env (world s) ''ssh'' ?a = (out, w)"
    by (cases "exec env (world s) ''ssh'' ?a")
  from Cons.prems have "succeeded (fst (exec env (world s) ''ssh'' ?a))" by simp
  with ex have ok: "succeeded out" by simp
  let ?s1 = "s\<lparr>world := w, trace := trace s @ [Log (''Running: '' @ ''ssh'' @ '' '' @ join '' '' ?a), Ran ''ssh'' ?a out]\<rparr>"
  let ?s2 = "emit (Log (''   Deleted: '' @ b)) ?s1"
  have rc: "runCommand env ''ssh'' ?a True s = (settle True out, ?s1)"
    by (rule runCommand_eq [OF ex])
  from ok obtain r where "settle True out = Inr r" using settle_succeeded by blast
  then have eq: "deleteEach env cfg kp (b # bs) s = deleteEach env cfg kp bs ?s2"
    by (simp only: deleteEach.simps rc andThen_def prod.case sum.case)
  from Cons.prems have "\<forall>w b. b \<in> set bs \<longrightarrow>
             succeeded (fst (exec env w ''ssh'' (sshArgs cfg kp (removeCommand cfg b))))" by simp
  from Cons.IH [OF this, of ?s2]
  have ih: "fst (deleteEach env cfg kp bs ?s2) = Inr ()"
    "commands (trace (snd (deleteEach env cfg kp bs ?s2)))
       = commands (trace ?s2) @ map (\<lambda>b. (''ssh'', sshArgs cfg kp (removeCommand cfg b))) bs"
    by simp_all
  have "commands (trace ?s2) = commands (trace s) @ [(''ssh'', ?a)]" by simp
  with ih show ?case by (simp only: eq) simp
qed

lemma cleanOldBackups_commands:
  assumes l: "exec env (world s) ''ssh'' (remote env cfg (listCommand cfg)) = (Closed (Some 0) so se, w)"
    and n: "maxBackups cfg = int n"
    and ok: "\<forall>w b. b \<in> set (drop n (parseListing so)) \<longrightarrow>
               succeeded (fst (exec env w ''ssh'' (remote env cfg (removeCommand cfg b))))"
  shows "commands (trace (snd (cleanOldBackups env cfg s)))
           = commands (trace s) @
             (''ssh'', remote env cfg (listCommand cfg)) #
             map (\<lambda>b. (''ssh'', remote env cfg (removeCommand cfg b))) (drop n (parseListing so))"
proof -
  let ?a = "remote env cfg (listCommand cfg)"
  let ?kp = "expandHome (home env) (keyPath cfg)"
  let ?bs = "parseListing so"
  let ?s1 = "s\<lparr>world := w, trace := trace s @ [Log (''Running: '' @ ''ssh'' @ '' '' @ join '' '' ?a), Ran ''ssh'' ?a (Closed (Some 0) so se)]\<rparr>"
  have rc: "runCommand env ''ssh'' (sshArgs cfg ?kp (listCommand cfg)) True s
              = (settle True (Closed (Some 0) so se), ?s1)"
    using runCommand_eq [OF l] by (simp only: remote_def)
  have st: "settle True (Closed (Some 0) so se) = Inr \<lparr>stdout = so, stderr = se, code = 0\<rparr>"
    by (simp add: settle_closed_ok)
  have c1: "commands (trace ?s1) = commands (trace s) @ [(''ssh'', ?a)]" by simp
  show ?thesis
  proof (cases "int (length ?bs) > maxBackups cfg")
    case False
    then have "cleanSteps env cfg s = (Inr (), ?s1)"
      by (simp only: cleanSteps_def Let_def remote_def rc st andThen_def prod.case sum.case
            cmd_result.simps if_False)
    moreover from False n have "drop n ?bs = []" by simp
    ultimately show ?thesis using c1 by (simp add: cleanOldBackups_eq)
  next
    case True
    let ?s2 = "emit (Log (''Cleaning old backups (keeping '' @ showInt (maxBackups cfg)
                                  @ '' most recent)...'')) ?s1"
    let ?d = "deleteEach env cfg ?kp (slice ?bs (maxBackups cfg)) ?s2"
    from True have eq: "cleanSteps env cfg s = ?d"
      by (simp only: cleanSteps_def Let_def remote_def rc st andThen_def prod.case sum.case
            cmd_result.simps if_True)
    have sl: "slice ?bs (maxBackups cfg) = drop n ?bs" by (simp only: n slice_nat)
    from ok have ok': "\<forall>w b. b \<in> set (drop n ?bs) \<longrightarrow>
               succeeded (fst (exec env w ''ssh'' (sshArgs cfg ?kp (removeCommand cfg b))))"
      by (simp only: remote_def)
    from deleteEach_commands [OF ok', of ?s2]
    have d: "fst ?d = Inr ()"
      "commands (trace (snd ?d)) = commands (trace ?s2) @
         map (\<lambda>b. (''ssh'', sshArgs cfg ?kp (removeCommand cfg b))) (drop n ?bs)"
      by (simp_all only: sl)
    have "commands (trace ?s2) = commands (trace s) @ [(''ssh'', ?a)]" by simp
    with d show ?thesis by (simp add: cleanOldBackups_eq eq remote_def)
  qed
qed

lemma removeCommand_inj: "removeCommand cfg b = removeCommand cfg b' \<longleftrightarrow> b = b'"
  by (simp add: removeCommand_def)

lemma sample_fresh: "parseListing freshListing = [''backup-2024-01-01T00-00-00-000Z'', ''backup-3'', ''backup-2'']"
  by code_simp

lemma kept_remote:
  "remote (scripted f a) keepOne sh
     = [''-i'', ''/home/me/.ssh/id_rsa'', ''-p'', ''22'', ''root@203.0.113.7'', sh]"
  "remote (scripted f a) keepNone sh
     = [''-i'', ''/home/me/.ssh/id_rsa'', ''-p'', ''22'', ''root@203.0.113.7'', sh]"
  by (simp_all add: remote_def sshArgs_def scripted_def keepOne_def keepNone_def sampleConfig_def
        expandHome_def)

lemma kept_listCommand:
  "listCommand keepOne = ''ls -1t /var/www/site-backups''"
  "listCommand keepNone = ''ls -1t /var/www/site-backups''"
  by (simp_all add: listCommand_def keepOne_def keepNone_def sampleConfig_def)

lemma freshListed_succeeds: "succeeded (freshListed c a)"
  by (simp add: freshListed_def succeeded_def)

text \<open>
  Claim C1, as the code has it.  The listing command has succeeded and printed
  \<open>n + k\<close> entries, newest first, \<open>maxBackups\<close> is \<open>n\<close>, and the deletion commands
  succeed.  Then \<open>cleanOldBackups\<close> runs, after the listing, one deletion for each
  entry from index \<open>n\<close> on, in the order of the listing, and nothing else: \<open>k\<close>
  deletions, none of them (the names being distinct) for one of the \<open>n\<close> newest
  entries.
\<close>

theorem retention_keeps_newest:
  assumes l: "exec env (world s) ''ssh'' (remote env cfg (listCommand cfg)) = (Closed (Some 0) so se, w)"
    and n: "maxBackups cfg = int n"
    and len: "length (parseListing so) = n + k"
    and ok: "\<forall>w b. b \<in> set (drop n (parseListing so)) \<longrightarrow>
               succeeded (fst (exec env w ''ssh'' (remote env cfg (removeCommand cfg b))))"
  shows "fst (cleanOldBackups env cfg s) = Inr () \<and>
         commands (trace (snd (cleanOldBackups env cfg s)))
           = commands (trace s) @
             (''ssh'', remote env cfg (listCommand cfg)) #
             map (\<lambda>b. (''ssh'', remote env cfg (removeCommand cfg b))) (drop n (parseListing so)) \<and>
         length (drop n (parseListing so)) = k \<and>
         length (take n (parseListing so)) = n \<and>
         (distinct (parseListing so) \<longrightarrow>
            (\<forall>b\<in>set (take n (parseListing so)).
               (''ssh'', remote env cfg (removeCommand cfg b))
                 \<notin> set (map (\<lambda>b. (''ssh'', remote env cfg (removeCommand cfg b)))
                          (drop n (parseListing so)))))"
proof -
  let ?bs = "parseListing so"
  have 1: "fst (cleanOldBackups env cfg s) = Inr ()" by (simp add: cleanOldBackups_eq)
  note 2 = cleanOldBackups_commands [OF l n ok]
  from len have 3: "length (drop n ?bs) = k" and 4: "length (take n ?bs) = n" by simp_all
  have 5: "\<forall>b\<in>set (take n ?bs).
               (''ssh'', remote env cfg (removeCommand cfg b))
                 \<notin> set (map (\<lambda>b. (''ssh'', remote env cfg (removeCommand cfg b))) (drop n ?bs))"
    if d: "distinct ?bs"
  proof
    fix b assume b: "b \<in> set (take n ?bs)"
    from d have "distinct (take n ?bs @ drop n ?bs)" by simp
    then have "set (take n ?bs) \<inter> set (drop n ?bs) = {}" by (simp only: distinct_append)
    with b have "b \<notin> set (drop n ?bs)" by blast
    then show "(''ssh'', remote env cfg (removeCommand cfg b))
                 \<notin> set (map (\<lambda>b. (''ssh'', remote env cfg (removeCommand cfg b))) (drop n ?bs))"
      by (auto simp: image_iff removeCommand_inj)
  qed
  from 1 2 3 4 5 show ?thesis by (intro conjI impI)
qed

theorem retention_keeps_newest_witness:
  "exec (scripted freshListed ''y'') () ''ssh''
        (remote (scripted freshListed ''y'') keepOne (listCommand keepOne))
     = (Closed (Some 0) freshListing [], ()) \<and>
   maxBackups keepOne = int 1 \<and>
   length (parseListing freshListing) = 1 + 2 \<and>
   distinct (parseListing freshListing) \<and>
   fst (cleanOldBackups (scripted freshListed ''y'') keepOne (initial ())) = Inr () \<and>
   commands (trace (snd (cleanOldBackups (scripted freshListed ''y'') keepOne (initial ()))))
     = [(''ssh'', remote (scripted freshListed ''y'') keepOne (listCommand keepOne)),
        (''ssh'', remote (scripted freshListed ''y'') keepOne (removeCommand keepOne ''backup-3'')),
        (''ssh'', remote (scripted freshListed ''y'') keepOne (removeCommand keepOne ''backup-2''))] \<and>
   (''ssh'', remote (scripted freshListed ''y'') keepOne
              (removeCommand keepOne ''backup-2024-01-01T00-00-00-000Z''))
     \<notin> set (commands (trace (snd (cleanOldBackups (scripted freshListed ''y'') keepOne (initial ())))))"
proof -
  let ?E = "scripted freshListed ''y''"
  have l: "exec ?E (world (initial ())) ''ssh'' (remote ?E keepOne (listCommand keepOne))
             = (Closed (Some 0) freshListing [], ())"
    by (simp add: sample_exec kept_remote kept_listCommand freshListed_def sample_initial)
  have n: "maxBackups keepOne = int 1" by (simp add: keepOne_def)
  have len: "length (parseListing freshListing) = 1 + 2" by (simp add: sample_fresh)
  have d: "distinct (parseListing freshListing)" by (simp add: sample_fresh)
  have ok: "\<forall>w b. b \<in> set (drop 1 (parseListing freshListing)) \<longrightarrow>
               succeeded (fst (exec ?E w ''ssh'' (remote ?E keepOne (removeCommand keepOne b))))"
    by (simp add: sample_exec freshListed_succeeds)
  from retention_keeps_newest [OF l n len ok] d
  have "fst (cleanOldBackups ?E keepOne (initial ())) = Inr () \<and>
        commands (trace (snd (cleanOldBackups ?E keepOne (initial ()))))
          = [(''ssh'', remote ?E keepOne (listCommand keepOne)),
             (''ssh'', remote ?E keepOne (removeCommand keepOne ''backup-3'')),
             (''ssh'', remote ?E keepOne (removeCommand keepOne ''backup-2''))]"
    by (simp add: sample_fresh sample_initial)
  moreover from this
  have "(''ssh'', remote ?E keepOne (removeCommand keepOne ''backup-2024-01-01T00-00-00-000Z''))
     \<notin> set (commands (trace (snd (cleanOldBackups ?E keepOne (initial ())))))"
    by (simp add: restore_not_listing removeCommand_def listCommand_def)
  moreover from l have "exec ?E () ''ssh'' (remote ?E keepOne (listCommand keepOne))
             = (Closed (Some 0) freshListing [], ())" by (simp add: sample_initial)
  ultimately show ?thesis using n len d by (intro conjI) blast+
qed

text \<open>
  Claim C1 as stated fails when a deletion fails: three entries are listed and one is to
  be kept; the deletion of the first of the two older entries is refused, the cleanup
  stops with a warning, and no deletion is run for the oldest entry.
\<close>

theorem retention_failed_deletion_counterexample:
  "maxBackups keepOne = 1 \<and>
   parseListing freshListing = [''backup-2024-01-01T00-00-00-000Z'', ''backup-3'', ''backup-2''] \<and>
   commands (trace (snd (cleanOldBackups (scripted rmDenied ''y'') keepOne (initial ()))))
     = [(''ssh'', [''-i'', ''/home/me/.ssh/id_rsa'', ''-p'', ''22'', ''root@203.0.113.7'',
                   ''ls -1t /var/www/site-backups'']),
        (''ssh'', [''-i'', ''/home/me/.ssh/id_rsa'', ''-p'', ''22'', ''root@203.0.113.7'',
                   ''rm -rf /var/www/site-backups/backup-3''])] \<and>
   Ran ''ssh'' [''-i'', ''/home/me/.ssh/id_rsa'', ''-p'', ''22'', ''root@203.0.113.7'',
                ''rm -rf /var/www/site-backups/backup-3'']
       (Closed (Some 1) [] ''rm: cannot remove: Permission denied'')
     \<in> set (trace (snd (cleanOldBackups (scripted rmDenied ''y'') keepOne (initial ()))))"
  by code_simp

section \<open>createBackup and deploy when no backup is kept\<close>

lemma createBackup_cleanup:
  assumes m: "exec env (world s) ''ssh'' (remote env cfg (mkdirCommand cfg)) = (out1, w1)"
      and c: "exec env w1 ''ssh'' (remote env cfg (copyCommand cfg (backupNameOf env))) = (out2, w2)"
      and s1: "succeeded out1" and s2: "succeeded out2"
  shows "\<exists>s4. world s4 = w2 \<and>
              commands (trace s4)
                = commands (trace s) @
                  [(''ssh'', remote env cfg (mkdirCommand cfg)),
                   (''ssh'', remote env cfg (copyCommand cfg (backupNameOf env)))] \<and>
              createBackup env cfg s = (Inr (backupNameOf env), snd (cleanOldBackups env cfg s4))"
proof -
  let ?kp = "expandHome (home env) (keyPath cfg)"
  let ?s1 = "emit (Log ''Creating backup on remote server...'') s"
  let ?m = "sshArgs cfg ?kp (mkdirCommand cfg)"
  let ?c = "sshArgs cfg ?kp (copyCommand cfg (backupNameOf env))"
  let ?s2 = "?s1\<lparr>world := w1, trace := trace ?s1 @ [Log (''Running: '' @ ''ssh'' @ '' '' @ join '' '' ?m), Ran ''ssh'' ?m out1]\<rparr>"
  let ?s3 = "?s2\<lparr>world := w2, trace := trace ?s2 @ [Log (''Running: '' @ ''ssh'' @ '' '' @ join '' '' ?c), Ran ''ssh'' ?c out2]\<rparr>"
  let ?s4 = "emit (Log (''Backup created: '' @ backupNameOf env)) ?s3"
  have rc1: "runCommand env ''ssh'' ?m True ?s1 = (settle True out1, ?s2)"
    using m by (intro runCommand_eq) (simp add: remote_def)
  have rc2: "runCommand env ''ssh'' ?c False ?s2 = (settle False out2, ?s3)"
    using c by (intro runCommand_eq) (simp add: remote_def)
  from s1 s2 obtain r1 r2 where "settle True out1 = Inr r1" and "settle False out2 = Inr r2"
    using settle_succeeded by blast
  then have "createBackup env cfg s = (Inr (backupNameOf env), snd (cleanOldBackups env cfg ?s4))"
    by (simp only: createBackup_def Let_def rc1 rc2 andThen_def tryCatch_def prod.case sum.case
          halt.case cleanOldBackups_eq snd_conv)
  moreover have "world ?s4 = w2" by simp
  moreover have "commands (trace ?s4)
                = commands (trace s) @
                  [(''ssh'', remote env cfg (mkdirCommand cfg)),
                   (''ssh'', remote env cfg (copyCommand cfg (backupNameOf env)))]"
    by (simp add: remote_def)
  ultimately show ?thesis by blast
qed

lemma deploy_reaches_backup:
  assumes lc: "loadConfig env s = Inr cfg" and h: "host cfg \<noteq> []"
    and pe: "pathExists env (localPath cfg)"
    and x: "exec env (world s) ''ssh'' (remote env cfg echoCommand) = (out0, w0)"
    and ok0: "succeeded out0"
    and y: "requireConfirmation cfg \<longrightarrow> (\<exists>a. stdin env (asked s) = Some a \<and> toLowerCase a = ''y'')"
  shows "\<exists>s3. world s3 = w0 \<and>
              commands (trace s3) = commands (trace s) @ [(''ssh'', remote env cfg echoCommand)] \<and>
              deploy env False s = deployConfirmed env cfg False s3"
proof -
  from deploy_connected [OF lc h pe x, of False] ok0
  obtain s2 where i2: "interactions (trace s2)
                         = interactions (trace s) @ [Ran ''ssh'' (remote env cfg echoCommand) out0]"
    and a2: "asked s2 = asked s" and w2: "world s2 = w0"
    and eq: "deploy env False s = deployConnected env cfg False s2"
    by auto
  from commands_of_interactions [OF i2]
  have c2: "commands (trace s2) = commands (trace s) @ [(''ssh'', remote env cfg echoCommand)]"
    by simp
  show ?thesis
  proof (cases "requireConfirmation cfg")
    case False
    then have "deployConnected env cfg False s2 = deployConfirmed env cfg False s2"
      by (intro deployConnected_ungated) simp
    with eq w2 c2 show ?thesis by auto
  next
    case True
    with y a2 obtain a where t: "stdin env (asked s2) = Some a" and ya: "toLowerCase a = ''y''"
      by auto
    have g: "\<not> False" by simp
    from deployConnected_gated(2) [OF True g t ya]
    obtain s3 where i3: "interactions (trace s3)
                           = interactions (trace s2) @ [Asked (confirmMessage @ '' (y/N): '') a]"
      and w3: "world s3 = world s2"
      and e3: "deployConnected env cfg False s2 = deployConfirmed env cfg False s3" by blast
    from commands_of_interactions [OF i3] have "commands (trace s3) = commands (trace s2)" by simp
    with c2 w2 w3 eq e3 show ?thesis by auto
  qed
qed

lemma deployConfirmed_commands:
  assumes v: "fst (createBackup env cfg s) = Inr name"
    and r: "\<forall>w. succeeded (fst (exec env w ''rsync'' (rsyncArgs env cfg False)))"
  shows "fst (deployConfirmed env cfg False s) = Inr True"
    and "commands (trace (snd (deployConfirmed env cfg False s)))
           = commands (trace (snd (createBackup env cfg s))) @ [(''rsync'', rsyncArgs env cfg False)]"
proof -
  let ?sB = "snd (createBackup env cfg s)"
  obtain out4 w4 where x4: "exec env (world ?sB) ''rsync'' (rsyncArgs env cfg False) = (out4, w4)"
    by (cases "exec env (world ?sB) ''rsync'' (rsyncArgs env cfg False)")
  from r x4 have s4: "succeeded out4" by (metis fst_conv)
  note df = deployFiles_run [OF x4]
  from df(1) s4 have "fst (deployFiles env cfg False ?sB) = Inr True" by simp
  then show "fst (deployConfirmed env cfg False s) = Inr True"
    by (simp add: deployConfirmed_proj deploySteps_backup_ok [OF v])
  have "interactions (trace (snd (deployConfirmed env cfg False s)))
          = interactions (trace ?sB) @ [Ran ''rsync'' (rsyncArgs env cfg False) out4]"
    by (simp add: deployConfirmed_proj deploySteps_backup_ok [OF v] df)
  from commands_of_interactions [OF this]
  show "commands (trace (snd (deployConfirmed env cfg False s)))
           = commands (trace (snd (createBackup env cfg s))) @ [(''rsync'', rsyncArgs env cfg False)]"
    by simp
qed

text \<open>
  Claim C10, as the code has it.  \<open>maxBackups\<close> is 0; the two commands of
  \<open>createBackup\<close> succeed, and so do the listing that follows them and the deletion
  commands.  Then \<open>createBackup\<close> returns its backup name, and what it has run is the
  \<^verbatim>\<open>mkdir\<close>, the \<^verbatim>\<open>cp\<close>, the listing and one deletion for every entry of the listing, in
  that order: the backup just made is deleted with the others when the listing
  shows it.  A deploy that gets as far as the backup (configuration read, host set,
  source directory present, connection test passed, confirmation given when
  required) and whose \<^verbatim>\<open>rsync\<close> succeeds returns true, having run these commands between
  the connection test and the \<^verbatim>\<open>rsync\<close>.
\<close>

theorem zero_retention_deletes_all:
  assumes z: "maxBackups cfg = 0"
    and m: "exec env w0 ''ssh'' (remote env cfg (mkdirCommand cfg)) = (out1, w1)"
    and s1: "succeeded out1"
    and c: "exec env w1 ''ssh'' (remote env cfg (copyCommand cfg (backupNameOf env))) = (out2, w2)"
    and s2: "succeeded out2"
    and l: "exec env w2 ''ssh'' (remote env cfg (listCommand cfg)) = (Closed (Some 0) so se, w3)"
    and ok: "\<forall>w b. b \<in> set (parseListing so) \<longrightarrow>
               succeeded (fst (exec env w ''ssh'' (remote env cfg (removeCommand cfg b))))"
  shows "(\<forall>s. world s = w0 \<longrightarrow>
            fst (createBackup env cfg s) = Inr (backupNameOf env) \<and>
            commands (trace (snd (createBackup env cfg s)))
              = commands (trace s) @
                (''ssh'', remote env cfg (mkdirCommand cfg)) #
                (''ssh'', remote env cfg (copyCommand cfg (backupNameOf env))) #
                (''ssh'', remote env cfg (listCommand cfg)) #
                map (\<lambda>b. (''ssh'', remote env cfg (removeCommand cfg b))) (parseListing so)) \<and>
         (\<forall>s out0.
            loadConfig env s = Inr cfg \<and> host cfg \<noteq> [] \<and> pathExists env (localPath cfg) \<and>
            exec env (world s) ''ssh'' (remote env cfg echoCommand) = (out0, w0) \<and> succeeded out0 \<and>
            (requireConfirmation cfg \<longrightarrow> (\<exists>a. stdin env (asked s) = Some a \<and> toLowerCase a = ''y'')) \<and>
            (\<forall>w. succeeded (fst (exec env w ''rsync'' (rsyncArgs env cfg False)))) \<longrightarrow>
              fst (deploy env False s) = Inr True \<and>
              commands (trace (snd (deploy env False s)))
                = commands (trace s) @
                  (''ssh'', remote env cfg echoCommand) #
                  (''ssh'', remote env cfg (mkdirCommand cfg)) #
                  (''ssh'', remote env cfg (copyCommand cfg (backupNameOf env))) #
                  (''ssh'', remote env cfg (listCommand cfg)) #
                  map (\<lambda>b. (''ssh'', remote env cfg (removeCommand cfg b))) (parseListing so) @
                  [(''rsync'', rsyncArgs env cfg False)])"
proof -
  let ?m = "(''ssh'', remote env cfg (mkdirCommand cfg))"
  let ?c = "(''ssh'', remote env cfg (copyCommand cfg (backupNameOf env)))"
  let ?l = "(''ssh'', remote env cfg (listCommand cfg))"
  let ?rm = "map (\<lambda>b. (''ssh'', remote env cfg (removeCommand cfg b))) (parseListing so)"
  from z have n: "maxBackups cfg = int 0" by simp
  from ok have ok': "\<forall>w b. b \<in> set (drop 0 (parseListing so)) \<longrightarrow>
               succeeded (fst (exec env w ''ssh'' (remote env cfg (removeCommand cfg b))))"
    by simp
  have cb: "fst (createBackup env cfg s) = Inr (backupNameOf env) \<and>
            commands (trace (snd (createBackup env cfg s))) = commands (trace s) @ ?m # ?c # ?l # ?rm"
    if w: "world s = w0" for s :: "'a state"
  proof -
    from m w have m': "exec env (world s) ''ssh'' (remote env cfg (mkdirCommand cfg)) = (out1, w1)"
      by simp
    from createBackup_cleanup [OF m' c s1 s2]
    obtain s4 where w4: "world s4 = w2"
      and c4: "commands (trace s4) = commands (trace s) @ [?m, ?c]"
      and eq: "createBackup env cfg s = (Inr (backupNameOf env), snd (cleanOldBackups env cfg s4))"
      by blast
    from l w4 have l': "exec env (world s4) ''ssh'' (remote env cfg (listCommand cfg))
                          = (Closed (Some 0) so se, w3)" by simp
    from cleanOldBackups_commands [OF l' n ok']
    have "commands (trace (snd (cleanOldBackups env cfg s4))) = commands (trace s4) @ ?l # ?rm"
      by simp
    with c4 eq show ?thesis by simp
  qed
  have dp: "fst (deploy env False s) = Inr True \<and>
            commands (trace (snd (deploy env False s)))
              = commands (trace s) @ (''ssh'', remote env cfg echoCommand) # ?m # ?c # ?l # ?rm @
                [(''rsync'', rsyncArgs env cfg False)]"
    if a: "loadConfig env s = Inr cfg \<and> host cfg \<noteq> [] \<and> pathExists env (localPath cfg) \<and>
            exec env (world s) ''ssh'' (remote env cfg echoCommand) = (out0, w0) \<and> succeeded out0 \<and>
            (requireConfirmation cfg \<longrightarrow> (\<exists>a. stdin env (asked s) = Some a \<and> toLowerCase a = ''y'')) \<and>
            (\<forall>w. succeeded (fst (exec env w ''rsync'' (rsyncArgs env cfg False))))"
    for s :: "'a state" and out0
  proof -
    from a have lc: "loadConfig env s = Inr cfg" by (elim conjE)
    from a have h: "host cfg \<noteq> []" by (elim conjE)
    from a have pe: "pathExists env (localPath cfg)" by (elim conjE)
    from a have x: "exec env (world s) ''ssh'' (remote env cfg echoCommand) = (out0, w0)"
      by (elim conjE)
    from a have ok0: "succeeded out0" by (elim conjE)
    from a have y: "requireConfirmation cfg \<longrightarrow> (\<exists>a. stdin env (asked s) = Some a \<and> toLowerCase a = ''y'')"
      by (elim conjE)
    from a have r: "\<forall>w. succeeded (fst (exec env w ''rsync'' (rsyncArgs env cfg False)))"
      by (elim conjE)
    from deploy_reaches_backup [OF lc h pe x ok0 y]
    obtain s3 where w3: "world s3 = w0"
      and c3: "commands (trace s3) = commands (trace s) @ [(''ssh'', remote env cfg echoCommand)]"
      and eq: "deploy env False s = deployConfirmed env cfg False s3" by blast
    from cb [OF w3] have v: "fst (createBackup env cfg s3) = Inr (backupNameOf env)"
      and cc: "commands (trace (snd (createBackup env cfg s3))) = commands (trace s3) @ ?m # ?c # ?l # ?rm"
      by simp_all
    from deployConfirmed_commands [OF v r] cc c3 eq show ?thesis by simp
  qed
  show ?thesis
    apply (rule conjI)
     apply (intro allI impI)
     apply (erule cb)
    apply (intro allI impI)
    apply (erule dp)
    done
qed

lemma sample_zeroKept: "loadConfig (scripted f a) zeroKept = Inr keepNone"
  by (simp add: loadConfig_def zeroKept_def scripted_def keepNone_def sampleConfig_def)

theorem zero_retention_deletes_all_witness:
  "maxBackups keepNone = 0 \<and>
   loadConfig (scripted freshListed ''y'') zeroKept = Inr keepNone \<and>
   backupNameOf (scripted freshListed ''y'') = ''backup-2024-01-01T00-00-00-000Z'' \<and>
   parseListing freshListing = [''backup-2024-01-01T00-00-00-000Z'', ''backup-3'', ''backup-2''] \<and>
   fst (createBackup (scripted freshListed ''y'') keepNone (initial ()))
     = Inr ''backup-2024-01-01T00-00-00-000Z'' \<and>
   commands (trace (snd (createBackup (scripted freshListed ''y'') keepNone (initial ()))))
     = [(''ssh'', remote (scripted freshListed ''y'') keepNone (mkdirCommand keepNone)),
        (''ssh'', remote (scripted freshListed ''y'') keepNone
                    (copyCommand keepNone ''backup-2024-01-01T00-00-00-000Z'')),
        (''ssh'', remote (scripted freshListed ''y'') keepNone (listCommand keepNone)),
        (''ssh'', remote (scripted freshListed ''y'') keepNone
                    (removeCommand keepNone ''backup-2024-01-01T00-00-00-000Z'')),
        (''ssh'', remote (scripted freshListed ''y'') keepNone (removeCommand keepNone ''backup-3'')),
        (''ssh'', remote (scripted freshListed ''y'') keepNone (removeCommand keepNone ''backup-2''))] \<and>
   fst (deploy (scripted freshListed ''y'') False zeroKept) = Inr True \<and>
   commands (trace (snd (deploy (scripted freshListed ''y'') False zeroKept)))
     = [(''ssh'', remote (scripted freshListed ''y'') keepNone echoCommand),
        (''ssh'', remote (scripted freshListed ''y'') keepNone (mkdirCommand keepNone)),
        (''ssh'', remote (scripted freshListed ''y'') keepNone
                    (copyCommand keepNone ''backup-2024-01-01T00-00-00-000Z'')),
        (''ssh'', remote (scripted freshListed ''y'') keepNone (listCommand keepNone)),
        (''ssh'', remote (scripted freshListed ''y'') keepNone
                    (removeCommand keepNone ''backup-2024-01-01T00-00-00-000Z'')),
        (''ssh'', remote (scripted freshListed ''y'') keepNone (removeCommand keepNone ''backup-3'')),
        (''ssh'', remote (scripted freshListed ''y'') keepNone (removeCommand keepNone ''backup-2'')),
        (''rsync'', rsyncArgs (scripted freshListed ''y'') keepNone False)]"
proof -
  let ?E = "scripted freshListed ''y''"
  have z: "maxBackups keepNone = 0" by (simp add: keepNone_def)
  have ok: "succeeded (Closed (Some 0) [] [])" by (simp add: succeeded_def)
  have m: "exec ?E () ''ssh'' (remote ?E keepNone (mkdirCommand keepNone)) = (Closed (Some 0) [] [], ())"
    by (simp add: sample_exec kept_remote freshListed_def mkdirCommand_def)
  have c: "exec ?E () ''ssh'' (remote ?E keepNone (copyCommand keepNone (backupNameOf ?E)))
             = (Closed (Some 0) [] [], ())"
    by (simp add: sample_exec kept_remote freshListed_def copyCommand_def)
  have l: "exec ?E () ''ssh'' (remote ?E keepNone (listCommand keepNone))
             = (Closed (Some 0) freshListing [], ())"
    by (simp add: sample_exec kept_remote kept_listCommand freshListed_def)
  have rm: "\<forall>w b. b \<in> set (parseListing freshListing) \<longrightarrow>
               succeeded (fst (exec ?E w ''ssh'' (remote ?E keepNone (removeCommand keepNone b))))"
    by (simp add: sample_exec freshListed_succeeds)
  note T = zero_retention_deletes_all [OF z m ok c ok l rm]
  have h: "host keepNone \<noteq> []" "requireConfirmation keepNone"
    by (simp_all add: keepNone_def sampleConfig_def)
  have p: "pathExists ?E (localPath keepNone)" by (simp add: scripted_def)
  have x: "exec ?E (world zeroKept) ''ssh'' (remote ?E keepNone echoCommand) = (Closed (Some 0) [] [], ())"
    by (simp add: sample_exec kept_remote freshListed_def echoCommand_def)
  have y: "\<exists>a. stdin ?E (asked zeroKept) = Some a \<and> toLowerCase a = ''y''"
    by (simp add: scripted_def toLowerCase_y)
  have r: "\<forall>w. succeeded (fst (exec ?E w ''rsync'' (rsyncArgs ?E keepNone False)))"
    by (simp add: sample_exec freshListed_succeeds)
  have t0: "trace zeroKept = []" "trace (initial ()) = []" "world (initial ()) = ()"
    by (simp_all add: zeroKept_def initial_def)
  from T have "world (initial ()) = () \<longrightarrow>
            fst (createBackup ?E keepNone (initial ())) = Inr (backupNameOf ?E) \<and>
            commands (trace (snd (createBackup ?E keepNone (initial ()))))
              = commands (trace (initial ())) @
                (''ssh'', remote ?E keepNone (mkdirCommand keepNone)) #
                (''ssh'', remote ?E keepNone (copyCommand keepNone (backupNameOf ?E))) #
                (''ssh'', remote ?E keepNone (listCommand keepNone)) #
                map (\<lambda>b. (''ssh'', remote ?E keepNone (removeCommand keepNone b))) (parseListing freshListing)"
    by blast
  then have 1: "fst (createBackup ?E keepNone (initial ())) = Inr ''backup-2024-01-01T00-00-00-000Z'' \<and>
   commands (trace (snd (createBackup ?E keepNone (initial ()))))
     = [(''ssh'', remote ?E keepNone (mkdirCommand keepNone)),
        (''ssh'', remote ?E keepNone (copyCommand keepNone ''backup-2024-01-01T00-00-00-000Z'')),
        (''ssh'', remote ?E keepNone (listCommand keepNone)),
        (''ssh'', remote ?E keepNone (removeCommand keepNone ''backup-2024-01-01T00-00-00-000Z'')),
        (''ssh'', remote ?E keepNone (removeCommand keepNone ''backup-3'')),
        (''ssh'', remote ?E keepNone (removeCommand keepNone ''backup-2''))]"
    by (simp only: t0 sample_fresh sample_backupName) simp
  from T have "loadConfig ?E zeroKept = Inr keepNone \<and> host keepNone \<noteq> [] \<and>
            pathExists ?E (localPath keepNone) \<and>
            exec ?E (world zeroKept) ''ssh'' (remote ?E keepNone echoCommand) = (Closed (Some 0) [] [], ()) \<and>
            succeeded (Closed (Some 0) [] []) \<and>
            (requireConfirmation keepNone \<longrightarrow> (\<exists>a. stdin ?E (asked zeroKept) = Some a \<and> toLowerCase a = ''y'')) \<and>
            (\<forall>w. succeeded (fst (exec ?E w ''rsync'' (rsyncArgs ?E keepNone False)))) \<longrightarrow>
              fst (deploy ?E False zeroKept) = Inr True \<and>
              commands (trace (snd (deploy ?E False zeroKept)))
                = commands (trace zeroKept) @
                  (''ssh'', remote ?E keepNone echoCommand) #
                  (''ssh'', remote ?E keepNone (mkdirCommand keepNone)) #
                  (''ssh'', remote ?E keepNone (copyCommand keepNone (backupNameOf ?E))) #
                  (''ssh'', remote ?E keepNone (listCommand keepNone)) #
                  map (\<lambda>b. (''ssh'', remote ?E keepNone (removeCommand keepNone b))) (parseListing freshListing) @
                  [(''rsync'', rsyncArgs ?E keepNone False)]"
    by blast
  with sample_zeroKept h p x ok y r
  have "fst (deploy ?E False zeroKept) = Inr True \<and>
              commands (trace (snd (deploy ?E False zeroKept)))
                = commands (trace zeroKept) @
                  (''ssh'', remote ?E keepNone echoCommand) #
                  (''ssh'', remote ?E keepNone (mkdirCommand keepNone)) #
                  (''ssh'', remote ?E keepNone (copyCommand keepNone (backupNameOf ?E))) #
                  (''ssh'', remote ?E keepNone (listCommand keepNone)) #
                  map (\<lambda>b. (''ssh'', remote ?E keepNone (removeCommand keepNone b))) (parseListing freshListing) @
                  [(''rsync'', rsyncArgs ?E keepNone False)]"
    by blast
  then have 2: "fst (deploy ?E False zeroKept) = Inr True \<and>
   commands (trace (snd (deploy ?E False zeroKept)))
     = [(''ssh'', remote ?E keepNone echoCommand),
        (''ssh'', remote ?E keepNone (mkdirCommand keepNone)),
        (''ssh'', remote ?E keepNone (copyCommand keepNone ''backup-2024-01-01T00-00-00-000Z'')),
        (''ssh'', remote ?E keepNone (listCommand keepNone)),
        (''ssh'', remote ?E keepNone (removeCommand keepNone ''backup-2024-01-01T00-00-00-000Z'')),
        (''ssh'', remote ?E keepNone (removeCommand keepNone ''backup-3'')),
        (''ssh'', remote ?E keepNone (removeCommand keepNone ''backup-2'')),
        (''rsync'', rsyncArgs ?E keepNone False)]"
    by (simp only: t0 sample_fresh sample_backupName) simp
  from z sample_zeroKept [of freshListed "''y''"] sample_backupName [of freshListed "''y''"] sample_fresh 1 2
  show ?thesis by (intro conjI) blast+
qed

text \<open>
  Claim C10 as stated fails when a deletion fails: \<open>createBackup\<close> succeeds, three
  entries are listed, the deletion of the first one is refused, and the cleanup stops
  there: no deletion is run for the other two.
\<close>

theorem zero_retention_failed_deletion_counterexample:
  "maxBackups keepNone = 0 \<and>
   parseListing freshListing = [''backup-2024-01-01T00-00-00-000Z'', ''backup-3'', ''backup-2''] \<and>
   fst (createBackup (scripted rmDenied ''y'') keepNone (initial ()))
     = Inr ''backup-2024-01-01T00-00-00-000Z'' \<and>
   commands (trace (snd (createBackup (scripted rmDenied ''y'') keepNone (initial ()))))
     = [(''ssh'', [''-i'', ''/home/me/.ssh/id_rsa'', ''-p'', ''22'', ''root@203.0.113.7'',
                   ''mkdir -p /var/www/site-backups'']),
        (''ssh'', [''-i'', ''/home/me/.ssh/id_rsa'', ''-p'', ''22'', ''root@203.0.113.7'',
                   ''cp -r /var/www/site /var/www/site-backups/backup-2024-01-01T00-00-00-000Z'']),
        (''ssh'', [''-i'', ''/home/me/.ssh/id_rsa'', ''-p'', ''22'', ''root@203.0.113.7'',
                   ''ls -1t /var/www/site-backups'']),
        (''ssh'', [''-i'', ''/home/me/.ssh/id_rsa'', ''-p'', ''22'', ''root@203.0.113.7'',
                   ''rm -rf /var/www/site-backups/backup-2024-01-01T00-00-00-000Z''])]"
  by code_simp

section \<open>main: exit codes\<close>

lemma testConnection_returns: "\<exists>b. fst (testConnection env cfg s) = Inr b"
proof -
  obtain out w where "exec env (world s) ''ssh'' (remote env cfg echoCommand) = (out, w)"
    by (cases "exec env (world s) ''ssh'' (remote env cfg echoCommand)")
  from testConnection_run(1) [OF this] show ?thesis by blast
qed

lemma interactions_saveConfig [simp]:
  "interactions (trace (snd (saveConfig env c s))) = interactions (trace s)"
  by (simp add: saveConfig_def split: option.splits)

lemma question_then_fst:
  "fst (andThen (question env p d s) f) =
     (case stdin env (asked s) of
        None \<Rightarrow> Inl Pending
      | Some a \<Rightarrow>
          fst (f (if trim a \<noteq> [] then trim a else d)
                 ((emit (Asked (p @ '' ['' @ d @ '']: '') a) s)\<lparr>asked := Suc (asked s)\<rparr>)))"
  by (simp add: question_def andThen_def Let_def split: option.splits)

lemma question_then_default:
  assumes "\<forall>n. stdin env n = Some []"
  shows "andThen (question env p d s) f
           = f d ((emit (Asked (p @ '' ['' @ d @ '']: '') []) s)\<lparr>asked := Suc (asked s)\<rparr>)"
  using assms by (simp add: question_def andThen_def Let_def trim_def)

lemma configureDeployment_tail_fst:
  "fst (andThen (testConnection env c t)
      (\<lambda>connected s7.
         if connected then andThen (saveConfig env c1 s7) (\<lambda>_ s8. (Inr (), emit (Log m) s8))
         else saveConfig env c2 (emits es s7)))
   = (case writeError env of Some x \<Rightarrow> Inl (Error x) | None \<Rightarrow> Inr ())"
proof -
  from testConnection_returns [of env c t]
  obtain b where b: "fst (testConnection env c t) = Inr b" by blast
  show ?thesis
    by (cases b)
       (simp_all add: andThen_Inr [OF b] saveConfig_def andThen_pure andThen_thrown
          split: option.splits)
qed

lemma configureDeployment_tail:
  "last (interactions (trace (snd (andThen (testConnection env c t)
      (\<lambda>connected s7.
         if connected then andThen (saveConfig env c1 s7) (\<lambda>_ s8. (Inr (), emit (Log m) s8))
         else saveConfig env c2 (emits [Log m1, Log m2] s7))))))
   = Ran ''ssh'' (remote env c echoCommand) (fst (exec env (world t) ''ssh'' (remote env c echoCommand)))"
proof -
  obtain out w where x: "exec env (world t) ''ssh'' (remote env c echoCommand) = (out, w)"
    by (cases "exec env (world t) ''ssh'' (remote env c echoCommand)")
  note tc = testConnection_run [OF x]
  show ?thesis
    by (cases "succeeded out")
       (simp_all add: andThen_Inr [OF tc(1)] tc(5) x saveConfig_def andThen_pure andThen_thrown
          split: option.splits)
qed

lemma configureDeployment_result:
  "fst (configureDeployment env s) =
     (case loadConfig env s of
        Inl e \<Rightarrow> Inl e
      | Inr c \<Rightarrow>
          if endsWithin env (asked s) 6 then Inl Pending
          else (case writeError env of Some x \<Rightarrow> Inl (Error x) | None \<Rightarrow> Inr ()))"
proof (cases "loadConfig env s")
  case (Inl e)
  then show ?thesis by (simp add: configureDeployment_def Let_def andThen_thrown)
next
  case (Inr c)
  show ?thesis
    unfolding configureDeployment_def Let_def
    by (simp add: Inr andThen_pure question_then_fst configureDeployment_tail_fst eval_nat_numeral
          split: option.splits split del: if_split)
qed

lemma configureDeployment_unreadable:
  assumes "loadConfig env s = Inl e"
  shows "interactions (trace (snd (configureDeployment env s))) = interactions (trace s)"
  using assms by (simp add: configureDeployment_def Let_def andThen_thrown)

lemma configureDeployment_defaults:
  assumes "\<forall>n. stdin env n = Some []" and lc: "loadConfig env s = Inr cfg"
  shows "last (interactions (trace (snd (configureDeployment env s))))
         = Ran ''ssh'' (remote env cfg echoCommand)
             (fst (exec env (world s) ''ssh'' (remote env cfg echoCommand)))"
  unfolding configureDeployment_def Let_def
  by (simp add: lc andThen_pure question_then_default [OF assms(1)] configureDeployment_tail)

lemma main_help:
  "''--help'' \<in> set args \<or> ''-h'' \<in> set args \<Longrightarrow> fst (main env args s) = Inr 0"
  by (auto simp: main_def)

lemma main_config:
  assumes "''--help'' \<notin> set args" "''-h'' \<notin> set args" "''--config'' \<in> set args"
  shows "fst (main env args s)
           = (case fst (configureDeployment env s) of Inl e \<Rightarrow> Inl e | Inr u \<Rightarrow> Inr 0)"
    and "snd (main env args s) = snd (configureDeployment env s)"
  using assms
  by (cases "configureDeployment env s"; simp add: main_def andThen_def split: sum.splits)+

lemma main_unreadable:
  assumes "''--help'' \<notin> set args" "''-h'' \<notin> set args" and l: "loadConfig env s = Inl e"
  shows "fst (main env args s) = Inl e"
    and "interactions (trace (snd (main env args s))) = interactions (trace s)"
proof -
  consider (c) "''--config'' \<in> set args"
    | (r) "''--config'' \<notin> set args" "''--rollback'' \<in> set args"
    | (d) "''--config'' \<notin> set args" "''--rollback'' \<notin> set args" by blast
  then have "fst (main env args s) = Inl e \<and>
             interactions (trace (snd (main env args s))) = interactions (trace s)"
  proof cases
    case c
    from main_config [OF assms(1,2) c, of env s] configureDeployment_unreadable [OF l]
    show ?thesis by (simp add: configureDeployment_result l)
  next
    case r
    with assms show ?thesis by (simp add: main_def andThen_thrown)
  next
    case d
    have "main env args s = andThen (deploy env (''--dry-run'' \<in> set args) s)
             (\<lambda>success s1. (Inr (if success then 0 else 1), s1))"
      using assms(1,2) d by (simp add: main_def)
    with deploy_unreadable [OF l, of "''--dry-run'' \<in> set args"]
    show ?thesis by (simp add: andThen_Inl)
  qed
  then show "fst (main env args s) = Inl e"
    and "interactions (trace (snd (main env args s))) = interactions (trace s)" by simp_all
qed

lemma main_rollback:
  assumes "''--help'' \<notin> set args" "''-h'' \<notin> set args" "''--config'' \<notin> set args"
    "''--rollback'' \<in> set args" and "loadConfig env s = Inr cfg"
    and "fst (rollback env cfg None s) = Inr b"
  shows "fst (main env args s) = Inr (if b then 0 else 1)"
    and "snd (main env args s) = snd (rollback env cfg None s)"
proof -
  from assms(1-5)
  have "main env args s = andThen (rollback env cfg None s)
             (\<lambda>success s1. (Inr (if success then 0 else 1), s1))"
    by (simp add: main_def andThen_pure)
  then have "main env args s = (Inr (if b then 0 else 1), snd (rollback env cfg None s))"
    by (simp only: andThen_Inr [OF assms(6)])
  then show "fst (main env args s) = Inr (if b then 0 else 1)"
    and "snd (main env args s) = snd (rollback env cfg None s)" by simp_all
qed

lemma main_deploy:
  assumes "''--help'' \<notin> set args" "''-h'' \<notin> set args" "''--config'' \<notin> set args"
    "''--rollback'' \<notin> set args"
  shows "fst (main env args s)
           = (case fst (deploy env (''--dry-run'' \<in> set args) s) of
                Inl e \<Rightarrow> Inl e | Inr b \<Rightarrow> Inr (if b then 0 else 1))"
    and "snd (main env args s) = snd (deploy env (''--dry-run'' \<in> set args) s)"
  using assms
  by (cases "deploy env (''--dry-run'' \<in> set args) s";
      simp add: main_def andThen_def split: sum.splits)+

lemma rollback_verdict:
  "\<exists>es b. interactions (trace (snd (rollback env cfg None s))) = interactions (trace s) @ es \<and>
          fst (rollback env cfg None s) = Inr b \<and>
          ((\<exists>c a out. Ran c a out \<in> set es \<and> \<not> succeeded out) \<longrightarrow> \<not> b) \<and>
          (b \<longleftrightarrow> restored env cfg es)"
proof -
  let ?l = "Ran ''ssh'' (remote env cfg (listCommand cfg))"
  obtain out w where l: "exec env (world s) ''ssh'' (remote env cfg (listCommand cfg)) = (out, w)"
    by (cases "exec env (world s) ''ssh'' (remote env cfg (listCommand cfg))")
  have nr: "\<not> restored env cfg [?l x]" for x
    by (simp add: restored_def restore_not_listing)
  show ?thesis
  proof (cases "succeeded out")
    case False
    from rollback_listing_failed(1,2) [OF l False, of None] nr [of out] show ?thesis by blast
  next
    case True
    then obtain so se where o: "out = Closed (Some 0) so se" using succeeded_Closed by blast
    note l' = l [unfolded o]
    show ?thesis
    proof (cases "parseListing so")
      case Nil
      from rollback_none_listed(1,2) [OF l' Nil, of None] nr [of "Closed (Some 0) so se"]
      show ?thesis by blast
    next
      case (Cons b bs)
      have ob: "orElse None b = b" by (simp add: orElse_def)
      then have t: "orElse None b \<in> set (b # bs)" by simp
      obtain out2 w2 where r: "exec env w ''ssh'' (remote env cfg (restoreCommand cfg (orElse None b))) = (out2, w2)"
        by (cases "exec env w ''ssh'' (remote env cfg (restoreCommand cfg (orElse None b)))")
      note rr = rollback_restore(1,2) [OF l' Cons t r, unfolded ob]
      let ?es = "[?l (Closed (Some 0) so se), Ran ''ssh'' (remote env cfg (restoreCommand cfg b)) out2]"
      have "(\<exists>c a x. Ran c a x \<in> set ?es \<and> \<not> succeeded x) \<longrightarrow> \<not> succeeded out2"
        by (auto simp: succeeded_def)
      moreover have "succeeded out2 \<longleftrightarrow> restored env cfg ?es"
        by (auto simp: restored_def restore_not_listing)
      ultimately show ?thesis using rr by blast
    qed
  qed
qed

lemma exitCode_simps [simp]:
  "exitCode (Inr n) = n" "exitCode (Inl (Error m)) = 1" "exitCode (Inl Pending) = 0"
  by (simp_all add: exitCode_def)

lemma run_unreachable:
  "interactions (trace (snd (main (scripted sshDown ''y'') [] (initial ()))))
   = [Ran ''ssh'' (remote (scripted sshDown ''y'') sampleConfig echoCommand)
        (Closed (Some 255) [] ''ssh: connect to host 203.0.113.7 port 22: Connection refused'')]"
  unfolding sample_remote by code_simp

lemma run_dry:
  "interactions (trace (snd (main (scripted allSucceed ''y'') [''--dry-run''] (initial ()))))
   = [Ran ''ssh'' (remote (scripted allSucceed ''y'') sampleConfig echoCommand) (Closed (Some 0) [] []),
      Ran ''rsync'' (rsyncArgs (scripted allSucceed ''y'') sampleConfig True) (Closed (Some 0) [] [])]"
  unfolding sample_remote by code_simp

lemma run_rollback:
  "interactions (trace (snd (main (scripted threeListed ''y'') [''--rollback''] (initial ()))))
   = [Ran ''ssh'' (remote (scripted threeListed ''y'') sampleConfig (listCommand sampleConfig))
        (Closed (Some 0) sampleListing []),
      Ran ''ssh'' (remote (scripted threeListed ''y'') sampleConfig (restoreCommand sampleConfig ''backup-3''))
        (Closed (Some 0) [] [])]"
  unfolding sample_remote by code_simp

lemma run_ended:
  "interactions (trace (snd (main endOfInput [] (initial ()))))
   = [Ran ''ssh'' [''-i'', ''/home/me/.ssh/id_rsa'', ''-p'', ''22'', ''root@203.0.113.7'', echoCommand]
        (Closed (Some 0) [] []),
      Unanswered (confirmMessage @ '' (y/N): '')]"
  by code_simp

text \<open>
  Claim C4, as the code has it.  With \<^verbatim>\<open>--help\<close> or \<^verbatim>\<open>-h\<close> the exit code is 0.  Without
  them, when the configuration file cannot be read or parsed, \<open>main\<close> throws, nothing
  is run and the exit code is 1.  When the configuration is read:

  \<^item> with \<^verbatim>\<open>--config\<close> the exit code is 0 whatever the connection test of the dialogue
    gave, also when the input ends before the six questions are answered; it is 1
    only when all six are answered and the configuration file cannot be written;
  \<^item> with \<^verbatim>\<open>--rollback\<close> (and no \<^verbatim>\<open>--config\<close>) the exit code is 0 or 1, it is 1 when a
    child process failed, and it is 0 exactly when a restore command ran and
    succeeded;
  \<^item> with none of these flags the tool deploys: the exit code is 0 or 1, it is 1 when
    the connection test, a backup command or the sync failed or the confirmation was
    declined, and it is 0 exactly when the sync ran and succeeded or the input ended
    at the confirmation prompt; in that last case \<open>main\<close> never reaches
    \<^verbatim>\<open>process.exit\<close> and nothing was synced.
\<close>

theorem exit_codes:
  "(''--help'' \<in> set args \<or> ''-h'' \<in> set args \<longrightarrow> exitCode (fst (main env args s)) = 0) \<and>
   (''--help'' \<notin> set args \<and> ''-h'' \<notin> set args \<longrightarrow>
      (\<forall>m. loadConfig env s = Inl (Error m) \<longrightarrow>
         exitCode (fst (main env args s)) = 1 \<and>
         interactions (trace (snd (main env args s))) = interactions (trace s))) \<and>
   (''--help'' \<notin> set args \<and> ''-h'' \<notin> set args \<and> ''--config'' \<in> set args \<longrightarrow>
      (\<forall>cfg. loadConfig env s = Inr cfg \<longrightarrow>
         exitCode (fst (main env args s))
           = (if endsWithin env (asked s) 6 \<or> writeError env = None then 0 else 1))) \<and>
   (''--help'' \<notin> set args \<and> ''-h'' \<notin> set args \<and> ''--config'' \<notin> set args \<and>
    ''--rollback'' \<in> set args \<longrightarrow>
      (\<forall>cfg. loadConfig env s = Inr cfg \<longrightarrow>
         (\<exists>es. interactions (trace (snd (main env args s))) = interactions (trace s) @ es \<and>
               (exitCode (fst (main env args s)) = 0 \<or> exitCode (fst (main env args s)) = 1) \<and>
               ((\<exists>c a out. Ran c a out \<in> set es \<and> \<not> succeeded out) \<longrightarrow>
                  exitCode (fst (main env args s)) = 1) \<and>
               (exitCode (fst (main env args s)) = 0 \<longleftrightarrow> restored env cfg es)))) \<and>
   (''--help'' \<notin> set args \<and> ''-h'' \<notin> set args \<and> ''--config'' \<notin> set args \<and>
    ''--rollback'' \<notin> set args \<longrightarrow>
      (\<forall>cfg. loadConfig env s = Inr cfg \<longrightarrow>
         (\<exists>es. interactions (trace (snd (main env args s))) = interactions (trace s) @ es \<and>
               (exitCode (fst (main env args s)) = 0 \<or> exitCode (fst (main env args s)) = 1) \<and>
               ((\<exists>e\<in>set es. fatal env cfg e) \<longrightarrow> exitCode (fst (main env args s)) = 1) \<and>
               (exitCode (fst (main env args s)) = 0
                  \<longleftrightarrow> synced env cfg (''--dry-run'' \<in> set args) es \<or> unanswered es) \<and>
               (unanswered es \<longrightarrow>
                  fst (main env args s) = Inl Pending \<and>
                  \<not> synced env cfg (''--dry-run'' \<in> set args) es))))"
proof -
  have p1: "exitCode (fst (main env args s)) = 0" if "''--help'' \<in> set args \<or> ''-h'' \<in> set args"
    using main_help [OF that, of env s] by simp
  have p2: "\<forall>m. loadConfig env s = Inl (Error m) \<longrightarrow>
         exitCode (fst (main env args s)) = 1 \<and>
         interactions (trace (snd (main env args s))) = interactions (trace s)"
    if a: "''--help'' \<notin> set args \<and> ''-h'' \<notin> set args"
  proof (intro allI impI)
    fix m
    assume l: "loadConfig env s = Inl (Error m)"
    from a have f: "''--help'' \<notin> set args" "''-h'' \<notin> set args" by blast+
    from main_unreadable [OF f l]
    show "exitCode (fst (main env args s)) = 1 \<and>
          interactions (trace (snd (main env args s))) = interactions (trace s)"
      by simp
  qed
  have p3: "\<forall>cfg. loadConfig env s = Inr cfg \<longrightarrow>
         exitCode (fst (main env args s))
           = (if endsWithin env (asked s) 6 \<or> writeError env = None then 0 else 1)"
    if a: "''--help'' \<notin> set args \<and> ''-h'' \<notin> set args \<and> ''--config'' \<in> set args"
  proof (intro allI impI)
    fix cfg
    assume lc: "loadConfig env s = Inr cfg"
    from a have f: "''--help'' \<notin> set args" "''-h'' \<notin> set args" "''--config'' \<in> set args"
      by blast+
    show "exitCode (fst (main env args s))
           = (if endsWithin env (asked s) 6 \<or> writeError env = None then 0 else 1)"
      by (simp add: main_config(1) [OF f] configureDeployment_result lc split: option.splits)
  qed
  have p4: "\<forall>cfg. loadConfig env s = Inr cfg \<longrightarrow>
         (\<exists>es. interactions (trace (snd (main env args s))) = interactions (trace s) @ es \<and>
               (exitCode (fst (main env args s)) = 0 \<or> exitCode (fst (main env args s)) = 1) \<and>
               ((\<exists>c a out. Ran c a out \<in> set es \<and> \<not> succeeded out) \<longrightarrow>
                  exitCode (fst (main env args s)) = 1) \<and>
               (exitCode (fst (main env args s)) = 0 \<longleftrightarrow> restored env cfg es))"
    if a: "''--help'' \<notin> set args \<and> ''-h'' \<notin> set args \<and> ''--config'' \<notin> set args \<and>
           ''--rollback'' \<in> set args"
  proof (intro allI impI)
    fix cfg
    assume lc: "loadConfig env s = Inr cfg"
    from a have f: "''--help'' \<notin> set args" "''-h'' \<notin> set args" "''--config'' \<notin> set args"
      "''--rollback'' \<in> set args" by blast+
    from rollback_verdict [of env cfg s]
    obtain es b where i: "interactions (trace (snd (rollback env cfg None s))) = interactions (trace s) @ es"
      and r: "fst (rollback env cfg None s) = Inr b"
      and fl: "(\<exists>c a out. Ran c a out \<in> set es \<and> \<not> succeeded out) \<longrightarrow> \<not> b"
      and re: "b \<longleftrightarrow> restored env cfg es" by blast
    note m = main_rollback [OF f lc r]
    have "interactions (trace (snd (main env args s))) = interactions (trace s) @ es"
      by (simp only: m(2) i)
    moreover have "exitCode (fst (main env args s)) = 0 \<or> exitCode (fst (main env args s)) = 1"
      by (simp add: m(1))
    moreover have "(\<exists>c a out. Ran c a out \<in> set es \<and> \<not> succeeded out) \<longrightarrow>
                   exitCode (fst (main env args s)) = 1"
      using fl by (simp add: m(1))
    moreover have "exitCode (fst (main env args s)) = 0 \<longleftrightarrow> restored env cfg es"
      using re by (simp add: m(1))
    ultimately show "\<exists>es. interactions (trace (snd (main env args s))) = interactions (trace s) @ es \<and>
               (exitCode (fst (main env args s)) = 0 \<or> exitCode (fst (main env args s)) = 1) \<and>
               ((\<exists>c a out. Ran c a out \<in> set es \<and> \<not> succeeded out) \<longrightarrow>
                  exitCode (fst (main env args s)) = 1) \<and>
               (exitCode (fst (main env args s)) = 0 \<longleftrightarrow> restored env cfg es)"
      by (intro exI conjI)
  qed
  have p5: "\<forall>cfg. loadConfig env s = Inr cfg \<longrightarrow>
         (\<exists>es. interactions (trace (snd (main env args s))) = interactions (trace s) @ es \<and>
               (exitCode (fst (main env args s)) = 0 \<or> exitCode (fst (main env args s)) = 1) \<and>
               ((\<exists>e\<in>set es. fatal env cfg e) \<longrightarrow> exitCode (fst (main env args s)) = 1) \<and>
               (exitCode (fst (main env args s)) = 0
                  \<longleftrightarrow> synced env cfg (''--dry-run'' \<in> set args) es \<or> unanswered es) \<and>
               (unanswered es \<longrightarrow>
                  fst (main env args s) = Inl Pending \<and>
                  \<not> synced env cfg (''--dry-run'' \<in> set args) es))"
    if a: "''--help'' \<notin> set args \<and> ''-h'' \<notin> set args \<and> ''--config'' \<notin> set args \<and>
           ''--rollback'' \<notin> set args"
  proof (intro allI impI)
    fix cfg
    assume lc: "loadConfig env s = Inr cfg"
    let ?d = "''--dry-run'' \<in> set args"
    let ?x = "exitCode (fst (main env args s))"
    from a have f: "''--help'' \<notin> set args" "''-h'' \<notin> set args" "''--config'' \<notin> set args"
      "''--rollback'' \<notin> set args" by blast+
    note m = main_deploy [OF f, of env s]
    from deploy_verdict [OF lc, of ?d]
    obtain es where i: "interactions (trace (snd (deploy env ?d s))) = interactions (trace s) @ es"
      and v: "verdict env cfg ?d es (fst (deploy env ?d s)) \<or>
              fst (deploy env ?d s) = Inl Pending \<and> unanswered es \<and> \<not> synced env cfg ?d es \<and>
              (\<forall>e\<in>set es. \<not> fatal env cfg e)" by blast
    have i': "interactions (trace (snd (main env args s))) = interactions (trace s) @ es"
      by (simp only: m(2) i)
    from v have "(?x = 0 \<or> ?x = 1) \<and>
               ((\<exists>e\<in>set es. fatal env cfg e) \<longrightarrow> ?x = 1) \<and>
               (?x = 0 \<longleftrightarrow> synced env cfg ?d es \<or> unanswered es) \<and>
               (unanswered es \<longrightarrow> fst (main env args s) = Inl Pending \<and> \<not> synced env cfg ?d es)"
    proof
      assume v1: "verdict env cfg ?d es (fst (deploy env ?d s))"
      then obtain b where r: "fst (deploy env ?d s) = Inr b"
        by (auto simp: verdict_def)
      from v1 r have nu: "\<not> unanswered es" and fl: "(\<exists>e\<in>set es. fatal env cfg e) \<longrightarrow> \<not> b"
        and sy: "b \<longleftrightarrow> synced env cfg ?d es"
        by (auto simp: verdict_def)
      have x: "fst (main env args s) = Inr (if b then 0 else 1)" by (simp add: m(1) r)
      from nu fl sy show ?thesis by (simp add: x)
    next
      assume v2: "fst (deploy env ?d s) = Inl Pending \<and> unanswered es \<and> \<not> synced env cfg ?d es \<and>
              (\<forall>e\<in>set es. \<not> fatal env cfg e)"
      then have x: "fst (main env args s) = Inl Pending" by (simp add: m(1))
      from v2 show ?thesis by (simp add: x)
    qed
    with i' show "\<exists>es. interactions (trace (snd (main env args s))) = interactions (trace s) @ es \<and>
               (exitCode (fst (main env args s)) = 0 \<or> exitCode (fst (main env args s)) = 1) \<and>
               ((\<exists>e\<in>set es. fatal env cfg e) \<longrightarrow> exitCode (fst (main env args s)) = 1) \<and>
               (exitCode (fst (main env args s)) = 0
                  \<longleftrightarrow> synced env cfg (''--dry-run'' \<in> set args) es \<or> unanswered es) \<and>
               (unanswered es \<longrightarrow>
                  fst (main env args s) = Inl Pending \<and>
                  \<not> synced env cfg (''--dry-run'' \<in> set args) es)"
      by - (rule exI [of _ es], rule conjI)
  qed
  show ?thesis
    apply (intro conjI impI)
        apply (erule p1)
       apply (erule p2)
      apply (erule p3)
     apply (erule p4)
    apply (erule p5)
    done
qed

lemma sample_config_run:
  assumes "\<forall>n. stdin env n = Some []" and "loadConfig env s = Inr cfg" and "writeError env = None"
  shows "fst (main env [''--config''] s) = Inr 0"
proof -
  have f: "''--help'' \<notin> set [''--config'']" "''-h'' \<notin> set [''--config'']"
    "''--config'' \<in> set [''--config'']" by simp_all
  have "\<not> endsWithin env n k" for n k
    using assms(1) by (induction k arbitrary: n) simp_all
  then show ?thesis
    by (simp add: main_config(1) [OF f] configureDeployment_result assms(2,3))
qed

theorem exit_codes_witness:
  "exitCode (fst (main (scripted allSucceed ''y'') [''--help''] (initial ()))) = 0 \<and>
   loadConfig (scripted allSucceed ''y'') corrupt = Inl (Error ''Unexpected end of JSON input'') \<and>
   exitCode (fst (main (scripted allSucceed ''y'') [] corrupt)) = 1 \<and>
   interactions (trace (snd (main (scripted allSucceed ''y'') [] corrupt))) = [] \<and>
   exitCode (fst (main (scripted sshDown []) [''--config''] (initial ()))) = 0 \<and>
   endsWithin endOfInput 0 6 \<and>
   exitCode (fst (main endOfInput [''--config''] (initial ()))) = 0 \<and>
   \<not> endsWithin readOnly 0 6 \<and> writeError readOnly \<noteq> None \<and>
   exitCode (fst (main readOnly [''--config''] (initial ()))) = 1 \<and>
   exitCode (fst (main (scripted threeListed ''y'') [''--rollback''] (initial ()))) = 0 \<and>
   exitCode (fst (main (scripted sshDown ''y'') [] (initial ()))) = 1 \<and>
   exitCode (fst (main (scripted allSucceed ''y'') [''--dry-run''] (initial ()))) = 0 \<and>
   exitCode (fst (main endOfInput [] (initial ()))) = 0 \<and>
   fst (main endOfInput [] (initial ())) = Inl Pending"
proof -
  have ok: "succeeded (Closed (Some 0) [] [])"
    and no: "\<not> succeeded (Closed (Some 255) [] ''ssh: connect to host 203.0.113.7 port 22: Connection refused'')"
    by (simp_all add: succeeded_def)
  have le: "loadConfig endOfInput (initial ()) = Inr sampleConfig"
    and lr: "loadConfig readOnly (initial ()) = Inr sampleConfig"
    by (simp_all add: loadConfig_def endOfInput_def readOnly_def scripted_def initial_def)
  have lc: "loadConfig (scripted allSucceed ''y'') corrupt = Inl (Error ''Unexpected end of JSON input'')"
    by (simp add: loadConfig_def corrupt_def)
  have ee: "endsWithin endOfInput 0 6"
    by (simp add: eval_nat_numeral endOfInput_def)
  have er: "\<not> endsWithin readOnly 0 6"
    by (simp add: eval_nat_numeral readOnly_def scripted_def)
  have wr: "writeError readOnly \<noteq> None" by (simp add: readOnly_def)
  have ws: "writeError (scripted f a) = None" for f a by (simp add: scripted_def)
  have es: "\<not> endsWithin (scripted f a) 0 6" for f a
    by (simp add: eval_nat_numeral scripted_def)
  from exit_codes [of "[''--help'']" "scripted allSucceed ''y''" "initial ()"]
  have 1: "exitCode (fst (main (scripted allSucceed ''y'') [''--help''] (initial ()))) = 0" by simp
  from exit_codes [of "[]" "scripted allSucceed ''y''" corrupt] lc
  have 2: "exitCode (fst (main (scripted allSucceed ''y'') [] corrupt)) = 1 \<and>
           interactions (trace (snd (main (scripted allSucceed ''y'') [] corrupt))) = []"
    by (simp add: corrupt_def initial_def)
  from exit_codes [of "[''--config'']" "scripted sshDown []" "initial ()"]
  have 3: "exitCode (fst (main (scripted sshDown []) [''--config''] (initial ()))) = 0"
    by (simp add: sample_loadConfig ws)
  from exit_codes [of "[''--config'']" endOfInput "initial ()"] ee
  have 4: "exitCode (fst (main endOfInput [''--config''] (initial ()))) = 0"
    by (simp add: le sample_initial)
  from exit_codes [of "[''--config'']" readOnly "initial ()"] er wr
  have 5: "exitCode (fst (main readOnly [''--config''] (initial ()))) = 1"
    by (simp add: lr sample_initial)
  have 6: "exitCode (fst (main (scripted threeListed ''y'') [''--rollback''] (initial ()))) = 0"
  proof -
    let ?E = "scripted threeListed ''y''"
    from exit_codes [of "[''--rollback'']" ?E "initial ()"]
    obtain es where i: "interactions (trace (snd (main ?E [''--rollback''] (initial ())))) = es"
      and r: "exitCode (fst (main ?E [''--rollback''] (initial ()))) = 0 \<longleftrightarrow> restored ?E sampleConfig es"
      by (auto simp: sample_initial sample_loadConfig)
    from i have "es = [Ran ''ssh'' (remote ?E sampleConfig (listCommand sampleConfig))
                         (Closed (Some 0) sampleListing []),
                       Ran ''ssh'' (remote ?E sampleConfig (restoreCommand sampleConfig ''backup-3''))
                         (Closed (Some 0) [] [])]"
      by (simp only: run_rollback)
    then have "restored ?E sampleConfig es" unfolding restored_def using ok by auto
    with r show ?thesis by simp
  qed
  have 7: "exitCode (fst (main (scripted sshDown ''y'') [] (initial ()))) = 1"
  proof -
    let ?E = "scripted sshDown ''y''"
    from exit_codes [of "[]" ?E "initial ()"]
    obtain es where i: "interactions (trace (snd (main ?E [] (initial ())))) = es"
      and r: "(\<exists>e\<in>set es. fatal ?E sampleConfig e) \<longrightarrow> exitCode (fst (main ?E [] (initial ()))) = 1"
      by (auto simp: sample_initial sample_loadConfig)
    from i have "es = [Ran ''ssh'' (remote ?E sampleConfig echoCommand)
        (Closed (Some 255) [] ''ssh: connect to host 203.0.113.7 port 22: Connection refused'')]"
      by (simp only: run_unreachable)
    then have "\<exists>e\<in>set es. fatal ?E sampleConfig e" using no by (simp add: fatal_def)
    with r show ?thesis by simp
  qed
  have 8: "exitCode (fst (main (scripted allSucceed ''y'') [''--dry-run''] (initial ()))) = 0"
  proof -
    let ?E = "scripted allSucceed ''y''"
    from exit_codes [of "[''--dry-run'']" ?E "initial ()"]
    obtain es where i: "interactions (trace (snd (main ?E [''--dry-run''] (initial ())))) = es"
      and r: "exitCode (fst (main ?E [''--dry-run''] (initial ()))) = 0
                \<longleftrightarrow> synced ?E sampleConfig (''--dry-run'' \<in> set [''--dry-run'']) es \<or> unanswered es"
      by (auto simp: sample_initial sample_loadConfig)
    from i have "es = [Ran ''ssh'' (remote ?E sampleConfig echoCommand) (Closed (Some 0) [] []),
      Ran ''rsync'' (rsyncArgs ?E sampleConfig True) (Closed (Some 0) [] [])]"
      by (simp only: run_dry)
    then have "synced ?E sampleConfig True es" unfolding synced_def using ok by auto
    with r show ?thesis by simp
  qed
  have 9: "exitCode (fst (main endOfInput [] (initial ()))) = 0 \<and>
           fst (main endOfInput [] (initial ())) = Inl Pending"
  proof -
    from exit_codes [of "[]" endOfInput "initial ()"]
    obtain es where i: "interactions (trace (snd (main endOfInput [] (initial ())))) = es"
      and r: "unanswered es \<longrightarrow> fst (main endOfInput [] (initial ())) = Inl Pending"
      by (auto simp: sample_initial le)
    from i have "es = [Ran ''ssh'' [''-i'', ''/home/me/.ssh/id_rsa'', ''-p'', ''22'', ''root@203.0.113.7'', echoCommand]
                         (Closed (Some 0) [] []),
                       Unanswered (confirmMessage @ '' (y/N): '')]"
      by (simp only: run_ended)
    then have "unanswered es" by (simp add: unanswered_def)
    with r show ?thesis by simp
  qed
  from 1 lc 2 3 ee 4 er wr 5 6 7 8 9 show ?thesis by (intro conjI) blast+
qed

text \<open>
  Claim C4 as stated fails for \<^verbatim>\<open>--config\<close>: the user accepts every default, the
  connection test of the dialogue fails (\<^verbatim>\<open>ssh\<close> exits with status 255), and the exit code
  is 0.
\<close>

theorem config_exit_code_counterexample:
  "exitCode (fst (main (scripted sshDown []) [''--config''] (initial ()))) = 0 \<and>
   last (interactions (trace (snd (main (scripted sshDown []) [''--config''] (initial ())))))
     = Ran ''ssh'' (remote (scripted sshDown []) sampleConfig echoCommand)
         (Closed (Some 255) [] ''ssh: connect to host 203.0.113.7 port 22: Connection refused'') \<and>
   \<not> succeeded (Closed (Some 255) [] ''ssh: connect to host 203.0.113.7 port 22: Connection refused'') \<and>
   fatal (scripted sshDown []) sampleConfig
     (Ran ''ssh'' (remote (scripted sshDown []) sampleConfig echoCommand)
        (Closed (Some 255) [] ''ssh: connect to host 203.0.113.7 port 22: Connection refused''))"
proof -
  let ?E = "scripted sshDown []"
  have f: "''--help'' \<notin> set [''--config'']" "''-h'' \<notin> set [''--config'']"
    "''--config'' \<in> set [''--config'']" by simp_all
  have d: "\<forall>n. stdin ?E n = Some []" by (simp add: scripted_def)
  have w: "writeError ?E = None" by (simp add: scripted_def)
  have n: "\<not> succeeded (Closed (Some 255) [] ''ssh: connect to host 203.0.113.7 port 22: Connection refused'')"
    by (simp add: succeeded_def)
  have "fst (main ?E [''--config''] (initial ())) = Inr 0"
    by (rule sample_config_run [OF d sample_loadConfig w])
  then have "exitCode (fst (main ?E [''--config''] (initial ()))) = 0" by simp
  moreover have "last (interactions (trace (snd (main ?E [''--config''] (initial ())))))
     = Ran ''ssh'' (remote ?E sampleConfig echoCommand)
         (Closed (Some 255) [] ''ssh: connect to host 203.0.113.7 port 22: Connection refused'')"
    by (simp only: main_config(2) [OF f] configureDeployment_defaults [OF d sample_loadConfig]
          sample_exec fst_conv sshDown_def)
  moreover have "fatal ?E sampleConfig
     (Ran ''ssh'' (remote ?E sampleConfig echoCommand)
        (Closed (Some 255) [] ''ssh: connect to host 203.0.113.7 port 22: Connection refused''))"
    using n by (simp add: fatal_def)
  ultimately show ?thesis using n by blast
qed

end
